theory Spec2Isabelle
  imports Complex_Main "HOL-Library.AList"
begin

section \<open>Platform values: JSON, exceptions, dates, number formatting\<close>

text \<open>
  The server actions of \<^verbatim>\<open>app/actions/import.ts\<close> exchange JavaScript objects with
  their callers and keep several of them JSON-encoded in text columns. A JavaScript
  value that can be encoded is a \<open>json\<close>; an object keeps its properties in insertion
  order, as an association list. \<open>undefined\<close> (a missing property, a missing optional
  argument) is \<open>None\<close> of \<open>json option\<close>. The numbers inside a \<open>json\<close> are integers.
\<close>

datatype json =
    JNull
  | JBool bool
  | JNum int
  | JStr string
  | JArr "json list"
  | JObj "(string \<times> json) list"

type_synonym obj = "(string \<times> json) list"

text \<open>
  Everything thrown is an \<open>Error\<close> with a message. The messages of the errors raised
  by the platform (a \<open>TypeError\<close>, the \<open>SyntaxError\<close> of \<open>JSON.parse\<close>, a rejection by
  the Prisma client) are not modelled: they are separate constructors.
\<close>

datatype exn = Error string | TypeError | SyntaxError | PrismaError

text \<open>
  Sequencing of steps that may throw: the first exception ends the sequence, as it
  leaves the \<open>try\<close> block.
\<close>

definition and_then :: "exn + 'a \<Rightarrow> ('a \<Rightarrow> exn + 'b) \<Rightarrow> exn + 'b" where
  "and_then m f = (case m of Inl e \<Rightarrow> Inl e | Inr x \<Rightarrow> f x)"

fun map_exn :: "('a \<Rightarrow> exn + 'b) \<Rightarrow> 'a list \<Rightarrow> exn + 'b list" where
  "map_exn f [] = Inr []"
| "map_exn f (x # xs) =
     (case f x of
        Inl e \<Rightarrow> Inl e
      | Inr y \<Rightarrow> (case map_exn f xs of Inl e \<Rightarrow> Inl e | Inr ys \<Rightarrow> Inr (y # ys)))"

text \<open>JavaScript truthiness, as tested by \<open>if (v)\<close>, \<open>v || d\<close> and \<open>v ? a : b\<close>.\<close>

fun truthy :: "json option \<Rightarrow> bool" where
  "truthy None = False"
| "truthy (Some JNull) = False"
| "truthy (Some (JBool b)) = b"
| "truthy (Some (JNum n)) = (n \<noteq> 0)"
| "truthy (Some (JStr s)) = (s \<noteq> [])"
| "truthy (Some (JArr xs)) = True"
| "truthy (Some (JObj kvs)) = True"

text \<open>
  Property access \<open>v.k\<close> for the property names this program reads (none of them is a
  built-in property of strings or arrays): on \<open>null\<close> it raises a \<open>TypeError\<close>, on an
  object it is the property or \<open>undefined\<close>, on anything else \<open>undefined\<close>.
\<close>

fun get_prop :: "json \<Rightarrow> string \<Rightarrow> exn + json option" where
  "get_prop JNull k = Inl TypeError"
| "get_prop (JObj kvs) k = Inr (map_of kvs k)"
| "get_prop v k = Inr None"

text \<open>\<open>a || b\<close> on possibly undefined values.\<close>

definition or_else :: "json option \<Rightarrow> json option \<Rightarrow> json option" where
  "or_else a b = (if truthy a then a else b)"

text \<open>
  A text column that holds a JSON encoding. The model identifies the text written by
  \<open>JSON.stringify v\<close> with the value \<open>v\<close> it encodes, so two such texts are equal
  exactly when they encode the same value; any other text is \<open>Malformed\<close>, and
  \<open>JSON.parse\<close> raises a \<open>SyntaxError\<close> on it.
\<close>

datatype json_text = Stringified json | Malformed string

definition JSON_stringify :: "json \<Rightarrow> json_text" where
  "JSON_stringify v = Stringified v"

fun JSON_parse :: "json_text \<Rightarrow> exn + json" where
  "JSON_parse (Stringified v) = Inr v"
| "JSON_parse (Malformed s) = Inl SyntaxError"

text \<open>Truthiness of a nullable text column: \<open>null\<close> and the empty text are falsy.\<close>

fun text_truthy :: "json_text option \<Rightarrow> bool" where
  "text_truthy None = False"
| "text_truthy (Some (Malformed s)) = (s \<noteq> [])"
| "text_truthy (Some (Stringified v)) = True"

text \<open>
  A \<open>Date\<close> object, by the three observations the program makes of it. The calendar
  arithmetic that relates them is the platform's and is not modelled.
\<close>

record date =
  getTime :: nat
  getFullYear :: int
  toISOString :: string

text \<open>\<open>Number.prototype.toString\<close> on integers, in base ten.\<close>

definition digit_char :: "nat \<Rightarrow> char" where
  "digit_char d = ''0123456789'' ! (d mod 10)"

fun digits :: "nat \<Rightarrow> string" where
  "digits n = (if n < 10 then [digit_char n] else digits (n div 10) @ [digit_char (n mod 10)])"

declare digits.simps [simp del]

definition Number_toString :: "int \<Rightarrow> string" where
  "Number_toString i = (if i < 0 then CHR ''-'' # digits (nat (- i)) else digits (nat i))"

text \<open>\<open>s.slice(-n)\<close>: the last \<open>n\<close> characters, or all of \<open>s\<close> when it is shorter.\<close>

definition slice_from_end :: "nat \<Rightarrow> string \<Rightarrow> string" where
  "slice_from_end n s = drop (length s - n) s"

text \<open>\<open>s.padStart(n, c)\<close> with a one-character filler.\<close>

definition padStart :: "nat \<Rightarrow> char \<Rightarrow> string \<Rightarrow> string" where
  "padStart n c s = replicate (n - length s) c @ s"

text \<open>
  A Number is an IEEE 754 binary64 value. The Numbers of the program that are not
  integers are the draw of \<open>Math.random()\<close> and its product with \<open>10000\<close>; both are finite
  and not negative. Such a Number is \<open>m * 2^e\<close> for a significand \<open>m\<close> below \<open>2^53\<close> and an
  exponent \<open>e\<close> from \<open>-1074\<close> to \<open>971\<close>; the record holds one such pair (a value can have
  several), and sign, \<open>NaN\<close> and \<open>Infinity\<close> are left out.
\<close>

record binary64 =
  significand :: nat
  exponent :: int

definition is_binary64 :: "binary64 \<Rightarrow> bool" where
  "is_binary64 x \<longleftrightarrow> significand x < 2 ^ 53 \<and> - 1074 \<le> exponent x \<and> exponent x \<le> 971"

definition Number_value :: "binary64 \<Rightarrow> real" where
  "Number_value x =
     (if 0 \<le> exponent x then real (significand x) * 2 ^ nat (exponent x)
      else real (significand x) / 2 ^ nat (- exponent x))"

text \<open>An integer literal below \<open>2^53\<close>, such as \<open>10000\<close>, denotes the Number of that value.\<close>

definition Number_of_nat :: "nat \<Rightarrow> binary64" where
  "Number_of_nat n = \<lparr> significand = n, exponent = 0 \<rparr>"

text \<open>The number of binary digits of \<open>n\<close>: the least \<open>b\<close> with \<open>n < 2^b\<close>.\<close>

fun bit_length :: "nat \<Rightarrow> nat" where
  "bit_length n = (if n = 0 then 0 else Suc (bit_length (n div 2)))"

declare bit_length.simps [simp del]

text \<open>
  \<open>n / 2^k\<close> rounded to the nearest integer, a tie to the even one (the rounding mode
  of every arithmetic operation of JavaScript).
\<close>

definition round_half_even :: "nat \<Rightarrow> nat \<Rightarrow> nat" where
  "round_half_even n k =
     (let q = n div 2 ^ k; r = n mod 2 ^ k
      in if 2 * r < 2 ^ k then q
         else if 2 ^ k < 2 * r then q + 1
         else if even q then q else q + 1)"

text \<open>
  \<open>x * y\<close> on Numbers: the exact product, rounded to the nearest binary64 value. The
  exact product of \<open>m1 * 2^e1\<close> and \<open>m2 * 2^e2\<close> is \<open>m1 * m2 * 2^(e1 + e2)\<close>. Its significand
  keeps 53 binary digits, so it loses its low \<open>k\<close> digits when it has \<open>53 + k\<close>, and it
  loses the digits below \<open>2^-1074\<close>, the step of the subnormal Numbers. (A product of
  \<open>2^1024\<close> or more is \<open>Infinity\<close>, which the one product of the program, of a draw below
  1 and \<open>10000\<close>, is far from.)
\<close>

definition Number_times :: "binary64 \<Rightarrow> binary64 \<Rightarrow> binary64" where
  "Number_times x y =
     (let m = significand x * significand y;
          e = exponent x + exponent y;
          k = nat (max (int (bit_length m) - 53) (- 1074 - e))
      in \<lparr> significand = round_half_even m k, exponent = e + int k \<rparr>)"

text \<open>
  \<open>Math.floor\<close> of a Number that is not negative. The result is an integer, which
  \<open>Number_toString\<close> prints.
\<close>

definition Math_floor :: "binary64 \<Rightarrow> int" where
  "Math_floor x = \<lfloor>Number_value x\<rfloor>"

section \<open>The datastore\<close>

text \<open>
  The rows of the Prisma models, with the columns the actions read or write. A column
  keeps the name it has in the source behind the prefix of its model, since the
  models share column names.
\<close>

record user =
  u_id :: string

record session =
  session_user :: "user option"

record consignee_row =
  c_id :: string
  c_name :: string
  c_registeredName :: string
  c_businessAddress :: string
  c_tin :: string
  c_brn :: string
  c_contactPerson :: string
  c_contactNumber :: string
  c_email :: string
  c_userId :: string
  c_createdAt :: date

record exporter_row =
  e_id :: string
  e_name :: string
  e_businessAddress :: string
  e_contactPerson :: string
  e_contactNumber :: string
  e_email :: string
  e_userId :: string
  e_createdAt :: date

text \<open>The verified documents of a consignee (the relation \<open>consignee.documents\<close>).\<close>

record document_row =
  d_id :: string
  d_name :: string
  d_fileUrl :: string
  d_uploadedAt :: date
  d_isVerified :: bool
  d_consigneeId :: string

record shipment_row =
  s_id :: string
  s_referenceNumber :: string
  s_freightType :: string
  s_status :: string
  s_consigneeId :: "string option"
  s_exporterId :: "string option"
  s_userId :: string
  s_consigneeData :: json_text
  s_exporterData :: json_text
  s_shipmentDetails :: json_text
  s_documentsData :: json_text
  s_timelineData :: json_text
  s_notesData :: json_text
  s_computations :: "json_text option"
  s_cargoData :: "json_text option"
  s_statementOfFactsData :: "json_text option"
  s_completionDate :: "date option"
  s_isLocked :: bool
  s_createdAt :: date
  s_updatedAt :: date

text \<open>
  The state the actions work on: the tables, each in insertion order, and the paths
  handed to \<open>revalidatePath\<close> so far.
\<close>

record store =
  consignee_tbl :: "consignee_row list"
  exporter_tbl :: "exporter_row list"
  shipment_tbl :: "shipment_row list"
  document_tbl :: "document_row list"
  revalidated :: "string list"

text \<open>
  What a call takes from its environment: the session \<open>validateSession()\<close> yields, the
  \<open>Date\<close> that \<open>new Date()\<close> builds, the draw of \<open>Math.random()\<close>, and the identifier the
  datastore gives to a row created in each table. \<open>Math.random()\<close> returns a Number
  that is at least 0 and below 1: a draw \<open>x\<close> with \<open>is_binary64 x\<close> and \<open>Number_value x < 1\<close>.
\<close>

datatype model = ConsigneeModel | ExporterModel | ShipmentModel

record env =
  validateSession :: "session option"
  now :: date
  random :: binary64
  newId :: "model \<Rightarrow> string"

subsection \<open>Prisma operations\<close>

text \<open>
  An argument of a string column in \<open>where\<close> or \<open>data\<close>: the client rejects a value that
  is not a string; \<open>undefined\<close> is accepted in a filter and means that the filter is
  absent.
\<close>

fun filter_arg :: "json option \<Rightarrow> exn + string option" where
  "filter_arg None = Inr None"
| "filter_arg (Some (JStr s)) = Inr (Some s)"
| "filter_arg (Some v) = Inl PrismaError"

fun data_arg :: "json option \<Rightarrow> exn + string" where
  "data_arg (Some (JStr s)) = Inr s"
| "data_arg v = Inl PrismaError"

text \<open>
  \<open>findFirst\<close> returns the first matching row in table order. In an \<open>OR\<close> list an absent
  filter matches nothing, in an \<open>AND\<close> list it matches everything.
\<close>

definition or_filter :: "string option \<Rightarrow> string \<Rightarrow> bool" where
  "or_filter a x = (a = Some x)"

definition and_filter :: "string option \<Rightarrow> string \<Rightarrow> bool" where
  "and_filter a x = (case a of None \<Rightarrow> True | Some y \<Rightarrow> y = x)"

text \<open>
  \<open>tx.consignee.findFirst({ where: { OR: [{ tin }, { name }], userId } })\<close>
\<close>

definition consignee_findFirst_tin_or_name ::
  "json option \<Rightarrow> json option \<Rightarrow> string \<Rightarrow> store \<Rightarrow> exn + consignee_row option" where
  "consignee_findFirst_tin_or_name tin name userId s =
     and_then (filter_arg tin) (\<lambda>t.
     and_then (filter_arg name) (\<lambda>n.
       Inr (find (\<lambda>r. (or_filter t (c_tin r) \<or> or_filter n (c_name r)) \<and> c_userId r = userId)
              (consignee_tbl s))))"

text \<open>
  \<open>tx.exporter.findFirst({ where: { AND: [{ name }, { businessAddress }], userId } })\<close>
\<close>

definition exporter_findFirst_name_and_address ::
  "json option \<Rightarrow> json option \<Rightarrow> string \<Rightarrow> store \<Rightarrow> exn + exporter_row option" where
  "exporter_findFirst_name_and_address name address userId s =
     and_then (filter_arg name) (\<lambda>n.
     and_then (filter_arg address) (\<lambda>a.
       Inr (find (\<lambda>r. (and_filter n (e_name r) \<and> and_filter a (e_businessAddress r))
                      \<and> e_userId r = userId)
              (exporter_tbl s))))"

text \<open>
  \<open>create\<close> appends the row; the identifier is a primary key, so an identifier that
  is already in the table is rejected.
\<close>

definition consignee_create :: "consignee_row \<Rightarrow> store \<Rightarrow> exn + store" where
  "consignee_create r s =
     (if c_id r \<in> set (map c_id (consignee_tbl s)) then Inl PrismaError
      else Inr (s\<lparr>consignee_tbl := consignee_tbl s @ [r]\<rparr>))"

definition exporter_create :: "exporter_row \<Rightarrow> store \<Rightarrow> exn + store" where
  "exporter_create r s =
     (if e_id r \<in> set (map e_id (exporter_tbl s)) then Inl PrismaError
      else Inr (s\<lparr>exporter_tbl := exporter_tbl s @ [r]\<rparr>))"

definition shipment_create :: "shipment_row \<Rightarrow> store \<Rightarrow> exn + store" where
  "shipment_create r s =
     (if s_id r \<in> set (map s_id (shipment_tbl s)) then Inl PrismaError
      else Inr (s\<lparr>shipment_tbl := shipment_tbl s @ [r]\<rparr>))"

text \<open>\<open>findUnique({ where: { id, userId } })\<close> and \<open>findUnique({ where: { id } })\<close>.\<close>

definition shipment_findUnique_owned :: "string \<Rightarrow> string \<Rightarrow> store \<Rightarrow> shipment_row option" where
  "shipment_findUnique_owned id' userId s =
     find (\<lambda>r. s_id r = id' \<and> s_userId r = userId) (shipment_tbl s)"

definition shipment_findUnique :: "string \<Rightarrow> store \<Rightarrow> shipment_row option" where
  "shipment_findUnique id' s = find (\<lambda>r. s_id r = id') (shipment_tbl s)"

definition consignee_findUnique :: "string \<Rightarrow> store \<Rightarrow> consignee_row option" where
  "consignee_findUnique id' s = find (\<lambda>r. c_id r = id') (consignee_tbl s)"

definition exporter_findUnique :: "string \<Rightarrow> store \<Rightarrow> exporter_row option" where
  "exporter_findUnique id' s = find (\<lambda>r. e_id r = id') (exporter_tbl s)"

text \<open>
  \<open>shipment.update({ where: { id }, data })\<close>: the row with that identifier is
  replaced by its update; the client rejects the call when there is no such row. A
  column that \<open>data\<close> does not name keeps its value: the actions set \<open>updatedAt\<close>
  themselves where they want it touched.
\<close>

fun update_first :: "('a \<Rightarrow> bool) \<Rightarrow> ('a \<Rightarrow> 'a) \<Rightarrow> 'a list \<Rightarrow> 'a list" where
  "update_first P f [] = []"
| "update_first P f (x # xs) = (if P x then f x # xs else x # update_first P f xs)"

definition shipment_update ::
  "string \<Rightarrow> (shipment_row \<Rightarrow> shipment_row) \<Rightarrow> store \<Rightarrow> exn + (shipment_row \<times> store)" where
  "shipment_update id' f s =
     (case shipment_findUnique id' s of
        None \<Rightarrow> Inl PrismaError
      | Some r \<Rightarrow>
          Inr (f r, s\<lparr>shipment_tbl := update_first (\<lambda>r. s_id r = id') f (shipment_tbl s)\<rparr>))"

text \<open>The relations fetched by \<open>include\<close>.\<close>

definition shipment_consignee :: "shipment_row \<Rightarrow> store \<Rightarrow> consignee_row option" where
  "shipment_consignee r s =
     (case s_consigneeId r of None \<Rightarrow> None | Some i \<Rightarrow> consignee_findUnique i s)"

definition shipment_exporter :: "shipment_row \<Rightarrow> store \<Rightarrow> exporter_row option" where
  "shipment_exporter r s =
     (case s_exporterId r of None \<Rightarrow> None | Some i \<Rightarrow> exporter_findUnique i s)"

definition consignee_documents :: "consignee_row \<Rightarrow> store \<Rightarrow> document_row list" where
  "consignee_documents c s = filter (\<lambda>d. d_consigneeId d = c_id c) (document_tbl s)"

text \<open>\<open>revalidatePath(path)\<close> marks the rendered page of that path as stale.\<close>

definition revalidatePath :: "string \<Rightarrow> store \<Rightarrow> store" where
  "revalidatePath path s = s\<lparr>revalidated := revalidated s @ [path]\<rparr>"

section \<open>The server actions\<close>

text \<open>
  \<open>getCurrentUser\<close>: the user of the session, or the error \<open>Unauthorized\<close> when there
  is no session or the session has no user.
\<close>

definition getCurrentUser :: "env \<Rightarrow> exn + user" where
  "getCurrentUser env =
     (case validateSession env of
        None \<Rightarrow> Inl (Error ''Unauthorized'')
      | Some session \<Rightarrow>
          (case session_user session of
             None \<Rightarrow> Inl (Error ''Unauthorized'')
           | Some u \<Rightarrow> Inr u))"


subsection \<open>createShipmentAction\<close>

text \<open>
  \<open>Partial<ShipmentData>\<close>, by the fields the actions read: the three objects and the
  five lists, each optional.
\<close>

record partial_ShipmentData =
  pd_consignee :: "obj option"
  pd_exporter :: "obj option"
  pd_shipmentDetails :: "obj option"
  pd_documents :: "json list option"
  pd_timeline :: "json list option"
  pd_notes :: "json list option"
  pd_cargo :: "json list option"
  pd_statementOfFacts :: "json list option"

text \<open>\<open>data.formData.shipmentDetails?.k\<close>\<close>

definition shipmentDetails_prop :: "partial_ShipmentData \<Rightarrow> string \<Rightarrow> json option" where
  "shipmentDetails_prop formData k =
     (case pd_shipmentDetails formData of None \<Rightarrow> None | Some d \<Rightarrow> map_of d k)"

text \<open>\<open>v || ''\<close>\<close>

definition or_empty :: "json option \<Rightarrow> json option" where
  "or_empty v = or_else v (Some (JStr []))"

text \<open>
  The block under \<open>// Handle Consignee\<close>: it yields the value of \<open>consigneeId\<close> and
  the datastore of the transaction after it.
\<close>

definition handleConsignee ::
  "env \<Rightarrow> user \<Rightarrow> partial_ShipmentData \<Rightarrow> store \<Rightarrow> exn + (string option \<times> store)" where
  "handleConsignee env user formData tx =
     (case pd_consignee formData of
        None \<Rightarrow> Inr (None, tx)
      | Some consignee \<Rightarrow>
          if truthy (map_of consignee ''id'') then
            and_then (consignee_findFirst_tin_or_name
                        (map_of consignee ''tin'') (map_of consignee ''name'') (u_id user) tx)
              (\<lambda>existingConsignee.
                 case existingConsignee of
                   Some existing \<Rightarrow> Inr (Some (c_id existing), tx)
                 | None \<Rightarrow>
                     and_then (data_arg (map_of consignee ''name'')) (\<lambda>name.
                     and_then (data_arg (map_of consignee ''address'')) (\<lambda>address.
                     and_then (data_arg (or_empty (map_of consignee ''tin''))) (\<lambda>tin.
                     and_then (data_arg (or_empty (map_of consignee ''brn''))) (\<lambda>brn.
                     and_then (data_arg (or_empty (shipmentDetails_prop formData ''contact_person'')))
                       (\<lambda>contactPerson.
                     and_then (data_arg (or_empty (shipmentDetails_prop formData ''contact_number'')))
                       (\<lambda>contactNumber.
                     let newConsignee =
                       \<lparr> c_id = newId env ConsigneeModel,
                         c_name = name,
                         c_registeredName = name,
                         c_businessAddress = address,
                         c_tin = tin,
                         c_brn = brn,
                         c_contactPerson = contactPerson,
                         c_contactNumber = contactNumber,
                         c_email = [],
                         c_userId = u_id user,
                         c_createdAt = now env \<rparr>
                     in and_then (consignee_create newConsignee tx) (\<lambda>tx'.
                          Inr (Some (c_id newConsignee), tx')))))))))
          else Inr (None, tx))"

text \<open>The block under \<open>// Handle Exporter\<close>, with the value of \<open>exporterId\<close>.\<close>

definition handleExporter ::
  "env \<Rightarrow> user \<Rightarrow> partial_ShipmentData \<Rightarrow> store \<Rightarrow> exn + (string option \<times> store)" where
  "handleExporter env user formData tx =
     (case pd_exporter formData of
        None \<Rightarrow> Inr (None, tx)
      | Some exporter \<Rightarrow>
          and_then (exporter_findFirst_name_and_address
                      (map_of exporter ''name'') (map_of exporter ''address'') (u_id user) tx)
            (\<lambda>existingExporter.
               case existingExporter of
                 Some existing \<Rightarrow> Inr (Some (e_id existing), tx)
               | None \<Rightarrow>
                   and_then (data_arg (map_of exporter ''name'')) (\<lambda>name.
                   and_then (data_arg (map_of exporter ''address'')) (\<lambda>address.
                   let newExporter =
                     \<lparr> e_id = newId env ExporterModel,
                       e_name = name,
                       e_businessAddress = address,
                       e_contactPerson = [],
                       e_contactNumber = [],
                       e_email = [],
                       e_userId = u_id user,
                       e_createdAt = now env \<rparr>
                   in and_then (exporter_create newExporter tx) (\<lambda>tx'.
                        Inr (Some (e_id newExporter), tx'))))))"

text \<open>
  The template literal of \<open>referenceNumber\<close>,
  \<^verbatim>\<open>CLEX-${data.shipmentType}${new Date().getFullYear().toString().slice(-2)}-${Math.floor(Math.random() * 10000).toString().padStart(4, '0')}\<close>.
  The product is a product of Numbers, rounded before \<open>Math.floor\<close> sees it.
\<close>

definition referenceNumber :: "string \<Rightarrow> env \<Rightarrow> string" where
  "referenceNumber shipmentType env =
     ''CLEX-'' @ shipmentType
       @ slice_from_end 2 (Number_toString (getFullYear (now env)))
       @ ''-''
       @ padStart 4 (CHR ''0'')
           (Number_toString (Math_floor (Number_times (random env) (Number_of_nat 10000))))"

text \<open>\<open>v || {}\<close> and \<open>v || []\<close> on an optional object and an optional list.\<close>

definition or_empty_object :: "obj option \<Rightarrow> json" where
  "or_empty_object v = (case v of None \<Rightarrow> JObj [] | Some kvs \<Rightarrow> JObj kvs)"

definition or_empty_list :: "json list option \<Rightarrow> json" where
  "or_empty_list v = (case v of None \<Rightarrow> JArr [] | Some xs \<Rightarrow> JArr xs)"

text \<open>
  The \<open>data\<close> of \<open>tx.shipment.create\<close>, with the defaults of the columns it does not
  name. The \<open>Date\<close> of the timeline entry is encoded by its \<open>toISOString\<close>.
\<close>

definition new_shipment ::
  "env \<Rightarrow> user \<Rightarrow> string \<Rightarrow> partial_ShipmentData \<Rightarrow> string option \<Rightarrow> string option
     \<Rightarrow> shipment_row" where
  "new_shipment env user shipmentType formData consigneeId exporterId =
     \<lparr> s_id = newId env ShipmentModel,
       s_referenceNumber = referenceNumber shipmentType env,
       s_freightType = shipmentType,
       s_status = ''CLIENT_DETAILS'',
       s_consigneeId = consigneeId,
       s_exporterId = exporterId,
       s_userId = u_id user,
       s_consigneeData = JSON_stringify (or_empty_object (pd_consignee formData)),
       s_exporterData = JSON_stringify (or_empty_object (pd_exporter formData)),
       s_shipmentDetails = JSON_stringify (or_empty_object (pd_shipmentDetails formData)),
       s_documentsData = JSON_stringify (or_empty_list (pd_documents formData)),
       s_timelineData = JSON_stringify (JArr [JObj
          [(''status'', JStr ''CLIENT_DETAILS''),
           (''timestamp'', JStr (toISOString (now env))),
           (''description'', JStr ''Shipment created'')]]),
       s_notesData = JSON_stringify (JArr []),
       s_computations = Some (JSON_stringify (JObj [])),
       s_cargoData = None,
       s_statementOfFactsData = None,
       s_completionDate = None,
       s_isLocked = False,
       s_createdAt = now env,
       s_updatedAt = now env \<rparr>"

record createShipment_result =
  cr_success :: bool
  cr_referenceNumber :: string
  cr_shipment :: shipment_row

text \<open>
  The body of \<open>prisma.$transaction\<close>. An exception inside it rolls the transaction
  back: the result \<open>Inl\<close> carries no datastore, and the caller keeps the one it had.
\<close>

definition createShipment_transaction ::
  "env \<Rightarrow> user \<Rightarrow> string \<Rightarrow> partial_ShipmentData \<Rightarrow> store
     \<Rightarrow> exn + (createShipment_result \<times> store)" where
  "createShipment_transaction env user shipmentType formData tx =
     and_then (handleConsignee env user formData tx) (\<lambda>(consigneeId, tx1).
     and_then (handleExporter env user formData tx1) (\<lambda>(exporterId, tx2).
     let shipment = new_shipment env user shipmentType formData consigneeId exporterId
     in and_then (shipment_create shipment tx2) (\<lambda>tx3.
          Inr (\<lparr> cr_success = True,
                 cr_referenceNumber = s_referenceNumber shipment,
                 cr_shipment = shipment \<rparr>, tx3))))"

definition createShipmentAction ::
  "env \<Rightarrow> string \<Rightarrow> partial_ShipmentData \<Rightarrow> store \<Rightarrow> exn + (createShipment_result \<times> store)"
  where
  "createShipmentAction env shipmentType formData s =
     (case and_then (getCurrentUser env)
             (\<lambda>user. createShipment_transaction env user shipmentType formData s) of
        Inl error \<Rightarrow> Inl (Error ''Failed to create shipment'')
      | Inr r \<Rightarrow> Inr r)"

subsection \<open>getSavedEntitiesAction\<close>

datatype client_type = consignee | exporter

text \<open>\<open>findMany({ where: { userId }, orderBy: { createdAt: 'desc' } })\<close>\<close>

definition consignee_findMany :: "string \<Rightarrow> store \<Rightarrow> consignee_row list" where
  "consignee_findMany userId s =
     sort_key (\<lambda>r. - int (getTime (c_createdAt r)))
       (filter (\<lambda>r. c_userId r = userId) (consignee_tbl s))"

definition exporter_findMany :: "string \<Rightarrow> store \<Rightarrow> exporter_row list" where
  "exporter_findMany userId s =
     sort_key (\<lambda>r. - int (getTime (e_createdAt r)))
       (filter (\<lambda>r. e_userId r = userId) (exporter_tbl s))"

definition shipment_findMany :: "string \<Rightarrow> store \<Rightarrow> shipment_row list" where
  "shipment_findMany userId s =
     sort_key (\<lambda>r. - int (getTime (s_createdAt r)))
       (filter (\<lambda>r. s_userId r = userId) (shipment_tbl s))"

definition consignee_summary :: "consignee_row \<Rightarrow> json" where
  "consignee_summary c = JObj
     [(''id'', JStr (c_id c)),
      (''name'', JStr (c_name c)),
      (''address'', JStr (c_businessAddress c)),
      (''tin'', JStr (c_tin c)),
      (''brn'', JStr (c_brn c)),
      (''contactPerson'', JStr (c_contactPerson c)),
      (''contactNumber'', JStr (c_contactNumber c)),
      (''email'', JStr (c_email c))]"

definition exporter_summary :: "exporter_row \<Rightarrow> json" where
  "exporter_summary e = JObj
     [(''id'', JStr (e_id e)),
      (''name'', JStr (e_name e)),
      (''address'', JStr (e_businessAddress e)),
      (''contactPerson'', JStr (e_contactPerson e)),
      (''contactNumber'', JStr (e_contactNumber e)),
      (''email'', JStr (e_email e))]"

definition getSavedEntitiesAction :: "env \<Rightarrow> client_type \<Rightarrow> store \<Rightarrow> json list" where
  "getSavedEntitiesAction env type s =
     (case and_then (getCurrentUser env) (\<lambda>user.
             if type = consignee
             then Inr (map consignee_summary (consignee_findMany (u_id user) s))
             else Inr (map exporter_summary (exporter_findMany (u_id user) s))) of
        Inl error \<Rightarrow> []
      | Inr r \<Rightarrow> r)"

subsection \<open>processDocumentUploadAction\<close>

record File =
  file_name :: string

record upload_result =
  up_success :: bool
  up_fileUrl :: string
  up_status :: string

text \<open>
  The spread of an iterable into an array literal, \<open>[...v]\<close>: the elements of an
  array, the characters of a string; anything else is not iterable.
\<close>

fun spread :: "json option \<Rightarrow> exn + json list" where
  "spread (Some (JArr xs)) = Inr xs"
| "spread (Some (JStr cs)) = Inr (map (\<lambda>c. JStr [c]) cs)"
| "spread v = Inl TypeError"

text \<open>
  The callback of \<open>documents.map\<close>. Reading \<open>doc.name\<close> of \<open>null\<close> throws; an entry
  that is no object has no \<open>name\<close> and is returned as it is. In the object literal
  \<open>{ ...doc, status, files }\<close> a property that \<open>doc\<close> has keeps its place and takes the
  new value, and one it lacks is added at the end.
\<close>

fun upload_to_doc :: "string \<Rightarrow> string \<Rightarrow> json \<Rightarrow> exn + json" where
  "upload_to_doc documentType simulatedUrl JNull = Inl TypeError"
| "upload_to_doc documentType simulatedUrl (JObj doc) =
     (if map_of doc ''name'' = Some (JStr documentType) then
        and_then (spread (or_else (map_of doc ''files'') (Some (JArr [])))) (\<lambda>files.
          Inr (JObj (AList.update ''files'' (JArr (files @ [JStr simulatedUrl]))
                      (AList.update ''status'' (JStr ''draft'') doc))))
      else Inr (JObj doc))"
| "upload_to_doc documentType simulatedUrl doc = Inr doc"

text \<open>\<open>documents.map(f)\<close> on a parsed value: only an array has \<open>map\<close>.\<close>

fun array_map :: "(json \<Rightarrow> exn + json) \<Rightarrow> json \<Rightarrow> exn + json" where
  "array_map f (JArr xs) = and_then (map_exn f xs) (\<lambda>ys. Inr (JArr ys))"
| "array_map f v = Inl TypeError"

definition simulatedUrl :: "string \<Rightarrow> string \<Rightarrow> env \<Rightarrow> File \<Rightarrow> string" where
  "simulatedUrl shipmentId documentType env f =
     ''/simulated-uploads/'' @ shipmentId @ ''/'' @ documentType @ ''-''
       @ Number_toString (int (getTime (now env))) @ ''-'' @ file_name f"

definition processDocumentUploadAction ::
  "env \<Rightarrow> string \<Rightarrow> string \<Rightarrow> File \<Rightarrow> store \<Rightarrow> exn + (upload_result \<times> store)" where
  "processDocumentUploadAction env shipmentId documentType f s =
     (case and_then (getCurrentUser env) (\<lambda>user.
             case shipment_findUnique_owned shipmentId (u_id user) s of
               None \<Rightarrow> Inl (Error ''Shipment not found or unauthorized'')
             | Some shipment \<Rightarrow>
                 let url = simulatedUrl shipmentId documentType env f in
                 and_then (JSON_parse (s_documentsData shipment)) (\<lambda>documents.
                 and_then (array_map (upload_to_doc documentType url) documents) (\<lambda>updatedDocuments.
                 and_then (shipment_update shipmentId
                             (\<lambda>r. r\<lparr>s_documentsData := JSON_stringify updatedDocuments\<rparr>) s)
                   (\<lambda>(updated, s').
                      Inr (\<lparr> up_success = True, up_fileUrl = url, up_status = ''draft'' \<rparr>, s'))))) of
        Inl error \<Rightarrow> Inl (Error ''Failed to process document upload'')
      | Inr r \<Rightarrow> Inr r)"

subsection \<open>getShipmentsAction\<close>

record ShipmentListItem =
  li_id :: string
  li_referenceNumber :: string
  li_consignee :: json
  li_type :: string
  li_blNumber :: "json option"
  li_awbNumber :: "json option"
  li_status :: string
  li_eta :: json
  li_completionDate :: "string option"
  li_lastUpdate :: string
  li_isLocked :: bool

record getShipments_result =
  gs_success :: bool
  gs_data :: "ShipmentListItem list"

text \<open>\<open>v || undefined\<close> and \<open>v || null\<close>\<close>

definition or_undefined :: "json option \<Rightarrow> json option" where
  "or_undefined v = (if truthy v then v else None)"

definition or_null :: "json option \<Rightarrow> json" where
  "or_null v = (if truthy v then the v else JNull)"

text \<open>
  \<open>shipment.consignee?.name || JSON.parse(shipment.consigneeData).name || 'N/A'\<close>:
  the snapshot is parsed only when the relation gives no name.
\<close>

definition list_consignee_name :: "shipment_row \<Rightarrow> store \<Rightarrow> exn + json" where
  "list_consignee_name shipment s =
     (let relationName =
            (case shipment_consignee shipment s of
               None \<Rightarrow> None
             | Some c \<Rightarrow> Some (JStr (c_name c)))
      in if truthy relationName then Inr (the relationName)
         else and_then (JSON_parse (s_consigneeData shipment)) (\<lambda>snapshot.
              and_then (get_prop snapshot ''name'') (\<lambda>snapshotName.
                Inr (if truthy snapshotName then the snapshotName else JStr ''N/A''))))"

definition transform_shipment :: "store \<Rightarrow> shipment_row \<Rightarrow> exn + ShipmentListItem" where
  "transform_shipment s shipment =
     and_then (JSON_parse (s_shipmentDetails shipment)) (\<lambda>shipmentDetails.
     let shipmentType = (if s_freightType shipment = ''IMS'' then ''sea'' else ''air'') in
     and_then (list_consignee_name shipment s) (\<lambda>consigneeName.
     and_then (if shipmentType = ''sea''
               then and_then (get_prop shipmentDetails ''bl_number'') (\<lambda>v. Inr (or_undefined v))
               else Inr None) (\<lambda>blNumber.
     and_then (if shipmentType = ''air''
               then and_then (get_prop shipmentDetails ''awb_number'') (\<lambda>v. Inr (or_undefined v))
               else Inr None) (\<lambda>awbNumber.
     and_then (get_prop shipmentDetails ''eta'') (\<lambda>eta.
       Inr \<lparr> li_id = s_id shipment,
             li_referenceNumber = s_referenceNumber shipment,
             li_consignee = consigneeName,
             li_type = shipmentType,
             li_blNumber = blNumber,
             li_awbNumber = awbNumber,
             li_status = s_status shipment,
             li_eta = or_null eta,
             li_completionDate =
               (case s_completionDate shipment of
                  None \<Rightarrow> None
                | Some d \<Rightarrow> if toISOString d = [] then None else Some (toISOString d)),
             li_lastUpdate = toISOString (s_updatedAt shipment),
             li_isLocked = s_isLocked shipment \<rparr>)))))"

definition getShipmentsAction :: "env \<Rightarrow> store \<Rightarrow> getShipments_result" where
  "getShipmentsAction env s =
     (case and_then (getCurrentUser env) (\<lambda>user.
             map_exn (transform_shipment s) (shipment_findMany (u_id user) s)) of
        Inl error \<Rightarrow> \<lparr> gs_success = False, gs_data = [] \<rparr>
      | Inr transformedShipments \<Rightarrow> \<lparr> gs_success = True, gs_data = transformedShipments \<rparr>)"

subsection \<open>getShipmentByIdAction\<close>

text \<open>
  \<open>ShipmentData\<close> as the actions build it. A \<open>Date\<close> inside a projected object is
  given by its \<open>toISOString\<close>.
\<close>

record ShipmentData =
  sd_id :: string
  sd_referenceNumber :: string
  sd_status :: string
  sd_consignee :: json
  sd_exporter :: json
  sd_shipmentDetails :: json
  sd_documents :: json
  sd_timeline :: json
  sd_notes :: json
  sd_computations :: json
  sd_cargo :: json
  sd_statementOfFacts :: json

definition document_json :: "document_row \<Rightarrow> json" where
  "document_json d = JObj
     [(''id'', JStr (d_id d)),
      (''name'', JStr (d_name d)),
      (''fileUrl'', JStr (d_fileUrl d)),
      (''uploadedAt'', JStr (toISOString (d_uploadedAt d))),
      (''isVerified'', JBool (d_isVerified d)),
      (''consigneeId'', JStr (d_consigneeId d))]"

definition document_view :: "document_row \<Rightarrow> json" where
  "document_view doc = JObj
     [(''id'', JStr (d_id doc)),
      (''name'', JStr (d_name doc)),
      (''url'', JStr (d_fileUrl doc)),
      (''uploadedAt'', JStr (toISOString (d_uploadedAt doc))),
      (''isVerified'', JBool (d_isVerified doc))]"

definition consignee_view :: "consignee_row \<Rightarrow> json \<Rightarrow> json" where
  "consignee_view c documents = JObj
     [(''id'', JStr (c_id c)),
      (''name'', JStr (c_name c)),
      (''address'', JStr (c_businessAddress c)),
      (''tin'', JStr (c_tin c)),
      (''brn'', JStr (c_brn c)),
      (''contactPerson'', JStr (c_contactPerson c)),
      (''contactNumber'', JStr (c_contactNumber c)),
      (''email'', JStr (c_email c)),
      (''documents'', documents)]"

definition exporter_view :: "exporter_row \<Rightarrow> json" where
  "exporter_view e = JObj
     [(''id'', JStr (e_id e)),
      (''name'', JStr (e_name e)),
      (''address'', JStr (e_businessAddress e)),
      (''contactPerson'', JStr (e_contactPerson e)),
      (''contactNumber'', JStr (e_contactNumber e)),
      (''email'', JStr (e_email e))]"

text \<open>\<open>text ? JSON.parse(text) : dflt\<close> on a nullable column.\<close>

definition parse_or :: "json_text option \<Rightarrow> json \<Rightarrow> exn + json" where
  "parse_or t dflt = (if text_truthy t then JSON_parse (the t) else Inr dflt)"

text \<open>
  The projection of a shipment with its relations. The two actions that build it
  differ only in how they show the documents of the consignee.
\<close>

definition project_shipment ::
  "(document_row \<Rightarrow> json) \<Rightarrow> shipment_row \<Rightarrow> store \<Rightarrow> exn + ShipmentData" where
  "project_shipment show_document shipment s =
     and_then (case shipment_consignee shipment s of
                 Some c \<Rightarrow>
                   Inr (consignee_view c (JArr (map show_document (consignee_documents c s))))
               | None \<Rightarrow> JSON_parse (s_consigneeData shipment)) (\<lambda>consigneeData.
     and_then (case shipment_exporter shipment s of
                 Some e \<Rightarrow> Inr (exporter_view e)
               | None \<Rightarrow> JSON_parse (s_exporterData shipment)) (\<lambda>exporterData.
     and_then (JSON_parse (s_shipmentDetails shipment)) (\<lambda>shipmentDetails.
     and_then (JSON_parse (s_documentsData shipment)) (\<lambda>documents.
     and_then (JSON_parse (s_timelineData shipment)) (\<lambda>timeline.
     and_then (JSON_parse (s_notesData shipment)) (\<lambda>notes.
     and_then (parse_or (s_computations shipment) JNull) (\<lambda>computations.
     and_then (parse_or (s_cargoData shipment) (JArr [])) (\<lambda>cargo.
     and_then (parse_or (s_statementOfFactsData shipment) (JArr [])) (\<lambda>statementOfFacts.
       Inr \<lparr> sd_id = s_id shipment,
             sd_referenceNumber = s_referenceNumber shipment,
             sd_status = s_status shipment,
             sd_consignee = consigneeData,
             sd_exporter = exporterData,
             sd_shipmentDetails = shipmentDetails,
             sd_documents = documents,
             sd_timeline = timeline,
             sd_notes = notes,
             sd_computations = computations,
             sd_cargo = cargo,
             sd_statementOfFacts = statementOfFacts \<rparr>)))))))))"

definition getShipmentByIdAction :: "env \<Rightarrow> string \<Rightarrow> store \<Rightarrow> ShipmentData option" where
  "getShipmentByIdAction env id' s =
     (case and_then (getCurrentUser env) (\<lambda>user.
             case shipment_findUnique_owned id' (u_id user) s of
               None \<Rightarrow> Inr None
             | Some shipment \<Rightarrow>
                 and_then (project_shipment document_json shipment s) (\<lambda>d. Inr (Some d))) of
        Inl error \<Rightarrow> None
      | Inr r \<Rightarrow> r)"

subsection \<open>updateShipmentStatusAction\<close>

definition import_path :: "string \<Rightarrow> string" where
  "import_path id' = ''/admin/services/import/'' @ id'"

text \<open>
  \<open>timelineUpdate ? [...timeline, timelineUpdate] : timeline\<close> on the parsed
  timeline; the optional argument is an object when it is given.
\<close>

definition updatedTimeline :: "json \<Rightarrow> obj option \<Rightarrow> exn + json" where
  "updatedTimeline timeline timelineUpdate =
     (case timelineUpdate of
        Some event \<Rightarrow> and_then (spread (Some timeline)) (\<lambda>entries. Inr (JArr (entries @ [JObj event])))
      | None \<Rightarrow> Inr timeline)"

definition updateShipmentStatusAction ::
  "env \<Rightarrow> string \<Rightarrow> string \<Rightarrow> obj option \<Rightarrow> store \<Rightarrow> bool \<times> store" where
  "updateShipmentStatusAction env id' status timelineUpdate s =
     (case and_then (getCurrentUser env) (\<lambda>user.
             case shipment_findUnique_owned id' (u_id user) s of
               None \<Rightarrow> Inl (Error ''Shipment not found'')
             | Some shipment \<Rightarrow>
                 and_then (JSON_parse (s_timelineData shipment)) (\<lambda>timeline.
                 and_then (updatedTimeline timeline timelineUpdate) (\<lambda>updated.
                 and_then (shipment_update id'
                             (\<lambda>r. r\<lparr> s_status := status,
                                      s_timelineData := JSON_stringify updated,
                                      s_updatedAt := now env \<rparr>) s)
                   (\<lambda>(row, s'). Inr (revalidatePath (import_path id') s'))))) of
        Inl error \<Rightarrow> (False, s)
      | Inr s' \<Rightarrow> (True, s'))"

subsection \<open>updateShipmentDetailsAction\<close>

text \<open>
  The part of \<open>updateData\<close> for the consignee: the link is the current one unless the
  update carries a truthy \<open>id\<close> that \<open>consignee.findUnique({ where: { id } })\<close> finds.
\<close>

definition consignee_updates ::
  "shipment_row \<Rightarrow> partial_ShipmentData \<Rightarrow> store \<Rightarrow> exn + (shipment_row \<Rightarrow> shipment_row)" where
  "consignee_updates currentShipment updates s =
     (case pd_consignee updates of
        None \<Rightarrow> Inr (\<lambda>r. r)
      | Some c \<Rightarrow>
          and_then (if truthy (map_of c ''id'') then
                      and_then (data_arg (map_of c ''id'')) (\<lambda>i.
                        case consignee_findUnique i s of
                          Some found \<Rightarrow> Inr (Some (c_id found))
                        | None \<Rightarrow> Inr (s_consigneeId currentShipment))
                    else Inr (s_consigneeId currentShipment)) (\<lambda>consigneeId.
            Inr (\<lambda>r. r\<lparr> s_consigneeId := consigneeId,
                         s_consigneeData := JSON_stringify (JObj c) \<rparr>)))"

definition exporter_updates ::
  "shipment_row \<Rightarrow> partial_ShipmentData \<Rightarrow> store \<Rightarrow> exn + (shipment_row \<Rightarrow> shipment_row)" where
  "exporter_updates currentShipment updates s =
     (case pd_exporter updates of
        None \<Rightarrow> Inr (\<lambda>r. r)
      | Some e \<Rightarrow>
          and_then (if truthy (map_of e ''id'') then
                      and_then (data_arg (map_of e ''id'')) (\<lambda>i.
                        case exporter_findUnique i s of
                          Some found \<Rightarrow> Inr (Some (e_id found))
                        | None \<Rightarrow> Inr (s_exporterId currentShipment))
                    else Inr (s_exporterId currentShipment)) (\<lambda>exporterId.
            Inr (\<lambda>r. r\<lparr> s_exporterId := exporterId,
                         s_exporterData := JSON_stringify (JObj e) \<rparr>)))"

text \<open>The blobs under \<open>// Handle other updates\<close>: each is written when it is given.\<close>

definition other_updates :: "partial_ShipmentData \<Rightarrow> shipment_row \<Rightarrow> shipment_row" where
  "other_updates updates r =
     (let r1 = (case pd_shipmentDetails updates of
                  None \<Rightarrow> r
                | Some d \<Rightarrow> r\<lparr>s_shipmentDetails := JSON_stringify (JObj d)\<rparr>);
          r2 = (case pd_documents updates of
                  None \<Rightarrow> r1
                | Some xs \<Rightarrow> r1\<lparr>s_documentsData := JSON_stringify (JArr xs)\<rparr>);
          r3 = (case pd_timeline updates of
                  None \<Rightarrow> r2
                | Some xs \<Rightarrow> r2\<lparr>s_timelineData := JSON_stringify (JArr xs)\<rparr>);
          r4 = (case pd_notes updates of
                  None \<Rightarrow> r3
                | Some xs \<Rightarrow> r3\<lparr>s_notesData := JSON_stringify (JArr xs)\<rparr>);
          r5 = (case pd_cargo updates of
                  None \<Rightarrow> r4
                | Some xs \<Rightarrow> r4\<lparr>s_cargoData := Some (JSON_stringify (JArr xs))\<rparr>);
          r6 = (case pd_statementOfFacts updates of
                  None \<Rightarrow> r5
                | Some xs \<Rightarrow> r5\<lparr>s_statementOfFactsData := Some (JSON_stringify (JArr xs))\<rparr>)
      in r6)"

text \<open>
  The result is \<open>Inr data\<close> for \<open>{ success: true, data }\<close> and \<open>Inl error\<close> for
  \<open>{ success: false, error: error.message }\<close>. The datastore is returned beside it:
  the projection that follows the update can still throw once the row is written.
\<close>

definition updateShipmentDetailsAction ::
  "env \<Rightarrow> string \<Rightarrow> partial_ShipmentData \<Rightarrow> store \<Rightarrow> (exn + ShipmentData) \<times> store" where
  "updateShipmentDetailsAction env id' updates s =
     (case and_then (getCurrentUser env) (\<lambda>user.
             case shipment_findUnique_owned id' (u_id user) s of
               None \<Rightarrow> Inl (Error ''Shipment not found'')
             | Some currentShipment \<Rightarrow>
                 and_then (consignee_updates currentShipment updates s) (\<lambda>consigneePart.
                 and_then (exporter_updates currentShipment updates s) (\<lambda>exporterPart.
                 shipment_update id'
                   (\<lambda>r. (other_updates updates (exporterPart (consigneePart r)))
                           \<lparr>s_updatedAt := now env\<rparr>) s))) of
        Inl error \<Rightarrow> (Inl error, s)
      | Inr (updated, s') \<Rightarrow>
          (case project_shipment document_view updated s' of
             Inl error \<Rightarrow> (Inl error, s')
           | Inr parsedData \<Rightarrow> (Inr parsedData, revalidatePath (import_path id') s')))"

subsection \<open>linkClientToShipmentAction\<close>

text \<open>\<open>findFirst({ where: { id: clientId, userId } })\<close> on either client table.\<close>

definition client_exists :: "client_type \<Rightarrow> string \<Rightarrow> string \<Rightarrow> store \<Rightarrow> bool" where
  "client_exists type clientId userId s =
     (if type = consignee
      then find (\<lambda>r. c_id r = clientId \<and> c_userId r = userId) (consignee_tbl s) \<noteq> None
      else find (\<lambda>r. e_id r = clientId \<and> e_userId r = userId) (exporter_tbl s) \<noteq> None)"

definition type_name :: "client_type \<Rightarrow> string" where
  "type_name type = (if type = consignee then ''consignee'' else ''exporter'')"

definition linkClientToShipmentAction ::
  "env \<Rightarrow> string \<Rightarrow> string \<Rightarrow> client_type \<Rightarrow> store \<Rightarrow> (exn + shipment_row) \<times> store" where
  "linkClientToShipmentAction env shipmentId clientId type s =
     (case and_then (getCurrentUser env) (\<lambda>user.
             case shipment_findUnique_owned shipmentId (u_id user) s of
               None \<Rightarrow> Inl (Error ''Shipment not found'')
             | Some shipment \<Rightarrow>
                 if \<not> client_exists type clientId (u_id user) s
                 then Inl (Error (type_name type @ '' not found or unauthorized''))
                 else shipment_update shipmentId
                        (\<lambda>r. if type = consignee
                              then r\<lparr>s_consigneeId := Some clientId\<rparr>
                              else r\<lparr>s_exporterId := Some clientId\<rparr>) s) of
        Inl error \<Rightarrow> (Inl error, s)
      | Inr (updated, s') \<Rightarrow> (Inr updated, revalidatePath (import_path shipmentId) s'))"

subsection \<open>createClientDuringShipmentAction\<close>

text \<open>
  The argument: \<open>type\<close>, \<open>name\<close> and \<open>address\<close>, and the additional fields of the index
  signature as an object.
\<close>

record client_data =
  cd_type :: client_type
  cd_name :: string
  cd_address :: string
  cd_fields :: obj

datatype client = ConsigneeClient consignee_row | ExporterClient exporter_row

definition createClientDuringShipmentAction ::
  "env \<Rightarrow> client_data \<Rightarrow> store \<Rightarrow> (exn + client) \<times> store" where
  "createClientDuringShipmentAction env data s =
     (case and_then (getCurrentUser env) (\<lambda>user.
             if cd_type data = consignee then
               and_then (data_arg (or_else (map_of (cd_fields data) ''registeredName'')
                                     (Some (JStr (cd_name data))))) (\<lambda>registeredName.
               and_then (data_arg (or_empty (map_of (cd_fields data) ''tin''))) (\<lambda>tin.
               and_then (data_arg (or_empty (map_of (cd_fields data) ''brn''))) (\<lambda>brn.
               and_then (data_arg (or_empty (map_of (cd_fields data) ''contactPerson'')))
                 (\<lambda>contactPerson.
               and_then (data_arg (or_empty (map_of (cd_fields data) ''contactNumber'')))
                 (\<lambda>contactNumber.
               and_then (data_arg (or_empty (map_of (cd_fields data) ''email''))) (\<lambda>email.
               let row =
                 \<lparr> c_id = newId env ConsigneeModel,
                   c_name = cd_name data,
                   c_registeredName = registeredName,
                   c_businessAddress = cd_address data,
                   c_tin = tin,
                   c_brn = brn,
                   c_contactPerson = contactPerson,
                   c_contactNumber = contactNumber,
                   c_email = email,
                   c_userId = u_id user,
                   c_createdAt = now env \<rparr>
               in and_then (consignee_create row s) (\<lambda>s'. Inr (ConsigneeClient row, s'))))))))
             else
               and_then (data_arg (or_empty (map_of (cd_fields data) ''contactPerson'')))
                 (\<lambda>contactPerson.
               and_then (data_arg (or_empty (map_of (cd_fields data) ''contactNumber'')))
                 (\<lambda>contactNumber.
               and_then (data_arg (or_empty (map_of (cd_fields data) ''email''))) (\<lambda>email.
               let row =
                 \<lparr> e_id = newId env ExporterModel,
                   e_name = cd_name data,
                   e_businessAddress = cd_address data,
                   e_contactPerson = contactPerson,
                   e_contactNumber = contactNumber,
                   e_email = email,
                   e_userId = u_id user,
                   e_createdAt = now env \<rparr>
               in and_then (exporter_create row s) (\<lambda>s'. Inr (ExporterClient row, s')))))) of
        Inl error \<Rightarrow> (Inl error, s)
      | Inr (c, s') \<Rightarrow> (Inr c, s'))"

section \<open>Predicates of the specification\<close>

text \<open>
  The reference pattern \<^verbatim>\<open>CLEX-<type><2-digit-year>-<4-digit-number>\<close>: after the
  prefix and the type come two decimal digits, a dash and four decimal digits, and
  nothing else.
\<close>

definition is_digit :: "char \<Rightarrow> bool" where
  "is_digit c = (c \<in> set ''0123456789'')"

fun strip_prefix :: "string \<Rightarrow> string \<Rightarrow> string option" where
  "strip_prefix [] s = Some s"
| "strip_prefix (p # ps) [] = None"
| "strip_prefix (p # ps) (c # cs) = (if p = c then strip_prefix ps cs else None)"

definition reference_pattern :: "string \<Rightarrow> string \<Rightarrow> bool" where
  "reference_pattern shipmentType ref =
     (case strip_prefix (''CLEX-'' @ shipmentType) ref of
        None \<Rightarrow> False
      | Some rest \<Rightarrow>
          length rest = 7
          \<and> list_all is_digit (take 2 rest)
          \<and> rest ! 2 = CHR ''-''
          \<and> list_all is_digit (drop 3 rest))"

text \<open>
  The matching of clients. A stored consignee matches an input for an owner when it
  belongs to the owner and its tin or its name is the one of the input; a stored
  exporter matches when it belongs to the owner and both its name and its address are
  the ones of the input.
\<close>

definition consignee_matches :: "string \<Rightarrow> obj \<Rightarrow> consignee_row \<Rightarrow> bool" where
  "consignee_matches userId c r =
     ((map_of c ''tin'' = Some (JStr (c_tin r)) \<or> map_of c ''name'' = Some (JStr (c_name r)))
      \<and> c_userId r = userId)"

definition exporter_matches :: "string \<Rightarrow> string \<Rightarrow> string \<Rightarrow> exporter_row \<Rightarrow> bool" where
  "exporter_matches userId name address r =
     ((e_name r = name \<and> e_businessAddress r = address) \<and> e_userId r = userId)"

text \<open>
  An entry of the documents checklist has a given name when it is an object whose
  \<open>name\<close> is that string.
\<close>

fun doc_named :: "string \<Rightarrow> json \<Rightarrow> bool" where
  "doc_named documentType (JObj doc) = (map_of doc ''name'' = Some (JStr documentType))"
| "doc_named documentType d = False"

text \<open>
  The \<open>id\<close> of an optional client object is well typed when it is a string or
  falsy (absent, \<open>null\<close>, \<open>false\<close>, zero): \<open>ShipmentData\<close> declares it a string.
\<close>

fun string_or_falsy :: "json option \<Rightarrow> bool" where
  "string_or_falsy (Some (JStr i)) = True"
| "string_or_falsy v = (if truthy v then False else True)"

definition id_is_string :: "obj option \<Rightarrow> bool" where
  "id_is_string client =
     (case client of None \<Rightarrow> True | Some c \<Rightarrow> string_or_falsy (map_of c ''id''))"

text \<open>
  An entry of the documents checklist is well formed when it is an object whose
  \<open>files\<close> is absent or a list.
\<close>

fun entry_wellformed :: "json \<Rightarrow> bool" where
  "entry_wellformed (JObj doc) =
     (case map_of doc ''files'' of None \<Rightarrow> True | Some (JArr fs) \<Rightarrow> True | Some v \<Rightarrow> False)"
| "entry_wellformed d = False"

section \<open>Example inputs\<close>

text \<open>
  The users, environments, datastores and arguments at which the theorems below are
  evaluated: Alice and Bob, a call environment of Alice on new year's day of 2026, and
  the datastores that her calls leave behind.
\<close>

definition alice :: user where
  "alice = \<lparr> u_id = ''user-alice'' \<rparr>"

definition bob :: user where
  "bob = \<lparr> u_id = ''user-bob'' \<rparr>"

definition new_year_2026 :: date where
  "new_year_2026 =
     \<lparr> getTime = 1767225600000, getFullYear = 2026,
       toISOString = ''2026-01-01T00:00:00.000Z'' \<rparr>"

definition ids1 :: "model \<Rightarrow> string" where
  "ids1 m = (case m of ConsigneeModel \<Rightarrow> ''c1'' | ExporterModel \<Rightarrow> ''e1'' | ShipmentModel \<Rightarrow> ''s1'')"

definition ids2 :: "model \<Rightarrow> string" where
  "ids2 m = (case m of ConsigneeModel \<Rightarrow> ''c2'' | ExporterModel \<Rightarrow> ''e2'' | ShipmentModel \<Rightarrow> ''s2'')"

text \<open>
  Two draws of \<open>Math.random()\<close>: the Numbers that the literals \<open>0.0042\<close> and \<open>0.0121\<close>
  denote, which are the binary64 values nearest to these fractions and lie a little
  below them.
\<close>

definition draw_0042 :: binary64 where
  "draw_0042 = \<lparr> significand = 4842270319348757, exponent = - 60 \<rparr>"

definition draw_0121 :: binary64 where
  "draw_0121 = \<lparr> significand = 6975175102871424, exponent = - 59 \<rparr>"

definition alice_env :: env where
  "alice_env =
     \<lparr> validateSession = Some \<lparr> session_user = Some alice \<rparr>,
       now = new_year_2026,
       random = draw_0042,
       newId = ids1 \<rparr>"

definition empty_store :: store where
  "empty_store =
     \<lparr> consignee_tbl = [], exporter_tbl = [], shipment_tbl = [], document_tbl = [],
       revalidated = [] \<rparr>"

definition empty_formData :: partial_ShipmentData where
  "empty_formData =
     \<lparr> pd_consignee = None, pd_exporter = None, pd_shipmentDetails = None, pd_documents = None,
       pd_timeline = None, pd_notes = None, pd_cargo = None, pd_statementOfFacts = None \<rparr>"

definition documents_formData :: partial_ShipmentData where
  "documents_formData =
     empty_formData\<lparr>pd_documents :=
       Some [JObj [(''name'', JStr ''Bill of Lading''), (''status'', JStr ''pending'')]]\<rparr>"

definition acme :: obj where
  "acme = [(''name'', JStr ''Acme Trading''), (''address'', JStr ''1 Harbor Road''),
           (''tin'', JStr ''123-456'')]"

definition acme_row :: consignee_row where
  "acme_row =
     \<lparr> c_id = ''c1'', c_name = ''Acme Trading'', c_registeredName = ''Acme Trading'',
       c_businessAddress = ''1 Harbor Road'', c_tin = ''123-456'', c_brn = [],
       c_contactPerson = [], c_contactNumber = [], c_email = [],
       c_userId = ''user-alice'', c_createdAt = new_year_2026 \<rparr>"

definition globex :: obj where
  "globex = [(''name'', JStr ''Globex Export''), (''address'', JStr ''5 Dock Street'')]"

definition globex_moved :: obj where
  "globex_moved = [(''name'', JStr ''Globex Export''), (''address'', JStr ''9 Pier Avenue'')]"

definition acme_logistics :: obj where
  "acme_logistics =
     [(''id'', JStr ''draft-2''), (''name'', JStr ''Acme Logistics''),
      (''address'', JStr ''1 Harbor Road''), (''tin'', JStr ''123-456'')]"

definition first_formData :: partial_ShipmentData where
  "first_formData =
     empty_formData\<lparr>pd_consignee := Some ((''id'', JStr ''draft-1'') # acme),
                     pd_exporter := Some globex\<rparr>"

definition second_formData :: partial_ShipmentData where
  "second_formData =
     empty_formData\<lparr>pd_consignee := Some acme_logistics, pd_exporter := Some globex_moved\<rparr>"

definition globex_row :: exporter_row where
  "globex_row =
     \<lparr> e_id = ''e1'', e_name = ''Globex Export'', e_businessAddress = ''5 Dock Street'',
       e_contactPerson = [], e_contactNumber = [], e_email = [], e_userId = ''user-alice'',
       e_createdAt = new_year_2026 \<rparr>"

definition stale_store :: store where
  "stale_store = empty_store\<lparr>consignee_tbl := [acme_row\<lparr>c_id := ''c0'', c_tin := ''999-000''\<rparr>]\<rparr>"

definition namesake_store :: store where
  "namesake_store =
     empty_store\<lparr>consignee_tbl :=
       [acme_row\<lparr>c_id := ''c0'', c_name := ''Acme Logistics'',
                 c_registeredName := ''Acme Logistics'', c_tin := ''999-000''\<rparr>]\<rparr>"

definition first_shipment :: shipment_row where
  "first_shipment = new_shipment alice_env alice ''IMS'' first_formData (Some ''c1'') (Some ''e1'')"

definition second_shipment :: shipment_row where
  "second_shipment =
     new_shipment (alice_env\<lparr>newId := ids2\<rparr>) alice ''IMS'' second_formData (Some ''c1'') (Some ''e2'')"

definition after_first :: store where
  "after_first =
     empty_store\<lparr>consignee_tbl := [acme_row], exporter_tbl := [globex_row],
                  shipment_tbl := [first_shipment]\<rparr>"

definition after_second :: store where
  "after_second =
     after_first\<lparr>exporter_tbl := [globex_row,
                     globex_row\<lparr>e_id := ''e2'', e_businessAddress := ''9 Pier Avenue''\<rparr>],
                  shipment_tbl := [first_shipment, second_shipment]\<rparr>"

definition anonymous_env :: env where
  "anonymous_env = alice_env\<lparr>validateSession := None\<rparr>"

definition userless_env :: env where
  "userless_env = alice_env\<lparr>validateSession := Some \<lparr> session_user = None \<rparr>\<rparr>"

definition bob_env :: env where
  "bob_env = alice_env\<lparr>validateSession := Some \<lparr> session_user = Some bob \<rparr>\<rparr>"

definition a_file :: File where
  "a_file = \<lparr> file_name = ''bl.pdf'' \<rparr>"

definition a_client :: client_data where
  "a_client =
     \<lparr> cd_type = consignee, cd_name = ''Acme Trading'', cd_address = ''1 Harbor Road'',
       cd_fields = [] \<rparr>"

definition stage_event :: obj where
  "stage_event =
     [(''stage'', JStr ''DOCUMENTS''), (''status'', JStr ''in_progress''),
      (''timestamp'', JStr ''2026-01-02T08:30:00.000Z'')]"

definition created_entry :: json where
  "created_entry =
     JObj [(''status'', JStr ''CLIENT_DETAILS''),
           (''timestamp'', JStr ''2026-01-01T00:00:00.000Z''),
           (''description'', JStr ''Shipment created'')]"

definition bl_entry :: json where
  "bl_entry =
     JObj [(''name'', JStr ''Bill of Lading''), (''status'', JStr ''pending''),
           (''files'', JArr [JStr ''/simulated-uploads/s1/old.pdf''])]"

definition invoice_entry :: json where
  "invoice_entry = JObj [(''name'', JStr ''Commercial Invoice''), (''status'', JStr ''pending'')]"

definition checklist_shipment :: shipment_row where
  "checklist_shipment =
     new_shipment alice_env alice ''IMS''
       (empty_formData\<lparr>pd_documents := Some [bl_entry, invoice_entry]\<rparr>) None None"

definition checklist_store :: store where
  "checklist_store = empty_store\<lparr>shipment_tbl := [checklist_shipment]\<rparr>"

definition notes_update :: partial_ShipmentData where
  "notes_update =
     empty_formData\<lparr>pd_documents := Some [bl_entry], pd_notes := Some [JStr ''call the broker'']\<rparr>"

definition bobs_row :: consignee_row where
  "bobs_row = acme_row\<lparr>c_id := ''cb'', c_name := ''Bob Imports'', c_userId := ''user-bob''\<rparr>"

definition shared_store :: store where
  "shared_store = after_first\<lparr>consignee_tbl := [acme_row, bobs_row]\<rparr>"

definition bobs_client_update :: partial_ShipmentData where
  "bobs_client_update =
     empty_formData\<lparr>pd_consignee := Some [(''id'', JStr ''cb''), (''name'', JStr ''Bob Imports'')]\<rparr>"

definition unknown_client_update :: partial_ShipmentData where
  "unknown_client_update =
     empty_formData\<lparr>pd_consignee := Some [(''id'', JStr ''c404''), (''name'', JStr ''Nobody'')]\<rparr>"

definition acme_globex_formData :: partial_ShipmentData where
  "acme_globex_formData = empty_formData\<lparr>pd_consignee := Some acme, pd_exporter := Some globex\<rparr>"

section \<open>Auxiliary lemmas\<close>

subsection \<open>Sequencing and number formatting\<close>

lemma and_then_Inr_iff: "(and_then m f = Inr y) = (\<exists>x. m = Inr x \<and> f x = Inr y)"
  by (cases m) (simp_all add: and_then_def)

lemma digits_lt10: "n < 10 \<Longrightarrow> digits n = [digit_char n]"
  by (subst digits.simps) simp

lemma digits_ge10: "10 \<le> n \<Longrightarrow> digits n = digits (n div 10) @ [digit_char (n mod 10)]"
  by (subst digits.simps) simp

lemma digit_char_0: "digit_char 0 = CHR ''0''"
  by (simp add: digit_char_def)

lemma replicate_2: "replicate 2 c = [c, c]"
  by (simp add: numeral_2_eq_2)

lemma replicate_3: "replicate 3 c = [c, c, c]"
  by (simp add: numeral_3_eq_3)

lemma padStart_digits:
  assumes "n < 10000"
  shows "padStart 4 (CHR ''0'') (digits n) =
           [digit_char (n div 1000), digit_char (n div 100 mod 10),
            digit_char (n div 10 mod 10), digit_char (n mod 10)]"
proof -
  consider "n < 10" | "10 \<le> n" "n < 100" | "100 \<le> n" "n < 1000" | "1000 \<le> n" "n < 10000"
    using assms by linarith
  then show ?thesis
  proof cases
    case 1
    then show ?thesis
      by (simp add: digits_lt10 padStart_def digit_char_0 replicate_2 replicate_3)
  next
    case 2
    then have "digits n = [digit_char (n div 10), digit_char (n mod 10)]"
      by (simp add: digits_ge10 digits_lt10)
    moreover have "n div 1000 = 0" "n div 100 = 0" "n div 10 mod 10 = n div 10" using 2 by simp_all
    ultimately show ?thesis
      by (simp add: padStart_def digit_char_0 replicate_2 replicate_3)
  next
    case 3
    have d: "n div 10 div 10 = n div 100" by (simp add: div_mult2_eq)
    from 3 have "digits n = [digit_char (n div 100), digit_char (n div 10 mod 10), digit_char (n mod 10)]"
      by (simp add: digits_ge10 [of n] digits_ge10 [of "n div 10"] digits_lt10 d)
    moreover have "n div 1000 = 0" "n div 100 mod 10 = n div 100" using 3 by simp_all
    ultimately show ?thesis
      by (simp add: padStart_def digit_char_0 replicate_2 replicate_3)
  next
    case 4
    have d: "n div 10 div 10 = n div 100" "n div 100 div 10 = n div 1000"
      by (simp_all add: div_mult2_eq)
    from 4 have "digits n = [digit_char (n div 1000), digit_char (n div 100 mod 10),
                            digit_char (n div 10 mod 10), digit_char (n mod 10)]"
      by (simp add: digits_ge10 [of n] digits_ge10 [of "n div 10"] digits_ge10 [of "n div 100"]
                    digits_lt10 d)
    then show ?thesis
      by (simp add: padStart_def)
  qed
qed

lemma Number_toString_nonneg: "0 \<le> i \<Longrightarrow> Number_toString i = digits (nat i)"
  by (simp add: Number_toString_def)

lemma slice_digits:
  assumes "10 \<le> n"
  shows "slice_from_end 2 (digits n) = [digit_char (n div 10 mod 10), digit_char (n mod 10)]"
proof -
  have "digits (n div 10) \<noteq> []" by (subst digits.simps) simp
  moreover have "last (digits (n div 10)) = digit_char (n div 10 mod 10)"
    by (subst digits.simps) (simp add: digit_char_def)
  ultimately have "digits (n div 10) = butlast (digits (n div 10)) @ [digit_char (n div 10 mod 10)]"
    by (metis append_butlast_last_id)
  then have "digits n = butlast (digits (n div 10)) @ [digit_char (n div 10 mod 10), digit_char (n mod 10)]"
    using assms digits_ge10 [of n] by simp
  then show ?thesis by (simp add: slice_from_end_def)
qed

lemma is_digit_digit_char: "is_digit (digit_char d)"
proof -
  have "''0123456789'' ! (d mod 10) \<in> set ''0123456789''"
    by (rule nth_mem) simp
  then show ?thesis
    unfolding is_digit_def digit_char_def .
qed


lemma strip_prefix_append: "strip_prefix p (p @ r) = Some r"
  by (induction p) simp_all

lemma reference_pattern_digits:
  "reference_pattern ty (''CLEX-'' @ ty @ [digit_char a, digit_char b] @ ''-''
      @ [digit_char c, digit_char d, digit_char e, digit_char f])"
proof -
  have "strip_prefix (''CLEX-'' @ ty)
          ((''CLEX-'' @ ty) @ [digit_char a, digit_char b, CHR ''-'', digit_char c,
                               digit_char d, digit_char e, digit_char f])
          = Some [digit_char a, digit_char b, CHR ''-'', digit_char c, digit_char d,
                  digit_char e, digit_char f]"
    by (rule strip_prefix_append)
  then show ?thesis
    unfolding reference_pattern_def by (simp add: is_digit_digit_char)
qed

subsection \<open>The product of a draw and 10000\<close>

lemma bit_length_le: "n < 2 ^ b \<Longrightarrow> bit_length n \<le> b"
proof (induction b arbitrary: n)
  case 0
  then show ?case by (simp add: bit_length.simps)
next
  case (Suc b)
  show ?case
  proof (cases "n = 0")
    case True
    then show ?thesis by (simp add: bit_length.simps)
  next
    case False
    from Suc.prems have "n div 2 < 2 ^ b" by simp
    then have "bit_length (n div 2) \<le> b" by (rule Suc.IH)
    with False show ?thesis by (subst bit_length.simps) simp
  qed
qed

lemma bit_length_eq:
  "2 ^ b \<le> n \<Longrightarrow> n < 2 ^ Suc b \<Longrightarrow> bit_length n = Suc b"
proof (induction b arbitrary: n)
  case 0
  then have "n = 1" by simp
  then show ?case by (simp add: bit_length.simps)
next
  case (Suc b)
  from Suc.prems have "2 ^ b \<le> n div 2" "n div 2 < 2 ^ Suc b" by simp_all
  then have "bit_length (n div 2) = Suc b" by (rule Suc.IH)
  moreover from Suc.prems have "n \<noteq> 0" by auto
  ultimately show ?case by (subst bit_length.simps) simp
qed

lemma round_half_even_upper: "2 * (round_half_even n k * 2 ^ k) \<le> 2 * n + 2 ^ k"
proof -
  let ?q = "n div 2 ^ k" and ?r = "n mod 2 ^ k"
  have n: "n = ?q * 2 ^ k + ?r" by (simp add: div_mult_mod_eq)
  have le: "?q * 2 ^ k \<le> n" using n by linarith
  show ?thesis
  proof (cases "2 * ?r < 2 ^ k")
    case True
    then have q: "round_half_even n k = ?q" by (simp add: round_half_even_def Let_def)
    show ?thesis unfolding q using le by linarith
  next
    case False
    then have r: "2 ^ k \<le> 2 * ?r" by simp
    have "round_half_even n k \<le> ?q + 1" by (simp add: round_half_even_def Let_def)
    then have "round_half_even n k * 2 ^ k \<le> (?q + 1) * 2 ^ k" by (rule mult_le_mono1)
    then have "2 * (round_half_even n k * 2 ^ k) \<le> 2 * (?q * 2 ^ k) + 2 * 2 ^ k"
      by (simp add: algebra_simps)
    also have "\<dots> \<le> 2 * (?q * 2 ^ k) + (2 ^ k + 2 * ?r)" using r by simp
    also have "\<dots> = 2 * n + 2 ^ k" using n by linarith
    finally show ?thesis .
  qed
qed

lemma round_half_even_lower: "2 * n \<le> 2 * (round_half_even n k * 2 ^ k) + 2 ^ k"
proof -
  let ?q = "n div 2 ^ k" and ?r = "n mod 2 ^ k"
  have n: "n = ?q * 2 ^ k + ?r" by (simp add: div_mult_mod_eq)
  have rlt: "?r < 2 ^ k" by simp
  show ?thesis
  proof (cases "2 * ?r \<le> 2 ^ k")
    case True
    have "?q \<le> round_half_even n k" by (simp add: round_half_even_def Let_def)
    then have "?q * 2 ^ k \<le> round_half_even n k * 2 ^ k" by (rule mult_le_mono1)
    moreover have "2 * n = 2 * (?q * 2 ^ k) + 2 * ?r" using n by linarith
    ultimately show ?thesis using True by linarith
  next
    case False
    then have q: "round_half_even n k = ?q + 1" by (simp add: round_half_even_def Let_def)
    have "2 * n = 2 * (?q * 2 ^ k) + 2 * ?r" using n by linarith
    also have "\<dots> \<le> 2 * (?q * 2 ^ k) + 2 * 2 ^ k" using rlt by simp
    also have "\<dots> \<le> 2 * ((?q + 1) * 2 ^ k) + 2 ^ k" by (simp add: algebra_simps)
    finally show ?thesis unfolding q .
  qed
qed

lemma Number_value_nonneg: "0 \<le> Number_value x"
  by (simp add: Number_value_def)

lemma Number_value_powr:
  "Number_value x = real (significand x) * 2 powr real_of_int (exponent x)"
proof (cases "0 \<le> exponent x")
  case True
  then have "2 powr real_of_int (exponent x) = (2::real) ^ nat (exponent x)"
    by (simp add: powr_real_of_int)
  with True show ?thesis by (simp add: Number_value_def)
next
  case False
  then have "2 powr real_of_int (exponent x) = inverse ((2::real) ^ nat (- exponent x))"
    by (simp add: powr_real_of_int)
  with False show ?thesis by (simp add: Number_value_def divide_inverse)
qed

lemma Math_floor_div:
  "Math_floor x =
     (if 0 \<le> exponent x then int (significand x) * 2 ^ nat (exponent x)
      else int (significand x) div 2 ^ nat (- exponent x))"
proof (cases "0 \<le> exponent x")
  case True
  have "\<lfloor>real (significand x) * 2 ^ nat (exponent x)\<rfloor>
          = \<lfloor>real_of_int (int (significand x) * 2 ^ nat (exponent x))\<rfloor>"
    by simp
  also have "\<dots> = int (significand x) * 2 ^ nat (exponent x)" by (rule floor_of_int)
  finally show ?thesis using True by (simp add: Math_floor_def Number_value_def)
next
  case False
  have "\<lfloor>real (significand x) / 2 ^ nat (- exponent x)\<rfloor>
          = \<lfloor>real_of_int (int (significand x)) / real_of_int (2 ^ nat (- exponent x))\<rfloor>"
    by simp
  also have "\<dots> = int (significand x) div 2 ^ nat (- exponent x)"
    by (rule floor_divide_of_int_eq)
  finally show ?thesis using False by (simp add: Math_floor_def Number_value_def)
qed

text \<open>
  \<open>Number_times\<close> is the rounding to nearest: the result is within half a step of the
  exact product, the step being two to the exponent of the result; and it is the exact
  product when that fits the 53 digits.
\<close>

lemma Number_times_nearest:
  "2 * \<bar>Number_value (Number_times x y) - Number_value x * Number_value y\<bar>
     \<le> 2 powr real_of_int (exponent (Number_times x y))"
proof -
  let ?M = "significand x * significand y"
  let ?E = "exponent x + exponent y"
  define k where "k = nat (max (int (bit_length ?M) - 53) (- 1074 - ?E))"
  define q where "q = round_half_even ?M k"
  define p where "p = 2 powr real_of_int ?E"
  have res: "Number_times x y = \<lparr> significand = q, exponent = ?E + int k \<rparr>"
    by (simp add: Number_times_def Let_def k_def q_def)
  have p: "0 \<le> p" by (simp add: p_def)
  have "2 powr real k = (2::real) ^ k" by (simp add: powr_realpow)
  then have step: "2 powr real_of_int (?E + int k) = 2 ^ k * p"
    by (simp add: powr_add p_def)
  have exact: "Number_value x * Number_value y = real ?M * p"
    by (simp add: Number_value_powr powr_add p_def)
  have "Number_value \<lparr> significand = q, exponent = ?E + int k \<rparr>
          = real q * 2 powr real_of_int (?E + int k)"
    by (simp only: Number_value_powr binary64.simps)
  then have rounded: "Number_value (Number_times x y) = real (q * 2 ^ k) * p"
    unfolding res step by simp
  have "2 * (q * 2 ^ k) \<le> 2 * ?M + 2 ^ k"
    unfolding q_def by (rule round_half_even_upper)
  then have "real (2 * (q * 2 ^ k)) \<le> real (2 * ?M + 2 ^ k)" by (simp only: of_nat_le_iff)
  then have up: "2 * real (q * 2 ^ k) \<le> 2 * real ?M + 2 ^ k" by simp
  have "2 * ?M \<le> 2 * (q * 2 ^ k) + 2 ^ k"
    unfolding q_def by (rule round_half_even_lower)
  then have "real (2 * ?M) \<le> real (2 * (q * 2 ^ k) + 2 ^ k)" by (simp only: of_nat_le_iff)
  then have "2 * real ?M \<le> 2 * real (q * 2 ^ k) + 2 ^ k" by simp
  with up have "2 * \<bar>real (q * 2 ^ k) - real ?M\<bar> \<le> 2 ^ k"
    unfolding abs_if by (auto split: if_splits)
  then have "2 * \<bar>real (q * 2 ^ k) - real ?M\<bar> * p \<le> 2 ^ k * p"
    using p by (rule mult_right_mono)
  moreover have "2 * \<bar>real (q * 2 ^ k) * p - real ?M * p\<bar>
                   = 2 * \<bar>real (q * 2 ^ k) - real ?M\<bar> * p"
    using p by (simp add: abs_mult left_diff_distrib [symmetric])
  moreover have "2 powr real_of_int (exponent (Number_times x y)) = 2 ^ k * p"
    unfolding res using step by (simp only: binary64.simps)
  ultimately show ?thesis
    unfolding rounded exact by simp
qed

lemma Number_times_exact:
  assumes "significand x * significand y < 2 ^ 53" "- 1074 \<le> exponent x + exponent y"
  shows "Number_value (Number_times x y) = Number_value x * Number_value y"
proof -
  let ?M = "significand x * significand y"
  let ?E = "exponent x + exponent y"
  define k where "k = nat (max (int (bit_length ?M) - 53) (- 1074 - ?E))"
  have res: "Number_times x y = \<lparr> significand = round_half_even ?M k, exponent = ?E + int k \<rparr>"
    by (simp add: Number_times_def Let_def k_def)
  have "bit_length ?M \<le> 53"
    using assms(1) by (rule bit_length_le)
  then have "max (int (bit_length ?M) - 53) (- 1074 - ?E) \<le> 0"
    using assms(2) by simp
  then have "k = 0"
    unfolding k_def by (simp only: nat_0_iff)
  then have "Number_times x y = \<lparr> significand = ?M, exponent = ?E \<rparr>"
    unfolding res by (simp add: round_half_even_def)
  then show ?thesis
    by (simp add: Number_value_powr powr_add)
qed

text \<open>
  A draw below 1 is at most \<open>1 - 2^-n\<close> when its exponent is \<open>-n\<close>. Its product with
  \<open>10000\<close> has at most 67 binary digits, so the rounding drops at most 14 of them and
  adds at most \<open>2^13\<close> steps of size \<open>2^-n\<close>, fewer than the \<open>10000\<close> steps by which the
  exact product is below \<open>10000\<close>: the rounded product is below \<open>10000\<close> as well.
\<close>

lemma round_half_even_0: "round_half_even 0 k = 0"
  by (simp add: round_half_even_def)

lemma below_one_cases:
  assumes "Number_value x < 1"
  shows "significand x = 0
       \<or> (exponent x < 0 \<and> Suc (significand x) \<le> 2 ^ nat (- exponent x))"
proof (cases "significand x = 0")
  case True
  then show ?thesis by simp
next
  case False
  then have m: "1 \<le> real (significand x)" by simp
  have neg: "exponent x < 0"
  proof (rule ccontr)
    assume "\<not> exponent x < 0"
    then have "Number_value x = real (significand x) * 2 ^ nat (exponent x)"
      by (simp add: Number_value_def)
    moreover have "1 * 1 \<le> real (significand x) * 2 ^ nat (exponent x)"
      using m by (intro mult_mono) simp_all
    ultimately show False using assms by simp
  qed
  then have "real (significand x) / 2 ^ nat (- exponent x) < 1"
    using assms by (simp add: Number_value_def)
  then have "real (significand x) < 2 ^ nat (- exponent x)" by simp
  then have "significand x < 2 ^ nat (- exponent x)"
    by (metis of_nat_less_iff of_nat_numeral of_nat_power)
  with neg show ?thesis by simp
qed

lemma times_10000_shift:
  assumes "is_binary64 x"
  shows "nat (max (int (bit_length (significand x * 10000)) - 53) (- 1074 - exponent x)) \<le> 14"
proof -
  have "significand x < 2 ^ 53" using assms by (simp add: is_binary64_def)
  then have "significand x * 10000 < 2 ^ 53 * 2 ^ 14"
    by (intro mult_strict_mono) simp_all
  then have "significand x * 10000 < 2 ^ 67" by simp
  then have "bit_length (significand x * 10000) \<le> 67" by (rule bit_length_le)
  moreover have "- 1074 - exponent x \<le> 0" using assms by (simp add: is_binary64_def)
  ultimately show ?thesis by simp
qed

lemma random_times_10000_value:
  assumes dbl: "is_binary64 x" and one: "Number_value x < 1"
  shows "Number_value (Number_times x (Number_of_nat 10000)) < 10000"
proof -
  let ?m = "significand x" and ?e = "exponent x"
  let ?M = "?m * 10000"
  define k where "k = nat (max (int (bit_length ?M) - 53) (- 1074 - ?e))"
  let ?q = "round_half_even ?M k"
  have res: "Number_times x (Number_of_nat 10000) = \<lparr> significand = ?q, exponent = ?e + int k \<rparr>"
    by (simp add: Number_times_def Number_of_nat_def Let_def k_def)
  have k: "k \<le> 14" unfolding k_def by (rule times_10000_shift [OF dbl])
  show ?thesis
  proof (cases "?m = 0")
    case True
    then show ?thesis
      unfolding res by (simp add: Number_value_def round_half_even_0)
  next
    case False
    with below_one_cases [OF one]
    have neg: "?e < 0" and m: "Suc ?m \<le> 2 ^ nat (- ?e)" by simp_all
    let ?n = "nat (- ?e)"
    have val: "Number_value (Number_times x (Number_of_nat 10000))
                 = real (?q * 2 ^ k) / 2 ^ ?n"
    proof -
      have "2 powr real_of_int (?e + int k) = 2 powr real_of_int ?e * 2 powr real k"
        by (simp add: powr_add)
      also have "2 powr real k = (2::real) ^ k" by (simp add: powr_realpow)
      also have "2 powr real_of_int ?e = inverse ((2::real) ^ ?n)"
        using neg by (simp add: powr_real_of_int)
      finally have "2 powr real_of_int (?e + int k) = inverse (2 ^ ?n) * 2 ^ k" .
      moreover have "Number_value \<lparr> significand = ?q, exponent = ?e + int k \<rparr>
                       = real ?q * 2 powr real_of_int (?e + int k)"
        by (simp only: Number_value_powr binary64.simps)
      ultimately show ?thesis
        unfolding res by (simp add: divide_inverse)
    qed
    have "2 ^ k \<le> (2::nat) ^ 14" using k by (intro power_increasing) simp_all
    then have pk: "2 ^ k \<le> (16384::nat)" by simp
    have "2 * (?q * 2 ^ k) \<le> 2 * ?M + 2 ^ k" by (rule round_half_even_upper)
    also have "\<dots> \<le> 2 * ?M + 16384" using pk by simp
    also have "\<dots> < 20000 * Suc ?m" by simp
    also have "\<dots> \<le> 20000 * 2 ^ ?n" using m by simp
    finally have "2 * (?q * 2 ^ k) < 2 * (10000 * 2 ^ ?n)" by simp
    then have "?q * 2 ^ k < 10000 * 2 ^ ?n" by linarith
    then have "real (?q * 2 ^ k) < real (10000 * 2 ^ ?n)" by (simp only: of_nat_less_iff)
    then have "real (?q * 2 ^ k) < 10000 * 2 ^ ?n" by simp
    then have "real (?q * 2 ^ k) / 2 ^ ?n < 10000" by (simp add: divide_less_eq)
    then show ?thesis unfolding val .
  qed
qed

lemma random_times_10000_floor:
  assumes "is_binary64 x" and "Number_value x < 1"
  shows "0 \<le> Math_floor (Number_times x (Number_of_nat 10000))"
    and "Math_floor (Number_times x (Number_of_nat 10000)) < 10000"
proof -
  show "0 \<le> Math_floor (Number_times x (Number_of_nat 10000))"
    by (simp add: Math_floor_def Number_value_nonneg)
  have "Number_value (Number_times x (Number_of_nat 10000)) < 10000"
    by (rule random_times_10000_value [OF assms])
  then show "Math_floor (Number_times x (Number_of_nat 10000)) < 10000"
    by (simp add: Math_floor_def floor_less_iff)
qed

lemma referenceNumber_digits:
  assumes year: "10 \<le> getFullYear (now env)"
      and draw: "is_binary64 (random env)" "Number_value (random env) < 1"
  shows "referenceNumber shipmentType env =
           ''CLEX-'' @ shipmentType
             @ [digit_char (nat (getFullYear (now env)) div 10 mod 10),
                digit_char (nat (getFullYear (now env)) mod 10)]
             @ ''-''
             @ [digit_char
                  (nat (Math_floor (Number_times (random env) (Number_of_nat 10000))) div 1000),
                digit_char
                   (nat (Math_floor (Number_times (random env) (Number_of_nat 10000))) div 100 mod 10),
                digit_char
                   (nat (Math_floor (Number_times (random env) (Number_of_nat 10000))) div 10 mod 10),
                digit_char
                   (nat (Math_floor (Number_times (random env) (Number_of_nat 10000))) mod 10)]"
proof -
  let ?y = "nat (getFullYear (now env))"
  let ?f = "Math_floor (Number_times (random env) (Number_of_nat 10000))"
  let ?n = "nat ?f"
  have n0: "0 \<le> ?f" by (rule random_times_10000_floor(1) [OF draw])
  have "?f < 10000" by (rule random_times_10000_floor(2) [OF draw])
  then have n: "?n < 10000" using n0 by simp
  have y: "10 \<le> ?y" using year by simp
  have "referenceNumber shipmentType env =
          ''CLEX-'' @ shipmentType @ slice_from_end 2 (digits ?y) @ ''-''
            @ padStart 4 (CHR ''0'') (digits ?n)"
    using year n0 by (simp add: referenceNumber_def Number_toString_nonneg)
  then show ?thesis
    by (simp add: slice_digits [OF y] padStart_digits [OF n])
qed


subsection \<open>The result of createShipmentAction\<close>

lemma createShipmentAction_Inr:
  assumes "createShipmentAction env shipmentType formData s = Inr (r, s')"
  shows "\<exists>user consigneeId tx1 exporterId tx2.
           getCurrentUser env = Inr user
         \<and> handleConsignee env user formData s = Inr (consigneeId, tx1)
         \<and> handleExporter env user formData tx1 = Inr (exporterId, tx2)
         \<and> shipment_create (new_shipment env user shipmentType formData consigneeId exporterId) tx2
             = Inr s'
         \<and> cr_shipment r = new_shipment env user shipmentType formData consigneeId exporterId
         \<and> cr_referenceNumber r = s_referenceNumber (cr_shipment r)
         \<and> cr_success r"
  using assms
  unfolding createShipmentAction_def createShipment_transaction_def
  by (auto simp: and_then_Inr_iff Let_def split: sum.splits prod.splits)

lemma shipment_create_Inr:
  "shipment_create r s = Inr s' \<Longrightarrow>
     s' = s\<lparr>shipment_tbl := shipment_tbl s @ [r]\<rparr> \<and> s_id r \<notin> set (map s_id (shipment_tbl s))"
  by (auto simp: shipment_create_def split: if_splits)


lemma referenceNumber_cong:
  "getFullYear (now env2) = getFullYear (now env) \<Longrightarrow>
   Math_floor (Number_times (random env2) (Number_of_nat 10000))
     = Math_floor (Number_times (random env) (Number_of_nat 10000)) \<Longrightarrow>
   referenceNumber ty env2 = referenceNumber ty env"
  by (simp add: referenceNumber_def)

lemma createShipmentAction_reference:
  "createShipmentAction env ty fd s = Inr (r, s') \<Longrightarrow>
     cr_referenceNumber r = referenceNumber ty env \<and> s_referenceNumber (cr_shipment r) = referenceNumber ty env"
  by (drule createShipmentAction_Inr) (auto simp: new_shipment_def)

lemma getCurrentUser_alice: "getCurrentUser alice_env = Inr alice"
  by (simp add: getCurrentUser_def alice_env_def)

lemma handleConsignee_None: "pd_consignee fd = None \<Longrightarrow> handleConsignee env u fd s = Inr (None, s)"
  by (simp add: handleConsignee_def)

lemma handleExporter_None: "pd_exporter fd = None \<Longrightarrow> handleExporter env u fd s = Inr (None, s)"
  by (simp add: handleExporter_def)

lemma createShipmentAction_without_clients:
  assumes "getCurrentUser env = Inr u" "pd_consignee fd = None" "pd_exporter fd = None"
      and "newId env ShipmentModel \<notin> set (map s_id (shipment_tbl s))"
  shows "createShipmentAction env ty fd s =
           Inr (\<lparr> cr_success = True,
                  cr_referenceNumber = referenceNumber ty env,
                  cr_shipment = new_shipment env u ty fd None None \<rparr>,
                s\<lparr>shipment_tbl := shipment_tbl s @ [new_shipment env u ty fd None None]\<rparr>)"
  using assms
  by (simp add: createShipmentAction_def createShipment_transaction_def and_then_def
        handleConsignee_None handleExporter_None shipment_create_def Let_def new_shipment_def)


lemma alice_env_simps:
  "validateSession alice_env = Some \<lparr> session_user = Some alice \<rparr>"
  "now alice_env = new_year_2026"
  "random alice_env = draw_0042"
  "newId alice_env = ids1"
  by (simp_all add: alice_env_def)

lemma bit_length_numeral:
  "0 < b \<Longrightarrow> 2 ^ (b - 1) \<le> n \<Longrightarrow> n < 2 ^ b \<Longrightarrow> bit_length n = b"
  using bit_length_eq [of "b - 1" n] by simp

lemma draw_0042_unit: "is_binary64 draw_0042" "Number_value draw_0042 < 1"
  by (simp_all add: is_binary64_def draw_0042_def Number_value_def)

lemma draw_0121_unit: "is_binary64 draw_0121" "Number_value draw_0121 < 1"
  by (simp_all add: is_binary64_def draw_0121_def Number_value_def)

text \<open>
  The draws are the Numbers nearest to \<open>0.0042\<close> and \<open>0.0121\<close>: each is within half a
  step of the fraction, the step of the Numbers being \<open>2^-60\<close> from \<open>2^-8\<close> to \<open>2^-7\<close> and
  \<open>2^-59\<close> from \<open>2^-7\<close> to \<open>2^-6\<close>.
\<close>

lemma draw_0042_nearest:
  "Number_value draw_0042 < 42 / 10000"
  "42 / 10000 - Number_value draw_0042 < 1 / 2 ^ 61"
  "1 / 2 ^ 8 \<le> Number_value draw_0042" "Number_value draw_0042 < 1 / 2 ^ 7"
  by (simp_all add: draw_0042_def Number_value_def)

lemma draw_0121_nearest:
  "Number_value draw_0121 < 121 / 10000"
  "121 / 10000 - Number_value draw_0121 < 1 / 2 ^ 60"
  "1 / 2 ^ 7 \<le> Number_value draw_0121" "Number_value draw_0121 < 1 / 2 ^ 6"
  by (simp_all add: draw_0121_def Number_value_def)

text \<open>
  Their products with \<open>10000\<close> round to the integers 42 and 121, which the exact
  products stay below.
\<close>

lemma draw_0042_times_10000:
  "Number_times draw_0042 (Number_of_nat 10000)
     = \<lparr> significand = 5910974510923776, exponent = - 47 \<rparr>"
proof -
  have "bit_length 48422703193487570000 = 66"
    by (rule bit_length_numeral) simp_all
  then show ?thesis
    by (simp add: Number_times_def Number_of_nat_def draw_0042_def Let_def round_half_even_def)
qed

lemma draw_0121_times_10000:
  "Number_times draw_0121 (Number_of_nat 10000)
     = \<lparr> significand = 8514618045497344, exponent = - 46 \<rparr>"
proof -
  have "bit_length 69751751028714240000 = 66"
    by (rule bit_length_numeral) simp_all
  then show ?thesis
    by (simp add: Number_times_def Number_of_nat_def draw_0121_def Let_def round_half_even_def)
qed

lemma draw_0042_floor:
  "Math_floor (Number_times draw_0042 (Number_of_nat 10000)) = 42"
  "\<lfloor>Number_value draw_0042 * 10000\<rfloor> = 41"
  by (simp add: draw_0042_times_10000 Math_floor_div)
     (simp add: draw_0042_def Number_value_def)

lemma draw_0121_floor:
  "Math_floor (Number_times draw_0121 (Number_of_nat 10000)) = 121"
  "\<lfloor>Number_value draw_0121 * 10000\<rfloor> = 120"
  by (simp add: draw_0121_times_10000 Math_floor_div)
     (simp add: draw_0121_def Number_value_def)


subsection \<open>The client steps of createShipmentAction\<close>

lemma filter_arg_or: "filter_arg v = Inr t \<Longrightarrow> or_filter t x = (v = Some (JStr x))"
  by (cases v rule: filter_arg.cases) (auto simp: or_filter_def)

lemma data_arg_Inr: "(data_arg v = Inr x) = (v = Some (JStr x))"
  by (cases v rule: data_arg.cases) auto

lemma consignee_findFirst_Inr:
  assumes "consignee_findFirst_tin_or_name (map_of c ''tin'') (map_of c ''name'') userId s = Inr found"
  shows "found = find (consignee_matches userId c) (consignee_tbl s)"
proof -
  from assms obtain t n where t: "filter_arg (map_of c ''tin'') = Inr t"
    and n: "filter_arg (map_of c ''name'') = Inr n"
    and f: "found = find (\<lambda>r. (or_filter t (c_tin r) \<or> or_filter n (c_name r)) \<and> c_userId r = userId)
                      (consignee_tbl s)"
    by (auto simp: consignee_findFirst_tin_or_name_def and_then_Inr_iff)
  have "(\<lambda>r. (or_filter t (c_tin r) \<or> or_filter n (c_name r)) \<and> c_userId r = userId)
          = consignee_matches userId c"
    by (rule ext) (simp add: consignee_matches_def filter_arg_or [OF t] filter_arg_or [OF n])
  with f show ?thesis by simp
qed

lemma handleConsignee_Inr:
  assumes "handleConsignee env u fd s = Inr (cid, s1)"
  shows "(case pd_consignee fd of
            None \<Rightarrow> cid = None \<and> s1 = s
          | Some c \<Rightarrow>
              if truthy (map_of c ''id'') then
                (case find (consignee_matches (u_id u) c) (consignee_tbl s) of
                   Some x \<Rightarrow> cid = Some (c_id x) \<and> s1 = s
                 | None \<Rightarrow>
                     cid = Some (newId env ConsigneeModel)
                     \<and> newId env ConsigneeModel \<notin> set (map c_id (consignee_tbl s))
                     \<and> (\<exists>row. s1 = s\<lparr>consignee_tbl := consignee_tbl s @ [row]\<rparr>
                          \<and> c_id row = newId env ConsigneeModel
                          \<and> c_userId row = u_id u
                          \<and> map_of c ''name'' = Some (JStr (c_name row))
                          \<and> c_registeredName row = c_name row
                          \<and> map_of c ''address'' = Some (JStr (c_businessAddress row))
                          \<and> or_empty (map_of c ''tin'') = Some (JStr (c_tin row))
                          \<and> or_empty (map_of c ''brn'') = Some (JStr (c_brn row))
                          \<and> or_empty (shipmentDetails_prop fd ''contact_person'')
                               = Some (JStr (c_contactPerson row))
                          \<and> or_empty (shipmentDetails_prop fd ''contact_number'')
                               = Some (JStr (c_contactNumber row))
                          \<and> c_email row = []
                          \<and> c_createdAt row = now env))
              else cid = None \<and> s1 = s)"
proof (cases "pd_consignee fd")
  case None
  with assms show ?thesis by (simp add: handleConsignee_def)
next
  case (Some c)
  show ?thesis
  proof (cases "truthy (map_of c ''id'')")
    case False
    with Some assms show ?thesis by (simp add: handleConsignee_def)
  next
    case True
    from assms Some True obtain found where
      ff: "consignee_findFirst_tin_or_name (map_of c ''tin'') (map_of c ''name'') (u_id u) s = Inr found"
      by (auto simp: handleConsignee_def and_then_Inr_iff)
    have fnd: "find (consignee_matches (u_id u) c) (consignee_tbl s) = found"
      using consignee_findFirst_Inr [OF ff] by simp
    show ?thesis
    proof (cases found)
      case (Some x)
      with assms \<open>pd_consignee fd = Some c\<close> True ff fnd show ?thesis
        by (auto simp: handleConsignee_def and_then_def)
    next
      case None
      with assms \<open>pd_consignee fd = Some c\<close> True ff fnd show ?thesis
        by (auto simp: handleConsignee_def and_then_Inr_iff data_arg_Inr Let_def
              consignee_create_def split: if_splits)
    qed
  qed
qed

lemma handleExporter_strings:
  assumes "pd_exporter fd = Some e"
      and "map_of e ''name'' = Some (JStr n)" and "map_of e ''address'' = Some (JStr a)"
  shows "handleExporter env u fd s =
           (case find (exporter_matches (u_id u) n a) (exporter_tbl s) of
              Some x \<Rightarrow> Inr (Some (e_id x), s)
            | None \<Rightarrow>
                if newId env ExporterModel \<in> set (map e_id (exporter_tbl s)) then Inl PrismaError
                else Inr (Some (newId env ExporterModel),
                          s\<lparr>exporter_tbl := exporter_tbl s @
                             [\<lparr> e_id = newId env ExporterModel, e_name = n,
                                e_businessAddress = a, e_contactPerson = [],
                                e_contactNumber = [], e_email = [], e_userId = u_id u,
                                e_createdAt = now env \<rparr>]\<rparr>))"
proof -
  have "(\<lambda>r. (and_filter (Some n) (e_name r) \<and> and_filter (Some a) (e_businessAddress r))
              \<and> e_userId r = u_id u) = exporter_matches (u_id u) n a"
    by (rule ext) (auto simp: exporter_matches_def and_filter_def)
  then show ?thesis
    using assms
    by (simp add: handleExporter_def exporter_findFirst_name_and_address_def and_then_def
          exporter_create_def Let_def split: option.splits)
qed

lemma handleExporter_frame:
  assumes "handleExporter env u fd s = Inr (eid, s2)"
  shows "consignee_tbl s2 = consignee_tbl s \<and> shipment_tbl s2 = shipment_tbl s
       \<and> document_tbl s2 = document_tbl s \<and> revalidated s2 = revalidated s"
  using assms
  by (auto simp: handleExporter_def and_then_Inr_iff exporter_create_def Let_def
        split: option.splits if_splits)

lemma handleConsignee_frame:
  assumes "handleConsignee env u fd s = Inr (cid, s1)"
  shows "exporter_tbl s1 = exporter_tbl s \<and> shipment_tbl s1 = shipment_tbl s
       \<and> document_tbl s1 = document_tbl s \<and> revalidated s1 = revalidated s"
  using handleConsignee_Inr [OF assms]
  by (auto split: option.splits if_splits)

lemma createShipmentAction_stored:
  assumes "createShipmentAction env ty fd s = Inr (r, s')"
  shows "shipment_tbl s' = shipment_tbl s @ [cr_shipment r]"
proof -
  from createShipmentAction_Inr [OF assms] obtain user cid tx1 eid tx2 where
    hc: "handleConsignee env user fd s = Inr (cid, tx1)" and
    he: "handleExporter env user fd tx1 = Inr (eid, tx2)" and
    sc: "shipment_create (new_shipment env user ty fd cid eid) tx2 = Inr s'" and
    r: "cr_shipment r = new_shipment env user ty fd cid eid"
    by blast
  from shipment_create_Inr [OF sc] handleExporter_frame [OF he] handleConsignee_frame [OF hc] r
  show ?thesis by simp
qed

lemma s_id_new_shipment [simp]: "s_id (new_shipment env u ty fd c e) = newId env ShipmentModel"
  by (simp add: new_shipment_def)

lemma s_consigneeId_new_shipment [simp]: "s_consigneeId (new_shipment env u ty fd c e) = c"
  by (simp add: new_shipment_def)

lemma s_exporterId_new_shipment [simp]: "s_exporterId (new_shipment env u ty fd c e) = e"
  by (simp add: new_shipment_def)

lemma s_referenceNumber_new_shipment [simp]:
  "s_referenceNumber (new_shipment env u ty fd c e) = referenceNumber ty env"
  by (simp add: new_shipment_def)

lemmas eval_defs =
  createShipmentAction_def createShipment_transaction_def and_then_def
  handleConsignee_def handleExporter_def shipment_create_def
  consignee_findFirst_tin_or_name_def exporter_findFirst_name_and_address_def
  consignee_create_def exporter_create_def or_filter_def and_filter_def or_empty_def or_else_def
  shipmentDetails_prop_def Let_def
  getCurrentUser_alice alice_env_simps alice_def empty_store_def empty_formData_def
  ids1_def ids2_def

lemma find_append_cases:
  "find P (xs @ ys) = (case find P xs of None \<Rightarrow> find P ys | Some x \<Rightarrow> Some x)"
  by (induction xs) simp_all

lemma find_Some_mem: "find P xs = Some x \<Longrightarrow> x \<in> set xs \<and> P x"
  by (induction xs) (auto split: if_splits)

lemma createShipmentAction_exporter_step:
  assumes "createShipmentAction env ty fd s = Inr (r, s')"
      and "getCurrentUser env = Inr user"
      and "pd_exporter fd = Some e"
      and "map_of e ''name'' = Some (JStr n)" and "map_of e ''address'' = Some (JStr a)"
  shows "(case find (exporter_matches (u_id user) n a) (exporter_tbl s) of
            Some x \<Rightarrow> s_exporterId (cr_shipment r) = Some (e_id x) \<and> exporter_tbl s' = exporter_tbl s
          | None \<Rightarrow>
              s_exporterId (cr_shipment r) = Some (newId env ExporterModel)
              \<and> newId env ExporterModel \<notin> set (map e_id (exporter_tbl s))
              \<and> exporter_tbl s' = exporter_tbl s @
                   [\<lparr> e_id = newId env ExporterModel, e_name = n,
                      e_businessAddress = a, e_contactPerson = [],
                      e_contactNumber = [], e_email = [], e_userId = u_id user,
                      e_createdAt = now env \<rparr>])"
proof -
  from createShipmentAction_Inr [OF assms(1)] assms(2) obtain cid tx1 eid tx2 where
    hc: "handleConsignee env user fd s = Inr (cid, tx1)" and
    he: "handleExporter env user fd tx1 = Inr (eid, tx2)" and
    sc: "shipment_create (new_shipment env user ty fd cid eid) tx2 = Inr s'" and
    r: "cr_shipment r = new_shipment env user ty fd cid eid"
    by auto
  have t1: "exporter_tbl tx1 = exporter_tbl s"
    using handleConsignee_frame [OF hc] by simp
  have t2: "exporter_tbl s' = exporter_tbl tx2"
    using shipment_create_Inr [OF sc] by simp
  have eid: "s_exporterId (cr_shipment r) = eid"
    using r by simp
  from he t1 t2 eid show ?thesis
    unfolding handleExporter_strings [OF assms(3-5)]
    by (auto split: option.splits if_splits)
qed

lemma or_empty_JStr: "or_empty (Some (JStr t)) = Some (JStr t)"
  by (simp add: or_empty_def or_else_def)

lemma consignee_step:
  assumes "createShipmentAction env shipmentType formData s = Inr (r, s')"
      and "getCurrentUser env = Inr user"
  shows "(case pd_consignee formData of
            None \<Rightarrow> s_consigneeId (cr_shipment r) = None \<and> consignee_tbl s' = consignee_tbl s
          | Some c \<Rightarrow>
              if truthy (map_of c ''id'') then
                (case find (consignee_matches (u_id user) c) (consignee_tbl s) of
                   Some existing \<Rightarrow>
                     s_consigneeId (cr_shipment r) = Some (c_id existing)
                     \<and> consignee_tbl s' = consignee_tbl s
                 | None \<Rightarrow>
                     s_consigneeId (cr_shipment r) = Some (newId env ConsigneeModel)
                     \<and> (\<exists>row. consignee_tbl s' = consignee_tbl s @ [row]
                          \<and> c_id row = newId env ConsigneeModel
                          \<and> c_userId row = u_id user
                          \<and> map_of c ''name'' = Some (JStr (c_name row))
                          \<and> c_registeredName row = c_name row
                          \<and> map_of c ''address'' = Some (JStr (c_businessAddress row))
                          \<and> or_empty (map_of c ''tin'') = Some (JStr (c_tin row))
                          \<and> or_empty (map_of c ''brn'') = Some (JStr (c_brn row))
                          \<and> or_empty (shipmentDetails_prop formData ''contact_person'')
                               = Some (JStr (c_contactPerson row))
                          \<and> or_empty (shipmentDetails_prop formData ''contact_number'')
                               = Some (JStr (c_contactNumber row))
                          \<and> c_email row = []))
              else s_consigneeId (cr_shipment r) = None \<and> consignee_tbl s' = consignee_tbl s)"
proof -
  from createShipmentAction_Inr [OF assms(1)] assms(2) obtain cid tx1 eid tx2 where
    hc: "handleConsignee env user formData s = Inr (cid, tx1)" and
    he: "handleExporter env user formData tx1 = Inr (eid, tx2)" and
    sc: "shipment_create (new_shipment env user shipmentType formData cid eid) tx2 = Inr s'" and
    r: "cr_shipment r = new_shipment env user shipmentType formData cid eid"
    by auto
  have tbl: "consignee_tbl s' = consignee_tbl tx1"
    using shipment_create_Inr [OF sc] handleExporter_frame [OF he] by simp
  have cid: "s_consigneeId (cr_shipment r) = cid"
    using r by simp
  show ?thesis
    using handleConsignee_Inr [OF hc] unfolding tbl cid
    by (auto split: option.splits if_splits)
qed

lemma consignee_rematch:
  assumes call1: "createShipmentAction env1 type1 formData1 s = Inr (r1, s1)"
      and call2: "createShipmentAction env2 type2 formData2 s1 = Inr (r2, s2)"
      and user1: "getCurrentUser env1 = Inr user" and user2: "getCurrentUser env2 = Inr user"
      and c1: "pd_consignee formData1 = Some c1" and c2: "pd_consignee formData2 = Some c2"
      and id1: "truthy (map_of c1 ''id'')" and id2: "truthy (map_of c2 ''id'')"
      and tin1: "map_of c1 ''tin'' = Some (JStr tin)" and tin2: "map_of c2 ''tin'' = Some (JStr tin)"
      and name1: "map_of c1 ''name'' = Some (JStr name1)"
      and name2: "map_of c2 ''name'' = Some (JStr name2)"
      and others: "\<forall>x \<in> set (consignee_tbl s).
                     c_userId x = u_id user \<and> (c_name x = name1 \<or> c_name x = name2) \<longrightarrow> c_tin x = tin"
  shows "s_consigneeId (cr_shipment r2) = s_consigneeId (cr_shipment r1)
       \<and> s_consigneeId (cr_shipment r1) \<noteq> None"
proof -
  let ?P1 = "consignee_matches (u_id user) c1"
  let ?P2 = "consignee_matches (u_id user) c2"
  have same: "find ?P1 (consignee_tbl s) = find ?P2 (consignee_tbl s)"
  proof (rule find_cong [OF refl])
    fix x assume "x \<in> set (consignee_tbl s)"
    with others show "?P1 x = ?P2 x"
      by (auto simp: consignee_matches_def tin1 tin2 name1 name2)
  qed
  note step1 = consignee_step [OF call1 user1]
  note step2 = consignee_step [OF call2 user2]
  show ?thesis
  proof (cases "find ?P1 (consignee_tbl s)")
    case (Some x)
    with step1 c1 id1 have a: "s_consigneeId (cr_shipment r1) = Some (c_id x)"
      and t: "consignee_tbl s1 = consignee_tbl s" by simp_all
    from Some same t have "find ?P2 (consignee_tbl s1) = Some x" by simp
    with step2 c2 id2 have "s_consigneeId (cr_shipment r2) = Some (c_id x)" by simp
    with a show ?thesis by simp
  next
    case None
    with step1 c1 id1 obtain row where
      a: "s_consigneeId (cr_shipment r1) = Some (newId env1 ConsigneeModel)" and
      t: "consignee_tbl s1 = consignee_tbl s @ [row]" and
      rid: "c_id row = newId env1 ConsigneeModel" and
      ru: "c_userId row = u_id user" and
      rt: "or_empty (map_of c1 ''tin'') = Some (JStr (c_tin row))"
      by auto
    from rt have "c_tin row = tin" by (simp add: tin1 or_empty_JStr)
    with ru have "?P2 row" by (simp add: consignee_matches_def tin2)
    moreover from None same have "find ?P2 (consignee_tbl s) = None" by simp
    ultimately have "find ?P2 (consignee_tbl s1) = Some row"
      by (simp add: t find_append_cases)
    with step2 c2 id2 have "s_consigneeId (cr_shipment r2) = Some (c_id row)" by simp
    with a rid show ?thesis by simp
  qed
qed

lemma exporter_no_rematch:
  assumes call1: "createShipmentAction env1 type1 formData1 s = Inr (r1, s1)"
      and call2: "createShipmentAction env2 type2 formData2 s1 = Inr (r2, s2)"
      and user1: "getCurrentUser env1 = Inr user" and user2: "getCurrentUser env2 = Inr user"
      and e1: "pd_exporter formData1 = Some e1" and e2: "pd_exporter formData2 = Some e2"
      and name1: "map_of e1 ''name'' = Some (JStr name)"
      and name2: "map_of e2 ''name'' = Some (JStr name)"
      and address1: "map_of e1 ''address'' = Some (JStr address1)"
      and address2: "map_of e2 ''address'' = Some (JStr address2)"
      and differ: "address1 \<noteq> address2"
      and others: "\<forall>x \<in> set (exporter_tbl s). \<not> exporter_matches (u_id user) name address2 x"
  shows "s_exporterId (cr_shipment r2) = Some (newId env2 ExporterModel)
       \<and> s_exporterId (cr_shipment r2) \<noteq> s_exporterId (cr_shipment r1)
       \<and> exporter_tbl s2 = exporter_tbl s1 @
            [\<lparr> e_id = newId env2 ExporterModel, e_name = name, e_businessAddress = address2,
               e_contactPerson = [], e_contactNumber = [], e_email = [], e_userId = u_id user,
               e_createdAt = now env2 \<rparr>]"
proof -
  note step1 = createShipmentAction_exporter_step [OF call1 user1 e1 name1 address1]
  note step2 = createShipmentAction_exporter_step [OF call2 user2 e2 name2 address2]
  have first: "\<exists>x \<in> set (exporter_tbl s1). s_exporterId (cr_shipment r1) = Some (e_id x)"
    and none: "\<forall>x \<in> set (exporter_tbl s1). \<not> exporter_matches (u_id user) name address2 x"
  proof -
    show "\<exists>x \<in> set (exporter_tbl s1). s_exporterId (cr_shipment r1) = Some (e_id x)"
    proof (cases "find (exporter_matches (u_id user) name address1) (exporter_tbl s)")
      case (Some x)
      with step1 find_Some_mem [OF Some] show ?thesis by auto
    next
      case None
      with step1 show ?thesis by auto
    qed
    show "\<forall>x \<in> set (exporter_tbl s1). \<not> exporter_matches (u_id user) name address2 x"
    proof (cases "find (exporter_matches (u_id user) name address1) (exporter_tbl s)")
      case (Some x)
      with step1 others show ?thesis by simp
    next
      case None
      with step1 others differ show ?thesis by (auto simp: exporter_matches_def)
    qed
  qed
  from none have "find (exporter_matches (u_id user) name address2) (exporter_tbl s1) = None"
    by (simp add: find_None_iff)
  with step2 have a: "s_exporterId (cr_shipment r2) = Some (newId env2 ExporterModel)"
    and fresh: "newId env2 ExporterModel \<notin> set (map e_id (exporter_tbl s1))"
    and t: "exporter_tbl s2 = exporter_tbl s1 @
            [\<lparr> e_id = newId env2 ExporterModel, e_name = name, e_businessAddress = address2,
               e_contactPerson = [], e_contactNumber = [], e_email = [], e_userId = u_id user,
               e_createdAt = now env2 \<rparr>]"
    by simp_all
  from first fresh a have "s_exporterId (cr_shipment r2) \<noteq> s_exporterId (cr_shipment r1)"
    by auto
  with a t show ?thesis by simp
qed

lemma first_call:
  "createShipmentAction alice_env ''IMS'' first_formData empty_store =
     Inr (\<lparr> cr_success = True, cr_referenceNumber = referenceNumber ''IMS'' alice_env,
            cr_shipment = first_shipment \<rparr>, after_first)"
  by (simp add: eval_defs first_formData_def acme_def globex_def acme_row_def globex_row_def
        first_shipment_def after_first_def)

lemma second_call:
  "createShipmentAction (alice_env\<lparr>newId := ids2\<rparr>) ''IMS'' second_formData after_first =
     Inr (\<lparr> cr_success = True,
            cr_referenceNumber = referenceNumber ''IMS'' (alice_env\<lparr>newId := ids2\<rparr>),
            cr_shipment = second_shipment \<rparr>, after_second)"
  by (simp add: eval_defs getCurrentUser_def second_formData_def acme_logistics_def globex_moved_def
        acme_row_def globex_row_def
        first_shipment_def second_shipment_def after_first_def after_second_def)

subsection \<open>Sessions, lookups and updates of a shipment\<close>

lemma getCurrentUser_Unauthorized:
  "(case validateSession env of None \<Rightarrow> True | Some session \<Rightarrow> session_user session = None)
     \<Longrightarrow> getCurrentUser env = Inl (Error ''Unauthorized'')"
  by (cases "validateSession env") (simp_all add: getCurrentUser_def)

lemma shipment_findUnique_owned_None:
  "\<forall>sh \<in> set (shipment_tbl s). s_id sh = i \<longrightarrow> s_userId sh \<noteq> u
     \<Longrightarrow> shipment_findUnique_owned i u s = None"
  by (auto simp: shipment_findUnique_owned_def find_None_iff)

lemma getCurrentUser_bob: "getCurrentUser bob_env = Inr bob"
  by (simp add: getCurrentUser_def bob_env_def)

lemma after_first_shipments: "shipment_tbl after_first = [first_shipment]"
  by (simp add: after_first_def empty_store_def)

lemma first_shipment_simps:
  "s_id first_shipment = ''s1''" "s_userId first_shipment = ''user-alice''"
  by (simp_all add: first_shipment_def new_shipment_def alice_env_simps ids1_def alice_def)

lemma find_conj_Some: "find P xs = Some x \<Longrightarrow> Q x \<Longrightarrow> find (\<lambda>r. P r \<and> Q r) xs = Some x"
  by (induction xs) (auto split: if_splits)

lemma find_update_first:
  "(\<And>x. P x \<Longrightarrow> P (f x)) \<Longrightarrow> find P (update_first P f xs) = map_option f (find P xs)"
  by (induction xs) simp_all

lemma update_first_id: "find P xs = Some x \<Longrightarrow> f x = x \<Longrightarrow> update_first P f xs = xs"
  by (induction xs) (auto split: if_splits)

lemma shipment_findUnique_owned_Some:
  "shipment_findUnique i s = Some sh \<Longrightarrow> s_userId sh = u
     \<Longrightarrow> shipment_findUnique_owned i u s = Some sh"
  unfolding shipment_findUnique_def shipment_findUnique_owned_def
  by (rule find_conj_Some)

lemma shipment_update_found:
  assumes "shipment_findUnique i s = Some sh" and "\<And>r. s_id (f r) = s_id r"
  shows "shipment_update i f s =
           Inr (f sh, s\<lparr>shipment_tbl := update_first (\<lambda>r. s_id r = i) f (shipment_tbl s)\<rparr>)"
    and "shipment_findUnique i
           (s\<lparr>shipment_tbl := update_first (\<lambda>r. s_id r = i) f (shipment_tbl s)\<rparr>) = Some (f sh)"
  using assms
  by (simp_all add: shipment_update_def shipment_findUnique_def find_update_first)

lemma shipment_findUnique_revalidatePath [simp]:
  "shipment_findUnique i (revalidatePath p s) = shipment_findUnique i s"
  by (simp add: shipment_findUnique_def revalidatePath_def)

lemma first_shipment_found: "shipment_findUnique ''s1'' after_first = Some first_shipment"
  by (simp add: shipment_findUnique_def after_first_shipments first_shipment_simps)

lemma first_shipment_timeline:
  "JSON_parse (s_timelineData first_shipment) = Inr (JArr [created_entry])"
  by (simp add: first_shipment_def new_shipment_def JSON_stringify_def created_entry_def
        alice_env_simps new_year_2026_def)

subsection \<open>processDocumentUploadAction\<close>

lemma map_exn_Inr_iff: "(map_exn f xs = Inr ys) = list_all2 (\<lambda>x y. f x = Inr y) xs ys"
proof (induction xs arbitrary: ys)
  case Nil
  show ?case by auto
next
  case (Cons x xs)
  show ?case
  proof (cases ys)
    case Nil
    then show ?thesis by (auto split: sum.splits)
  next
    case (Cons y ys')
    with Cons.IH [of ys'] show ?thesis by (auto split: sum.splits)
  qed
qed

lemma upload_to_doc_unnamed:
  "\<not> doc_named documentType d \<Longrightarrow> upload_to_doc documentType url d = Inr d' \<Longrightarrow> d' = d"
  by (cases d) auto

lemma upload_to_doc_unnamed_total:
  "\<not> doc_named documentType d \<Longrightarrow> d \<noteq> JNull \<Longrightarrow> upload_to_doc documentType url d = Inr d"
  by (cases d) auto

lemma upload_to_doc_named:
  assumes "doc_named documentType d" and "upload_to_doc documentType url d = Inr d'"
  shows "\<exists>doc files.
           d = JObj doc
         \<and> spread (or_else (map_of doc ''files'') (Some (JArr []))) = Inr files
         \<and> d' = JObj (AList.update ''files'' (JArr (files @ [JStr url]))
                        (AList.update ''status'' (JStr ''draft'') doc))"
  using assms by (cases d) (auto simp: and_then_Inr_iff)

lemma map_exn_unnamed:
  "\<forall>d \<in> set docs. \<not> doc_named documentType d \<Longrightarrow>
     map_exn (upload_to_doc documentType url) docs = Inr docs' \<Longrightarrow> docs' = docs"
proof (induction docs arbitrary: docs')
  case Nil
  then show ?case by simp
next
  case (Cons d docs)
  from Cons.prems(2) obtain e es where
    d: "upload_to_doc documentType url d = Inr e" and
    es: "map_exn (upload_to_doc documentType url) docs = Inr es" and
    docs': "docs' = e # es"
    by (auto split: sum.splits)
  from Cons.prems(1) d have "e = d" by (auto dest: upload_to_doc_unnamed)
  moreover from Cons.IH [OF _ es] Cons.prems(1) have "es = docs" by simp
  ultimately show ?case using docs' by simp
qed

lemma map_exn_unnamed_total:
  "\<forall>d \<in> set docs. \<not> doc_named documentType d \<and> d \<noteq> JNull \<Longrightarrow>
     map_exn (upload_to_doc documentType url) docs = Inr docs"
  by (induction docs) (simp_all add: upload_to_doc_unnamed_total)

lemma processDocumentUpload_Inr:
  assumes user: "getCurrentUser env = Inr user"
      and found: "shipment_findUnique shipmentId s = Some shipment"
      and owner: "s_userId shipment = u_id user"
      and parse: "JSON_parse (s_documentsData shipment) = Inr (JArr documents)"
  shows "processDocumentUploadAction env shipmentId documentType f s =
           (case map_exn (upload_to_doc documentType (simulatedUrl shipmentId documentType env f))
                   documents of
              Inl e \<Rightarrow> Inl (Error ''Failed to process document upload'')
            | Inr updated \<Rightarrow>
                Inr (\<lparr> up_success = True,
                       up_fileUrl = simulatedUrl shipmentId documentType env f,
                       up_status = ''draft'' \<rparr>,
                     s\<lparr>shipment_tbl :=
                        update_first (\<lambda>r. s_id r = shipmentId)
                          (\<lambda>r. r\<lparr>s_documentsData := JSON_stringify (JArr updated)\<rparr>)
                          (shipment_tbl s)\<rparr>))"
proof -
  note own = shipment_findUnique_owned_Some [OF found owner]
  show ?thesis
  proof (cases "map_exn (upload_to_doc documentType (simulatedUrl shipmentId documentType env f))
                  documents")
    case (Inl e)
    with user own parse show ?thesis
      by (simp add: processDocumentUploadAction_def and_then_def Let_def)
  next
    case (Inr updated)
    with user own parse
      shipment_update_found(1) [OF found,
        of "\<lambda>r. r\<lparr>s_documentsData := JSON_stringify (JArr updated)\<rparr>"]
    show ?thesis
      by (simp add: processDocumentUploadAction_def and_then_def Let_def)
  qed
qed

lemma checklist_shipment_simps:
  "s_id checklist_shipment = ''s1''"
  "s_userId checklist_shipment = u_id alice"
  "JSON_parse (s_documentsData checklist_shipment) = Inr (JArr [bl_entry, invoice_entry])"
  by (simp_all add: checklist_shipment_def new_shipment_def alice_env_simps ids1_def
        JSON_stringify_def or_empty_list_def)

lemma checklist_found: "shipment_findUnique ''s1'' checklist_store = Some checklist_shipment"
  by (simp add: shipment_findUnique_def checklist_store_def empty_store_def
        checklist_shipment_simps)

lemma invoice_url:
  "simulatedUrl ''s1'' ''Commercial Invoice'' alice_env a_file
     = ''/simulated-uploads/s1/Commercial Invoice-1767225600000-bl.pdf''"
  by (simp add: simulatedUrl_def alice_env_simps new_year_2026_def a_file_def Number_toString_def
        digits_ge10 digits_lt10 digit_char_def)

subsection \<open>updateShipmentDetailsAction\<close>

lemma consignee_updates_Inr:
  assumes "consignee_updates current updates s = Inr g"
  shows "pd_consignee updates = None \<Longrightarrow> g = (\<lambda>r. r)"
    and "pd_consignee updates = Some c \<Longrightarrow> \<not> truthy (map_of c ''id'') \<Longrightarrow>
           g = (\<lambda>r. r\<lparr>s_consigneeId := s_consigneeId current,
                        s_consigneeData := JSON_stringify (JObj c)\<rparr>)"
    and "pd_consignee updates = Some c \<Longrightarrow> truthy (map_of c ''id'') \<Longrightarrow>
           \<exists>i. map_of c ''id'' = Some (JStr i) \<and>
               g = (\<lambda>r. r\<lparr>s_consigneeId :=
                              (case consignee_findUnique i s of
                                 Some found \<Rightarrow> Some (c_id found)
                               | None \<Rightarrow> s_consigneeId current),
                            s_consigneeData := JSON_stringify (JObj c)\<rparr>)"
proof -
  show "pd_consignee updates = None \<Longrightarrow> g = (\<lambda>r. r)"
    using assms by (simp add: consignee_updates_def)
  show "pd_consignee updates = Some c \<Longrightarrow> \<not> truthy (map_of c ''id'') \<Longrightarrow>
           g = (\<lambda>r. r\<lparr>s_consigneeId := s_consigneeId current,
                        s_consigneeData := JSON_stringify (JObj c)\<rparr>)"
    using assms by (simp add: consignee_updates_def and_then_def)
  show "\<exists>i. map_of c ''id'' = Some (JStr i) \<and>
               g = (\<lambda>r. r\<lparr>s_consigneeId :=
                              (case consignee_findUnique i s of
                                 Some found \<Rightarrow> Some (c_id found)
                               | None \<Rightarrow> s_consigneeId current),
                            s_consigneeData := JSON_stringify (JObj c)\<rparr>)"
    if c: "pd_consignee updates = Some c" and t: "truthy (map_of c ''id'')"
  proof -
    from assms c t obtain i where i: "data_arg (map_of c ''id'') = Inr i"
      by (auto simp: consignee_updates_def and_then_Inr_iff)
    then have m: "map_of c ''id'' = Some (JStr i)" by (simp add: data_arg_Inr)
    from assms c t i have
      "g = (\<lambda>r. r\<lparr>s_consigneeId :=
                      (case consignee_findUnique i s of
                         Some found \<Rightarrow> Some (c_id found)
                       | None \<Rightarrow> s_consigneeId current),
                    s_consigneeData := JSON_stringify (JObj c)\<rparr>)"
      by (cases "consignee_findUnique i s") (auto simp: consignee_updates_def and_then_def)
    with m show ?thesis by blast
  qed
qed

lemma exporter_updates_Inr:
  assumes "exporter_updates current updates s = Inr g"
  shows "pd_exporter updates = None \<Longrightarrow> g = (\<lambda>r. r)"
    and "pd_exporter updates = Some e \<Longrightarrow> \<not> truthy (map_of e ''id'') \<Longrightarrow>
           g = (\<lambda>r. r\<lparr>s_exporterId := s_exporterId current,
                        s_exporterData := JSON_stringify (JObj e)\<rparr>)"
    and "pd_exporter updates = Some e \<Longrightarrow> truthy (map_of e ''id'') \<Longrightarrow>
           \<exists>i. map_of e ''id'' = Some (JStr i) \<and>
               g = (\<lambda>r. r\<lparr>s_exporterId :=
                              (case exporter_findUnique i s of
                                 Some found \<Rightarrow> Some (e_id found)
                               | None \<Rightarrow> s_exporterId current),
                            s_exporterData := JSON_stringify (JObj e)\<rparr>)"
proof -
  show "pd_exporter updates = None \<Longrightarrow> g = (\<lambda>r. r)"
    using assms by (simp add: exporter_updates_def)
  show "pd_exporter updates = Some e \<Longrightarrow> \<not> truthy (map_of e ''id'') \<Longrightarrow>
           g = (\<lambda>r. r\<lparr>s_exporterId := s_exporterId current,
                        s_exporterData := JSON_stringify (JObj e)\<rparr>)"
    using assms by (simp add: exporter_updates_def and_then_def)
  show "\<exists>i. map_of e ''id'' = Some (JStr i) \<and>
               g = (\<lambda>r. r\<lparr>s_exporterId :=
                              (case exporter_findUnique i s of
                                 Some found \<Rightarrow> Some (e_id found)
                               | None \<Rightarrow> s_exporterId current),
                            s_exporterData := JSON_stringify (JObj e)\<rparr>)"
    if e: "pd_exporter updates = Some e" and t: "truthy (map_of e ''id'')"
  proof -
    from assms e t obtain i where i: "data_arg (map_of e ''id'') = Inr i"
      by (auto simp: exporter_updates_def and_then_Inr_iff)
    then have m: "map_of e ''id'' = Some (JStr i)" by (simp add: data_arg_Inr)
    from assms e t i have
      "g = (\<lambda>r. r\<lparr>s_exporterId :=
                      (case exporter_findUnique i s of
                         Some found \<Rightarrow> Some (e_id found)
                       | None \<Rightarrow> s_exporterId current),
                    s_exporterData := JSON_stringify (JObj e)\<rparr>)"
      by (cases "exporter_findUnique i s") (auto simp: exporter_updates_def and_then_def)
    with m show ?thesis by blast
  qed
qed

lemma consignee_updates_frame:
  assumes "consignee_updates current updates s = Inr g"
  shows "s_id (g r) = s_id r \<and> s_exporterId (g r) = s_exporterId r
       \<and> s_exporterData (g r) = s_exporterData r
       \<and> s_shipmentDetails (g r) = s_shipmentDetails r \<and> s_documentsData (g r) = s_documentsData r
       \<and> s_timelineData (g r) = s_timelineData r \<and> s_notesData (g r) = s_notesData r
       \<and> s_computations (g r) = s_computations r \<and> s_cargoData (g r) = s_cargoData r
       \<and> s_statementOfFactsData (g r) = s_statementOfFactsData r
       \<and> s_consigneeData (g r) =
           (case pd_consignee updates of
              None \<Rightarrow> s_consigneeData r | Some c \<Rightarrow> JSON_stringify (JObj c))"
proof (cases "pd_consignee updates")
  case None
  with consignee_updates_Inr(1) [OF assms] show ?thesis by simp
next
  case (Some c)
  show ?thesis
  proof (cases "truthy (map_of c ''id'')")
    case True
    with consignee_updates_Inr(3) [OF assms Some] Some show ?thesis by auto
  next
    case False
    with consignee_updates_Inr(2) [OF assms Some] Some show ?thesis by simp
  qed
qed

lemma exporter_updates_frame:
  assumes "exporter_updates current updates s = Inr g"
  shows "s_id (g r) = s_id r \<and> s_consigneeId (g r) = s_consigneeId r
       \<and> s_consigneeData (g r) = s_consigneeData r
       \<and> s_shipmentDetails (g r) = s_shipmentDetails r \<and> s_documentsData (g r) = s_documentsData r
       \<and> s_timelineData (g r) = s_timelineData r \<and> s_notesData (g r) = s_notesData r
       \<and> s_computations (g r) = s_computations r \<and> s_cargoData (g r) = s_cargoData r
       \<and> s_statementOfFactsData (g r) = s_statementOfFactsData r
       \<and> s_exporterData (g r) =
           (case pd_exporter updates of
              None \<Rightarrow> s_exporterData r | Some e \<Rightarrow> JSON_stringify (JObj e))"
proof (cases "pd_exporter updates")
  case None
  with exporter_updates_Inr(1) [OF assms] show ?thesis by simp
next
  case (Some e)
  show ?thesis
  proof (cases "truthy (map_of e ''id'')")
    case True
    with exporter_updates_Inr(3) [OF assms Some] Some show ?thesis by auto
  next
    case False
    with exporter_updates_Inr(2) [OF assms Some] Some show ?thesis by simp
  qed
qed

lemma other_updates_fields:
  "s_id (other_updates updates r) = s_id r"
  "s_consigneeId (other_updates updates r) = s_consigneeId r"
  "s_exporterId (other_updates updates r) = s_exporterId r"
  "s_consigneeData (other_updates updates r) = s_consigneeData r"
  "s_exporterData (other_updates updates r) = s_exporterData r"
  "s_computations (other_updates updates r) = s_computations r"
  "s_shipmentDetails (other_updates updates r) =
     (case pd_shipmentDetails updates of
        None \<Rightarrow> s_shipmentDetails r | Some d \<Rightarrow> JSON_stringify (JObj d))"
  "s_documentsData (other_updates updates r) =
     (case pd_documents updates of None \<Rightarrow> s_documentsData r | Some xs \<Rightarrow> JSON_stringify (JArr xs))"
  "s_timelineData (other_updates updates r) =
     (case pd_timeline updates of None \<Rightarrow> s_timelineData r | Some xs \<Rightarrow> JSON_stringify (JArr xs))"
  "s_notesData (other_updates updates r) =
     (case pd_notes updates of None \<Rightarrow> s_notesData r | Some xs \<Rightarrow> JSON_stringify (JArr xs))"
  "s_cargoData (other_updates updates r) =
     (case pd_cargo updates of None \<Rightarrow> s_cargoData r | Some xs \<Rightarrow> Some (JSON_stringify (JArr xs)))"
  "s_statementOfFactsData (other_updates updates r) =
     (case pd_statementOfFacts updates of
        None \<Rightarrow> s_statementOfFactsData r | Some xs \<Rightarrow> Some (JSON_stringify (JArr xs)))"
  by (simp_all add: other_updates_def Let_def split: option.splits)

lemma updateShipmentDetails_written:
  assumes "updateShipmentDetailsAction env id' updates s = (Inr data, s')"
  shows "\<exists>user current consigneePart exporterPart old.
           getCurrentUser env = Inr user
         \<and> shipment_findUnique_owned id' (u_id user) s = Some current
         \<and> consignee_updates current updates s = Inr consigneePart
         \<and> exporter_updates current updates s = Inr exporterPart
         \<and> shipment_findUnique id' s = Some old
         \<and> shipment_findUnique id' s'
             = Some ((other_updates updates (exporterPart (consigneePart old)))
                       \<lparr>s_updatedAt := now env\<rparr>)"
proof -
  let ?m = "and_then (getCurrentUser env) (\<lambda>user.
             case shipment_findUnique_owned id' (u_id user) s of
               None \<Rightarrow> Inl (Error ''Shipment not found'')
             | Some currentShipment \<Rightarrow>
                 and_then (consignee_updates currentShipment updates s) (\<lambda>consigneePart.
                 and_then (exporter_updates currentShipment updates s) (\<lambda>exporterPart.
                 shipment_update id'
                   (\<lambda>r. (other_updates updates (exporterPart (consigneePart r)))
                           \<lparr>s_updatedAt := now env\<rparr>) s)))"
  from assms obtain updated s1 where m: "?m = Inr (updated, s1)"
    and s': "s' = s1 \<or> s' = revalidatePath (import_path id') s1"
    unfolding updateShipmentDetailsAction_def
    by (auto split: sum.splits prod.splits)
  from m obtain user current consigneePart exporterPart where
    u: "getCurrentUser env = Inr user" and
    c: "shipment_findUnique_owned id' (u_id user) s = Some current" and
    cp: "consignee_updates current updates s = Inr consigneePart" and
    ep: "exporter_updates current updates s = Inr exporterPart" and
    up: "shipment_update id'
           (\<lambda>r. (other_updates updates (exporterPart (consigneePart r)))\<lparr>s_updatedAt := now env\<rparr>) s
         = Inr (updated, s1)"
    by (auto simp: and_then_Inr_iff split: option.splits)
  let ?f = "\<lambda>r. (other_updates updates (exporterPart (consigneePart r)))\<lparr>s_updatedAt := now env\<rparr>"
  from up obtain old where old: "shipment_findUnique id' s = Some old"
    by (auto simp: shipment_update_def split: option.splits)
  have keep: "s_id (?f r) = s_id r" for r
    using consignee_updates_frame [OF cp] exporter_updates_frame [OF ep]
    by (simp add: other_updates_fields)
  from shipment_update_found [OF old, of ?f] keep up
  have "shipment_findUnique id' s1 = Some (?f old)" by auto
  with s' have "shipment_findUnique id' s' = Some (?f old)" by auto
  with u c cp ep old show ?thesis by blast
qed

lemma find_Some_P: "find P xs = Some x \<Longrightarrow> P x"
  by (induction xs) (auto split: if_splits)

lemmas update_eval_defs =
  updateShipmentDetailsAction_def getCurrentUser_alice and_then_def
  shipment_findUnique_owned_def shipment_findUnique_def shipment_update_def
  consignee_updates_def exporter_updates_def other_updates_def Let_def
  project_shipment_def shipment_consignee_def shipment_exporter_def consignee_documents_def
  consignee_findUnique_def exporter_findUnique_def parse_or_def JSON_stringify_def
  after_first_def empty_store_def empty_formData_def first_shipment_def new_shipment_def
  alice_env_simps ids1_def alice_def acme_row_def globex_row_def revalidatePath_def

lemma notes_update_call:
  "\<exists>data s'. updateShipmentDetailsAction alice_env ''s1'' notes_update after_first = (Inr data, s')"
  by (simp add: update_eval_defs notes_update_def)

lemma shared_store_shipment: "shipment_findUnique ''s1'' shared_store = Some first_shipment"
  using first_shipment_found by (simp add: shared_store_def shipment_findUnique_def)

lemma string_or_falsy_truthy:
  "string_or_falsy v \<Longrightarrow> truthy v \<Longrightarrow> \<exists>i. v = Some (JStr i)"
  by (cases v rule: string_or_falsy.cases) (auto split: if_splits)

lemma consignee_updates_total:
  assumes "id_is_string (pd_consignee updates)"
  shows "\<exists>g. consignee_updates current updates s = Inr g"
proof (cases "pd_consignee updates")
  case None
  then show ?thesis by (simp add: consignee_updates_def)
next
  case (Some c)
  show ?thesis
  proof (cases "truthy (map_of c ''id'')")
    case False
    with Some show ?thesis by (simp add: consignee_updates_def and_then_def)
  next
    case True
    with assms Some obtain i where "map_of c ''id'' = Some (JStr i)"
      by (auto simp: id_is_string_def dest: string_or_falsy_truthy)
    with Some True show ?thesis
      by (cases "consignee_findUnique i s") (simp_all add: consignee_updates_def and_then_def)
  qed
qed

lemma exporter_updates_total:
  assumes "id_is_string (pd_exporter updates)"
  shows "\<exists>g. exporter_updates current updates s = Inr g"
proof (cases "pd_exporter updates")
  case None
  then show ?thesis by (simp add: exporter_updates_def)
next
  case (Some e)
  show ?thesis
  proof (cases "truthy (map_of e ''id'')")
    case False
    with Some show ?thesis by (simp add: exporter_updates_def and_then_def)
  next
    case True
    with assms Some obtain i where "map_of e ''id'' = Some (JStr i)"
      by (auto simp: id_is_string_def dest: string_or_falsy_truthy)
    with Some True show ?thesis
      by (cases "exporter_findUnique i s") (simp_all add: exporter_updates_def and_then_def)
  qed
qed

lemma updateShipmentDetails_writes:
  assumes user: "getCurrentUser env = Inr user"
      and found: "shipment_findUnique id' s = Some shipment"
      and owner: "s_userId shipment = u_id user"
      and cg: "consignee_updates shipment updates s = Inr cg"
      and eg: "exporter_updates shipment updates s = Inr eg"
  shows "\<exists>res s'.
           updateShipmentDetailsAction env id' updates s = (res, s')
         \<and> shipment_findUnique id' s'
             = Some ((other_updates updates (eg (cg shipment)))\<lparr>s_updatedAt := now env\<rparr>)"
proof -
  let ?f = "\<lambda>r. (other_updates updates (eg (cg r)))\<lparr>s_updatedAt := now env\<rparr>"
  have keep: "s_id (?f r) = s_id r" for r
    using consignee_updates_frame [OF cg] exporter_updates_frame [OF eg]
    by (simp add: other_updates_fields)
  note upd = shipment_update_found [OF found, of ?f, OF keep]
  note own = shipment_findUnique_owned_Some [OF found owner]
  let ?s1 = "s\<lparr>shipment_tbl := update_first (\<lambda>r. s_id r = id') ?f (shipment_tbl s)\<rparr>"
  show ?thesis
  proof (cases "project_shipment document_view (?f shipment) ?s1")
    case (Inl e)
    with user own cg eg upd show ?thesis
      by (simp add: updateShipmentDetailsAction_def and_then_def)
  next
    case (Inr d)
    with user own cg eg upd show ?thesis
      by (simp add: updateShipmentDetailsAction_def and_then_def)
  qed
qed

subsection \<open>Uploads on a well-formed checklist\<close>

lemma upload_to_doc_total:
  "entry_wellformed d \<Longrightarrow> \<exists>d'. upload_to_doc documentType url d = Inr d'"
proof (cases d)
  case (JObj doc)
  assume "entry_wellformed d"
  with JObj show ?thesis
    by (cases "map_of doc ''files''")
       (auto simp: and_then_def or_else_def split: json.splits)
qed simp_all

lemma map_exn_total:
  "list_all (\<lambda>x. \<exists>y. f x = Inr y) xs \<Longrightarrow> \<exists>ys. map_exn f xs = Inr ys"
  by (induction xs) auto

lemma map_exn_upload_total:
  assumes "list_all entry_wellformed documents"
  shows "\<exists>updated. map_exn (upload_to_doc documentType url) documents = Inr updated"
proof (rule map_exn_total)
  from assms show "list_all (\<lambda>x. \<exists>y. upload_to_doc documentType url x = Inr y) documents"
    by (induction documents) (auto intro: upload_to_doc_total)
qed

lemma processDocumentUpload_returns:
  assumes user: "getCurrentUser env = Inr user"
      and found: "shipment_findUnique shipmentId s = Some shipment"
      and owner: "s_userId shipment = u_id user"
      and parse: "JSON_parse (s_documentsData shipment) = Inr (JArr documents)"
      and wf: "list_all entry_wellformed documents"
  shows "\<exists>res s'. processDocumentUploadAction env shipmentId documentType f s = Inr (res, s')"
  using map_exn_upload_total [OF wf, of documentType "simulatedUrl shipmentId documentType env f"]
  unfolding processDocumentUpload_Inr [OF user found owner parse]
  by auto

section \<open>The claims\<close>

subsection \<open>C1: the consignee step of shipment creation\<close>

text \<open>
  C1 says that the find-or-create step for the consignee runs whenever \<open>formData\<close>
  has a consignee object, and that the consignee link is \<open>null\<close> only when no consignee
  is supplied. The code nests the step in a second test, \<open>if (data.formData.consignee.id)\<close>,
  which the block for the exporter beside it does not have. At a call of Alice on an
  empty datastore whose \<open>formData\<close> brings a consignee and an exporter, neither with
  an \<open>id\<close>, the exporter is created and linked, while the consignee is neither
  searched nor created and the consignee link of the shipment is \<open>null\<close>.
\<close>

theorem createShipment_skips_consignee_without_id:
  "pd_consignee acme_globex_formData = Some acme
   \<and> pd_exporter acme_globex_formData = Some globex
   \<and> map_of acme ''id'' = None
   \<and> map_of globex ''id'' = None
   \<and> (case createShipmentAction alice_env ''IMS'' acme_globex_formData empty_store of
        Inl e \<Rightarrow> False
      | Inr (r, s') \<Rightarrow>
          s_consigneeId (cr_shipment r) = None
          \<and> consignee_tbl s' = []
          \<and> s_exporterId (cr_shipment r) = Some ''e1''
          \<and> exporter_tbl s' = [globex_row])"
proof -
  have "createShipmentAction alice_env ''IMS'' acme_globex_formData empty_store =
     Inr (\<lparr> cr_success = True, cr_referenceNumber = referenceNumber ''IMS'' alice_env,
            cr_shipment = new_shipment alice_env alice ''IMS'' acme_globex_formData None (Some ''e1'') \<rparr>,
          empty_store\<lparr>exporter_tbl := [globex_row],
                       shipment_tbl := [new_shipment alice_env alice ''IMS'' acme_globex_formData
                                          None (Some ''e1'')]\<rparr>)"
    by (simp add: eval_defs acme_globex_formData_def acme_def globex_def globex_row_def)
  then show ?thesis
    by (simp add: acme_globex_formData_def acme_def globex_def empty_store_def)
qed

subsection \<open>C2: what becomes of Unauthorized\<close>

text \<open>
  C2, as the code has it. When the session yields no valid user, \<open>getCurrentUser\<close>
  throws \<open>Unauthorized\<close>, and every action catches it. No action lets it through as a
  thrown \<open>Unauthorized\<close>: \<open>getSavedEntitiesAction\<close> returns the empty list,
  \<open>getShipmentsAction\<close> returns \<open>{ success: false, data: [] }\<close>,
  \<open>getShipmentByIdAction\<close> returns \<open>null\<close>, \<open>updateShipmentStatusAction\<close> returns
  \<open>false\<close>; \<open>createShipmentAction\<close> and \<open>processDocumentUploadAction\<close> throw their own
  errors (\<open>Failed to create shipment\<close>, \<open>Failed to process document upload\<close>);
  \<open>updateShipmentDetailsAction\<close>, \<open>linkClientToShipmentAction\<close> and
  \<open>createClientDuringShipmentAction\<close> return \<open>{ success: false, error: 'Unauthorized' }\<close>.
  The datastore is left as it was.
\<close>

theorem unauthorized_outcomes:
  assumes "case validateSession env of None \<Rightarrow> True | Some session \<Rightarrow> session_user session = None"
  shows "getCurrentUser env = Inl (Error ''Unauthorized'')
       \<and> getSavedEntitiesAction env type s = []
       \<and> getShipmentsAction env s = \<lparr> gs_success = False, gs_data = [] \<rparr>
       \<and> getShipmentByIdAction env id' s = None
       \<and> updateShipmentStatusAction env id' status timelineUpdate s = (False, s)
       \<and> createShipmentAction env shipmentType formData s
             = Inl (Error ''Failed to create shipment'')
       \<and> processDocumentUploadAction env id' documentType f s
             = Inl (Error ''Failed to process document upload'')
       \<and> updateShipmentDetailsAction env id' updates s = (Inl (Error ''Unauthorized''), s)
       \<and> linkClientToShipmentAction env id' clientId type s = (Inl (Error ''Unauthorized''), s)
       \<and> createClientDuringShipmentAction env data s = (Inl (Error ''Unauthorized''), s)"
proof -
  note u = getCurrentUser_Unauthorized [OF assms]
  have "getSavedEntitiesAction env type s = []"
    by (simp add: getSavedEntitiesAction_def u and_then_def)
  moreover have "getShipmentsAction env s = \<lparr> gs_success = False, gs_data = [] \<rparr>"
    by (simp add: getShipmentsAction_def u and_then_def)
  moreover have "getShipmentByIdAction env id' s = None"
    by (simp add: getShipmentByIdAction_def u and_then_def)
  moreover have "updateShipmentStatusAction env id' status timelineUpdate s = (False, s)"
    by (simp add: updateShipmentStatusAction_def u and_then_def)
  moreover have "createShipmentAction env shipmentType formData s
             = Inl (Error ''Failed to create shipment'')"
    by (simp add: createShipmentAction_def u and_then_def)
  moreover have "processDocumentUploadAction env id' documentType f s
             = Inl (Error ''Failed to process document upload'')"
    by (simp add: processDocumentUploadAction_def u and_then_def)
  moreover have "updateShipmentDetailsAction env id' updates s = (Inl (Error ''Unauthorized''), s)"
    by (simp add: updateShipmentDetailsAction_def u and_then_def)
  moreover have "linkClientToShipmentAction env id' clientId type s
             = (Inl (Error ''Unauthorized''), s)"
    by (simp add: linkClientToShipmentAction_def u and_then_def)
  moreover have "createClientDuringShipmentAction env data s = (Inl (Error ''Unauthorized''), s)"
    by (simp add: createClientDuringShipmentAction_def u and_then_def)
  ultimately show ?thesis using u by simp
qed

text \<open>
  The theorem at a session that has no user, on a datastore that holds a shipment.
\<close>

theorem unauthorized_outcomes_witness:
  "(case validateSession userless_env of None \<Rightarrow> True | Some session \<Rightarrow> session_user session = None)
   \<and> getCurrentUser userless_env = Inl (Error ''Unauthorized'')
   \<and> getSavedEntitiesAction userless_env exporter after_first = []
   \<and> getShipmentsAction userless_env after_first = \<lparr> gs_success = False, gs_data = [] \<rparr>
   \<and> getShipmentByIdAction userless_env ''s1'' after_first = None
   \<and> updateShipmentStatusAction userless_env ''s1'' ''DOCUMENTS'' None after_first
         = (False, after_first)
   \<and> createShipmentAction userless_env ''IMS'' empty_formData after_first
         = Inl (Error ''Failed to create shipment'')
   \<and> processDocumentUploadAction userless_env ''s1'' ''Bill of Lading'' a_file after_first
         = Inl (Error ''Failed to process document upload'')
   \<and> updateShipmentDetailsAction userless_env ''s1'' empty_formData after_first
         = (Inl (Error ''Unauthorized''), after_first)
   \<and> linkClientToShipmentAction userless_env ''s1'' ''c1'' consignee after_first
         = (Inl (Error ''Unauthorized''), after_first)
   \<and> createClientDuringShipmentAction userless_env a_client after_first
         = (Inl (Error ''Unauthorized''), after_first)"
proof -
  have h: "case validateSession userless_env of None \<Rightarrow> True
           | Some session \<Rightarrow> session_user session = None"
    by (simp add: userless_env_def)
  from unauthorized_outcomes [OF h] h show ?thesis
    by simp
qed

text \<open>
  C2 as stated, with \<open>Unauthorized\<close> always thrown to the caller, fails without a
  session: the list and read actions and the status update return an empty list, a
  failed result, \<open>null\<close> and \<open>false\<close>, and the error that \<open>createShipmentAction\<close> throws
  is not \<open>Unauthorized\<close>.
\<close>

theorem unauthorized_swallowed_counterexample:
  "validateSession anonymous_env = None
   \<and> getCurrentUser anonymous_env = Inl (Error ''Unauthorized'')
   \<and> getSavedEntitiesAction anonymous_env consignee after_first = []
   \<and> getShipmentsAction anonymous_env after_first = \<lparr> gs_success = False, gs_data = [] \<rparr>
   \<and> getShipmentByIdAction anonymous_env ''s1'' after_first = None
   \<and> updateShipmentStatusAction anonymous_env ''s1'' ''DOCUMENTS'' None after_first
         = (False, after_first)
   \<and> createShipmentAction anonymous_env ''IMS'' empty_formData after_first
         \<noteq> Inl (Error ''Unauthorized'')"
  by (simp add: anonymous_env_def getCurrentUser_def getSavedEntitiesAction_def
        getShipmentsAction_def getShipmentByIdAction_def updateShipmentStatusAction_def
        createShipmentAction_def and_then_def)

subsection \<open>C3: the initial state of a created shipment\<close>

text \<open>
  C3, as the code has it. For every successful \<open>createShipmentAction\<close> call the stored
  shipment has the status \<open>CLIENT_DETAILS\<close>; its timeline blob is the list of exactly
  one entry with that status, the current timestamp and the description
  \<open>Shipment created\<close>; the notes blob is the empty list and the computations blob the
  empty object; the documents blob is the list \<open>formData.documents\<close> when that is
  given and the empty list otherwise.
\<close>

theorem createShipment_initial_state:
  assumes "createShipmentAction env shipmentType formData s = Inr (r, s')"
  shows "s_status (cr_shipment r) = ''CLIENT_DETAILS''
       \<and> s_timelineData (cr_shipment r) =
           JSON_stringify (JArr [JObj [(''status'', JStr ''CLIENT_DETAILS''),
                                       (''timestamp'', JStr (toISOString (now env))),
                                       (''description'', JStr ''Shipment created'')]])
       \<and> s_notesData (cr_shipment r) = JSON_stringify (JArr [])
       \<and> s_computations (cr_shipment r) = Some (JSON_stringify (JObj []))
       \<and> s_documentsData (cr_shipment r) =
           JSON_stringify (case pd_documents formData of None \<Rightarrow> JArr [] | Some ds \<Rightarrow> JArr ds)
       \<and> shipment_tbl s' = shipment_tbl s @ [cr_shipment r]"
proof -
  from createShipmentAction_Inr [OF assms] obtain user cid eid where
    "cr_shipment r = new_shipment env user shipmentType formData cid eid"
    by blast
  then show ?thesis
    using createShipmentAction_stored [OF assms]
    by (simp add: new_shipment_def or_empty_list_def)
qed

text \<open>The theorem at a call whose \<open>formData\<close> brings a documents checklist.\<close>

theorem createShipment_initial_state_witness:
  "\<exists>r s'. createShipmentAction alice_env ''IMS'' documents_formData empty_store = Inr (r, s')
      \<and> s_status (cr_shipment r) = ''CLIENT_DETAILS''
      \<and> s_timelineData (cr_shipment r) =
          JSON_stringify (JArr [JObj [(''status'', JStr ''CLIENT_DETAILS''),
                                      (''timestamp'', JStr ''2026-01-01T00:00:00.000Z''),
                                      (''description'', JStr ''Shipment created'')]])
      \<and> s_notesData (cr_shipment r) = JSON_stringify (JArr [])
      \<and> s_computations (cr_shipment r) = Some (JSON_stringify (JObj []))
      \<and> s_documentsData (cr_shipment r) =
          JSON_stringify (JArr [JObj [(''name'', JStr ''Bill of Lading''),
                                      (''status'', JStr ''pending'')]])
      \<and> shipment_tbl s' = [cr_shipment r]"
proof -
  let ?sh = "new_shipment alice_env alice ''IMS'' documents_formData None None"
  let ?r = "\<lparr> cr_success = True, cr_referenceNumber = referenceNumber ''IMS'' alice_env,
              cr_shipment = ?sh \<rparr>"
  let ?s = "empty_store\<lparr>shipment_tbl := shipment_tbl empty_store @ [?sh]\<rparr>"
  have call: "createShipmentAction alice_env ''IMS'' documents_formData empty_store = Inr (?r, ?s)"
    by (rule createShipmentAction_without_clients)
       (simp_all add: getCurrentUser_alice documents_formData_def empty_formData_def
          empty_store_def)
  from createShipment_initial_state [OF call] call show ?thesis
    by (simp add: alice_env_simps new_year_2026_def documents_formData_def empty_formData_def
          empty_store_def)
qed

text \<open>
  C3 as stated, with the documents blob empty regardless of \<open>formData\<close>, fails at the
  same call: the stored documents blob is the checklist of the call.
\<close>

theorem createShipment_documents_counterexample:
  "(case createShipmentAction alice_env ''IMS'' documents_formData empty_store of
      Inl e \<Rightarrow> False
    | Inr (r, s') \<Rightarrow>
        s_documentsData (cr_shipment r) =
          JSON_stringify (JArr [JObj [(''name'', JStr ''Bill of Lading''),
                                      (''status'', JStr ''pending'')]])
        \<and> s_documentsData (cr_shipment r) \<noteq> JSON_stringify (JArr []))"
proof -
  let ?sh = "new_shipment alice_env alice ''IMS'' documents_formData None None"
  have "createShipmentAction alice_env ''IMS'' documents_formData empty_store =
          Inr (\<lparr> cr_success = True, cr_referenceNumber = referenceNumber ''IMS'' alice_env,
                 cr_shipment = ?sh \<rparr>,
               empty_store\<lparr>shipment_tbl := shipment_tbl empty_store @ [?sh]\<rparr>)"
    by (rule createShipmentAction_without_clients)
       (simp_all add: getCurrentUser_alice documents_formData_def empty_formData_def
          empty_store_def)
  then show ?thesis
    by (simp add: new_shipment_def documents_formData_def or_empty_list_def JSON_stringify_def)
qed

subsection \<open>C4: linking a client in updateShipmentDetailsAction\<close>

text \<open>
  C4. Take an \<open>updateShipmentDetailsAction\<close> call of a user on a shipment of that
  user, in which the \<open>id\<close> of the consignee and of the exporter of the update, where
  given, is a string. The call writes the shipment, whatever it returns afterwards.
  When the update has a consignee (or an exporter) that carries an \<open>id\<close>, a non-empty
  string, for which a client row exists, the link of the stored shipment is set to
  that row, whoever owns the row: the lookup is by identifier alone, and only the
  shipment was looked up with the caller as owner. When the \<open>id\<close> is absent or falsy,
  or matches no row, the link stays the one the shipment had. In all these cases the
  snapshot blob becomes the encoding of the object of the update.
\<close>

theorem updateShipmentDetails_link_ignores_client_owner:
  assumes user: "getCurrentUser env = Inr user"
      and found: "shipment_findUnique id' s = Some shipment"
      and owner: "s_userId shipment = u_id user"
      and cid: "id_is_string (pd_consignee updates)"
      and eid: "id_is_string (pd_exporter updates)"
  shows "\<exists>res s' new.
           updateShipmentDetailsAction env id' updates s = (res, s')
         \<and> shipment_findUnique id' s' = Some new
         \<and> (\<forall>c. pd_consignee updates = Some c \<longrightarrow>
               s_consigneeData new = JSON_stringify (JObj c)
             \<and> (\<forall>i row. map_of c ''id'' = Some (JStr i) \<and> i \<noteq> []
                          \<and> consignee_findUnique i s = Some row
                   \<longrightarrow> s_consigneeId new = Some i \<and> c_id row = i)
             \<and> (\<not> truthy (map_of c ''id'')
                  \<or> (\<exists>i. map_of c ''id'' = Some (JStr i) \<and> consignee_findUnique i s = None)
                   \<longrightarrow> s_consigneeId new = s_consigneeId shipment))
         \<and> (\<forall>e. pd_exporter updates = Some e \<longrightarrow>
               s_exporterData new = JSON_stringify (JObj e)
             \<and> (\<forall>i row. map_of e ''id'' = Some (JStr i) \<and> i \<noteq> []
                          \<and> exporter_findUnique i s = Some row
                   \<longrightarrow> s_exporterId new = Some i \<and> e_id row = i)
             \<and> (\<not> truthy (map_of e ''id'')
                  \<or> (\<exists>i. map_of e ''id'' = Some (JStr i) \<and> exporter_findUnique i s = None)
                   \<longrightarrow> s_exporterId new = s_exporterId shipment))"
proof -
  from consignee_updates_total [OF cid] obtain cg where
    cp: "consignee_updates shipment updates s = Inr cg" by blast
  from exporter_updates_total [OF eid] obtain eg where
    ep: "exporter_updates shipment updates s = Inr eg" by blast
  let ?new = "(other_updates updates (eg (cg shipment)))\<lparr>s_updatedAt := now env\<rparr>"
  from updateShipmentDetails_writes [OF user found owner cp ep] obtain res s' where
    call: "updateShipmentDetailsAction env id' updates s = (res, s')" and
    new: "shipment_findUnique id' s' = Some ?new"
    by blast
  note e = exporter_updates_frame [OF ep, of "cg shipment"]
  have ee: "s_exporterId (eg (cg shipment)) = s_exporterId (eg shipment)
          \<and> s_exporterData (eg (cg shipment)) = s_exporterData (eg shipment)"
  proof (cases "pd_exporter updates")
    case None
    with exporter_updates_Inr(1) [OF ep] consignee_updates_frame [OF cp, of shipment]
    show ?thesis by simp
  next
    case (Some x)
    show ?thesis
    proof (cases "truthy (map_of x ''id'')")
      case True
      with exporter_updates_Inr(3) [OF ep Some] show ?thesis by auto
    next
      case False
      with exporter_updates_Inr(2) [OF ep Some] show ?thesis by simp
    qed
  qed
  have eqs: "s_consigneeId ?new = s_consigneeId (cg shipment)"
            "s_consigneeData ?new = s_consigneeData (cg shipment)"
            "s_exporterId ?new = s_exporterId (eg shipment)"
            "s_exporterData ?new = s_exporterData (eg shipment)"
    using e ee by (simp_all add: other_updates_fields)
  have cons: "s_consigneeData ?new = JSON_stringify (JObj c)
             \<and> (\<forall>i row. map_of c ''id'' = Some (JStr i) \<and> i \<noteq> []
                          \<and> consignee_findUnique i s = Some row
                   \<longrightarrow> s_consigneeId ?new = Some i \<and> c_id row = i)
             \<and> (\<not> truthy (map_of c ''id'')
                  \<or> (\<exists>i. map_of c ''id'' = Some (JStr i) \<and> consignee_findUnique i s = None)
                   \<longrightarrow> s_consigneeId ?new = s_consigneeId shipment)"
    if c: "pd_consignee updates = Some c" for c
  proof (cases "truthy (map_of c ''id'')")
    case False
    from consignee_updates_Inr(2) [OF cp c False] eqs(1,2) False show ?thesis by auto
  next
    case True
    from consignee_updates_Inr(3) [OF cp c True] obtain i where
      i: "map_of c ''id'' = Some (JStr i)" and
      g: "cg = (\<lambda>r. r\<lparr>s_consigneeId :=
                          (case consignee_findUnique i s of
                             Some found \<Rightarrow> Some (c_id found)
                           | None \<Rightarrow> s_consigneeId shipment),
                        s_consigneeData := JSON_stringify (JObj c)\<rparr>)"
      by blast
    have "c_id row = i" if "consignee_findUnique i s = Some row" for row
      using that find_Some_P [of "\<lambda>r. c_id r = i" "consignee_tbl s" row]
      by (simp add: consignee_findUnique_def)
    with i g eqs(1,2) True show ?thesis by (auto split: option.splits)
  qed
  have exps: "s_exporterData ?new = JSON_stringify (JObj e)
             \<and> (\<forall>i row. map_of e ''id'' = Some (JStr i) \<and> i \<noteq> []
                          \<and> exporter_findUnique i s = Some row
                   \<longrightarrow> s_exporterId ?new = Some i \<and> e_id row = i)
             \<and> (\<not> truthy (map_of e ''id'')
                  \<or> (\<exists>i. map_of e ''id'' = Some (JStr i) \<and> exporter_findUnique i s = None)
                   \<longrightarrow> s_exporterId ?new = s_exporterId shipment)"
    if e: "pd_exporter updates = Some e" for e
  proof (cases "truthy (map_of e ''id'')")
    case False
    from exporter_updates_Inr(2) [OF ep e False] eqs(3,4) False show ?thesis by auto
  next
    case True
    from exporter_updates_Inr(3) [OF ep e True] obtain i where
      i: "map_of e ''id'' = Some (JStr i)" and
      g: "eg = (\<lambda>r. r\<lparr>s_exporterId :=
                          (case exporter_findUnique i s of
                             Some found \<Rightarrow> Some (e_id found)
                           | None \<Rightarrow> s_exporterId shipment),
                        s_exporterData := JSON_stringify (JObj e)\<rparr>)"
      by blast
    have "e_id row = i" if "exporter_findUnique i s = Some row" for row
      using that find_Some_P [of "\<lambda>r. e_id r = i" "exporter_tbl s" row]
      by (simp add: exporter_findUnique_def)
    with i g eqs(3,4) True show ?thesis by (auto split: option.splits)
  qed
  from call new cons exps show ?thesis by blast
qed

text \<open>
  The theorem on a datastore where Bob owns the consignee \<open>cb\<close>: Alice links it to her
  shipment through an update, an unknown identifier leaves her link at \<open>c1\<close>, and
  \<open>linkClientToShipmentAction\<close>, which checks the owner of the client, refuses the
  same link.
\<close>

theorem updateShipmentDetails_link_ignores_client_owner_witness:
  "getCurrentUser alice_env = Inr alice
   \<and> shipment_findUnique ''s1'' shared_store = Some first_shipment
   \<and> s_userId first_shipment = u_id alice
   \<and> id_is_string (pd_consignee bobs_client_update)
   \<and> id_is_string (pd_exporter bobs_client_update)
   \<and> id_is_string (pd_consignee unknown_client_update)
   \<and> id_is_string (pd_exporter unknown_client_update)
   \<and> s_consigneeId first_shipment = Some ''c1''
   \<and> consignee_findUnique ''cb'' shared_store = Some bobs_row
   \<and> c_userId bobs_row \<noteq> u_id alice
   \<and> consignee_findUnique ''c404'' shared_store = None
   \<and> (\<exists>res s' new.
          updateShipmentDetailsAction alice_env ''s1'' bobs_client_update shared_store = (res, s')
        \<and> shipment_findUnique ''s1'' s' = Some new
        \<and> s_consigneeId new = Some ''cb''
        \<and> s_consigneeData new
            = JSON_stringify (JObj [(''id'', JStr ''cb''), (''name'', JStr ''Bob Imports'')]))
   \<and> (\<exists>res s' new.
          updateShipmentDetailsAction alice_env ''s1'' unknown_client_update shared_store
            = (res, s')
        \<and> shipment_findUnique ''s1'' s' = Some new
        \<and> s_consigneeId new = Some ''c1''
        \<and> s_consigneeData new
            = JSON_stringify (JObj [(''id'', JStr ''c404''), (''name'', JStr ''Nobody'')]))
   \<and> fst (linkClientToShipmentAction alice_env ''s1'' ''cb'' consignee shared_store)
       = Inl (Error ''consignee not found or unauthorized'')"
proof -
  have owner: "s_userId first_shipment = u_id alice"
    by (simp add: first_shipment_simps alice_def)
  have link: "s_consigneeId first_shipment = Some ''c1''"
    by (simp add: first_shipment_def)
  have cb: "consignee_findUnique ''cb'' shared_store = Some bobs_row"
    by (simp add: consignee_findUnique_def shared_store_def bobs_row_def acme_row_def)
  have foreign: "c_userId bobs_row \<noteq> u_id alice"
    by (simp add: bobs_row_def alice_def)
  have c404: "consignee_findUnique ''c404'' shared_store = None"
    by (simp add: consignee_findUnique_def shared_store_def bobs_row_def acme_row_def)
  have typed: "id_is_string (pd_consignee bobs_client_update)"
    "id_is_string (pd_exporter bobs_client_update)"
    "id_is_string (pd_consignee unknown_client_update)"
    "id_is_string (pd_exporter unknown_client_update)"
    by (simp_all add: id_is_string_def bobs_client_update_def unknown_client_update_def
          empty_formData_def)
  from updateShipmentDetails_link_ignores_client_owner
         [OF getCurrentUser_alice shared_store_shipment owner typed(1,2)] cb
  have r1: "\<exists>res s' new.
          updateShipmentDetailsAction alice_env ''s1'' bobs_client_update shared_store = (res, s')
        \<and> shipment_findUnique ''s1'' s' = Some new
        \<and> s_consigneeId new = Some ''cb''
        \<and> s_consigneeData new
            = JSON_stringify (JObj [(''id'', JStr ''cb''), (''name'', JStr ''Bob Imports'')])"
    by (auto simp: bobs_client_update_def empty_formData_def)
  from updateShipmentDetails_link_ignores_client_owner
         [OF getCurrentUser_alice shared_store_shipment owner typed(3,4)] c404 link
  have r2: "\<exists>res s' new.
          updateShipmentDetailsAction alice_env ''s1'' unknown_client_update shared_store
            = (res, s')
        \<and> shipment_findUnique ''s1'' s' = Some new
        \<and> s_consigneeId new = Some ''c1''
        \<and> s_consigneeData new
            = JSON_stringify (JObj [(''id'', JStr ''c404''), (''name'', JStr ''Nobody'')])"
    by (auto simp: unknown_client_update_def empty_formData_def)
  have absent: "\<not> client_exists consignee ''cb'' (u_id alice) shared_store"
    by (simp add: client_exists_def shared_store_def bobs_row_def acme_row_def alice_def)
  have refused: "fst (linkClientToShipmentAction alice_env ''s1'' ''cb'' consignee shared_store)
       = Inl (Error ''consignee not found or unauthorized'')"
    using absent shipment_findUnique_owned_Some [OF shared_store_shipment owner]
    by (simp add: linkClientToShipmentAction_def getCurrentUser_alice and_then_def type_name_def)
  from getCurrentUser_alice shared_store_shipment owner typed link cb foreign c404 r1 r2 refused
  show ?thesis by blast
qed

subsection \<open>C5: the asymmetry of client matching\<close>

text \<open>
  C5, as the code has it. Take two successive successful \<open>createShipmentAction\<close> calls
  of the same user. If both calls bring a consignee with a truthy \<open>id\<close>, the same tin
  and different names, and every consignee that the user had before the first call
  under either name already bears that tin, then the second call links the consignee
  that the first call linked (matching by tin or name). If both calls bring an
  exporter with the same name and different addresses, and the user had no exporter
  with that name at the second address before the first call, then the second call
  creates a new exporter row and links it, not the exporter of the first call
  (matching by name and address).
\<close>

theorem client_matching_asymmetry:
  assumes call1: "createShipmentAction env1 type1 formData1 s = Inr (r1, s1)"
      and call2: "createShipmentAction env2 type2 formData2 s1 = Inr (r2, s2)"
      and user1: "getCurrentUser env1 = Inr user" and user2: "getCurrentUser env2 = Inr user"
  shows "(\<forall>c1 c2 tin name1 name2.
            pd_consignee formData1 = Some c1 \<and> pd_consignee formData2 = Some c2
          \<and> truthy (map_of c1 ''id'') \<and> truthy (map_of c2 ''id'')
          \<and> map_of c1 ''tin'' = Some (JStr tin) \<and> map_of c2 ''tin'' = Some (JStr tin)
          \<and> map_of c1 ''name'' = Some (JStr name1) \<and> map_of c2 ''name'' = Some (JStr name2)
          \<and> name1 \<noteq> name2
          \<and> (\<forall>x \<in> set (consignee_tbl s).
                 c_userId x = u_id user \<and> (c_name x = name1 \<or> c_name x = name2) \<longrightarrow> c_tin x = tin)
          \<longrightarrow> s_consigneeId (cr_shipment r2) = s_consigneeId (cr_shipment r1)
              \<and> s_consigneeId (cr_shipment r1) \<noteq> None)
       \<and> (\<forall>e1 e2 name address1 address2.
            pd_exporter formData1 = Some e1 \<and> pd_exporter formData2 = Some e2
          \<and> map_of e1 ''name'' = Some (JStr name) \<and> map_of e2 ''name'' = Some (JStr name)
          \<and> map_of e1 ''address'' = Some (JStr address1)
          \<and> map_of e2 ''address'' = Some (JStr address2)
          \<and> address1 \<noteq> address2
          \<and> (\<forall>x \<in> set (exporter_tbl s). \<not> exporter_matches (u_id user) name address2 x)
          \<longrightarrow> s_exporterId (cr_shipment r2) = Some (newId env2 ExporterModel)
              \<and> s_exporterId (cr_shipment r2) \<noteq> s_exporterId (cr_shipment r1)
              \<and> exporter_tbl s2 = exporter_tbl s1 @
                   [\<lparr> e_id = newId env2 ExporterModel, e_name = name,
                      e_businessAddress = address2, e_contactPerson = [], e_contactNumber = [],
                      e_email = [], e_userId = u_id user, e_createdAt = now env2 \<rparr>])"
proof (intro conjI allI impI)
  fix c1 c2 tin name1 name2
  assume h: "pd_consignee formData1 = Some c1 \<and> pd_consignee formData2 = Some c2
          \<and> truthy (map_of c1 ''id'') \<and> truthy (map_of c2 ''id'')
          \<and> map_of c1 ''tin'' = Some (JStr tin) \<and> map_of c2 ''tin'' = Some (JStr tin)
          \<and> map_of c1 ''name'' = Some (JStr name1) \<and> map_of c2 ''name'' = Some (JStr name2)
          \<and> name1 \<noteq> name2
          \<and> (\<forall>x \<in> set (consignee_tbl s).
                 c_userId x = u_id user \<and> (c_name x = name1 \<or> c_name x = name2) \<longrightarrow> c_tin x = tin)"
  then have "s_consigneeId (cr_shipment r2) = s_consigneeId (cr_shipment r1)
           \<and> s_consigneeId (cr_shipment r1) \<noteq> None"
    by (intro consignee_rematch [OF call1 call2 user1 user2, of c1 c2 tin name1 name2]) simp_all
  then show "s_consigneeId (cr_shipment r2) = s_consigneeId (cr_shipment r1)"
    and "s_consigneeId (cr_shipment r1) \<noteq> None" by simp_all
next
  fix e1 e2 name address1 address2
  assume h: "pd_exporter formData1 = Some e1 \<and> pd_exporter formData2 = Some e2
          \<and> map_of e1 ''name'' = Some (JStr name) \<and> map_of e2 ''name'' = Some (JStr name)
          \<and> map_of e1 ''address'' = Some (JStr address1)
          \<and> map_of e2 ''address'' = Some (JStr address2)
          \<and> address1 \<noteq> address2
          \<and> (\<forall>x \<in> set (exporter_tbl s). \<not> exporter_matches (u_id user) name address2 x)"
  then have r: "s_exporterId (cr_shipment r2) = Some (newId env2 ExporterModel)
       \<and> s_exporterId (cr_shipment r2) \<noteq> s_exporterId (cr_shipment r1)
       \<and> exporter_tbl s2 = exporter_tbl s1 @
            [\<lparr> e_id = newId env2 ExporterModel, e_name = name, e_businessAddress = address2,
               e_contactPerson = [], e_contactNumber = [], e_email = [], e_userId = u_id user,
               e_createdAt = now env2 \<rparr>]"
    by (intro exporter_no_rematch [OF call1 call2 user1 user2, of e1 e2 name address1 address2])
       simp_all
  from r show "s_exporterId (cr_shipment r2) = Some (newId env2 ExporterModel)" by simp
  from r show "s_exporterId (cr_shipment r2) \<noteq> s_exporterId (cr_shipment r1)" by blast
  from r show "exporter_tbl s2 = exporter_tbl s1 @
            [\<lparr> e_id = newId env2 ExporterModel, e_name = name, e_businessAddress = address2,
               e_contactPerson = [], e_contactNumber = [], e_email = [], e_userId = u_id user,
               e_createdAt = now env2 \<rparr>]" by simp
qed

text \<open>
  The theorem at two calls of Alice that start from an empty datastore: the second
  call reuses the consignee \<open>c1\<close> and creates the exporter \<open>e2\<close>.
\<close>

theorem client_matching_asymmetry_witness:
  "\<exists>r1 s1 r2 s2.
      createShipmentAction alice_env ''IMS'' first_formData empty_store = Inr (r1, s1)
    \<and> createShipmentAction (alice_env\<lparr>newId := ids2\<rparr>) ''IMS'' second_formData s1 = Inr (r2, s2)
    \<and> getCurrentUser alice_env = Inr alice
    \<and> getCurrentUser (alice_env\<lparr>newId := ids2\<rparr>) = Inr alice
    \<and> s_consigneeId (cr_shipment r1) = Some ''c1''
    \<and> s_consigneeId (cr_shipment r2) = Some ''c1''
    \<and> s_exporterId (cr_shipment r1) = Some ''e1''
    \<and> s_exporterId (cr_shipment r2) = Some ''e2''
    \<and> map c_id (consignee_tbl s2) = [''c1'']
    \<and> map e_id (exporter_tbl s2) = [''e1'', ''e2'']"
proof -
  let ?env2 = "alice_env\<lparr>newId := ids2\<rparr>"
  let ?r1 = "\<lparr> cr_success = True, cr_referenceNumber = referenceNumber ''IMS'' alice_env,
               cr_shipment = first_shipment \<rparr>"
  let ?r2 = "\<lparr> cr_success = True, cr_referenceNumber = referenceNumber ''IMS'' ?env2,
               cr_shipment = second_shipment \<rparr>"
  have user2: "getCurrentUser ?env2 = Inr alice"
    by (simp add: getCurrentUser_def alice_env_def)
  note asym = client_matching_asymmetry [OF first_call second_call getCurrentUser_alice user2]
  have "s_consigneeId (cr_shipment ?r2) = s_consigneeId (cr_shipment ?r1)
      \<and> s_consigneeId (cr_shipment ?r1) \<noteq> None"
    by (rule asym [THEN conjunct1, rule_format,
          of "(''id'', JStr ''draft-1'') # acme" acme_logistics "''123-456''"
             "''Acme Trading''" "''Acme Logistics''"])
       (simp add: first_formData_def second_formData_def acme_def acme_logistics_def
          empty_store_def)
  moreover have "s_exporterId (cr_shipment ?r2) = Some (newId ?env2 ExporterModel)
      \<and> s_exporterId (cr_shipment ?r2) \<noteq> s_exporterId (cr_shipment ?r1)
      \<and> exporter_tbl after_second = exporter_tbl after_first @
            [\<lparr> e_id = newId ?env2 ExporterModel, e_name = ''Globex Export'',
               e_businessAddress = ''9 Pier Avenue'', e_contactPerson = [], e_contactNumber = [],
               e_email = [], e_userId = u_id alice, e_createdAt = now ?env2 \<rparr>]"
    by (rule asym [THEN conjunct2, rule_format,
          of globex globex_moved "''Globex Export''" "''5 Dock Street''" "''9 Pier Avenue''"])
       (simp add: first_formData_def second_formData_def globex_def globex_moved_def
          empty_store_def)
  ultimately show ?thesis
    using first_call second_call getCurrentUser_alice user2
    by (simp add: first_shipment_def second_shipment_def after_first_def after_second_def
          acme_row_def globex_row_def empty_store_def ids2_def)
qed

text \<open>
  C5 as stated, for any two consignee inputs with equal tin and different names,
  fails when the first call matches a stored consignee by name only: that consignee
  has another tin, the second call misses it and creates a new row.
\<close>

theorem consignee_rematch_counterexample:
  "pd_consignee first_formData = Some ((''id'', JStr ''draft-1'') # acme)
   \<and> pd_consignee second_formData = Some acme_logistics
   \<and> map_of ((''id'', JStr ''draft-1'') # acme) ''tin'' = map_of acme_logistics ''tin''
   \<and> map_of ((''id'', JStr ''draft-1'') # acme) ''name'' \<noteq> map_of acme_logistics ''name''
   \<and> (case createShipmentAction alice_env ''IMS'' first_formData stale_store of
      Inl e \<Rightarrow> False
    | Inr (r1, s1) \<Rightarrow>
        (case createShipmentAction (alice_env\<lparr>newId := ids2\<rparr>) ''IMS'' second_formData s1 of
           Inl e \<Rightarrow> False
         | Inr (r2, s2) \<Rightarrow>
             s_consigneeId (cr_shipment r1) = Some ''c0''
             \<and> s_consigneeId (cr_shipment r2) = Some ''c2''))"
  by (simp add: eval_defs getCurrentUser_def first_formData_def second_formData_def acme_def
        acme_logistics_def globex_def globex_moved_def acme_row_def stale_store_def)

text \<open>
  The proviso speaks of both names. When the owner has an older consignee under the
  second name with another tin, the first call finds no match and creates a row, and
  the second call links the older row, which matches by name and stands before the
  new one.
\<close>

lemma consignee_rematch_needs_second_name:
  "(case createShipmentAction alice_env ''IMS'' first_formData namesake_store of
      Inl e \<Rightarrow> False
    | Inr (r1, s1) \<Rightarrow>
        (case createShipmentAction (alice_env\<lparr>newId := ids2\<rparr>) ''IMS'' second_formData s1 of
           Inl e \<Rightarrow> False
         | Inr (r2, s2) \<Rightarrow>
             s_consigneeId (cr_shipment r1) = Some ''c1''
             \<and> s_consigneeId (cr_shipment r2) = Some ''c0''
             \<and> map c_id (consignee_tbl s2) = [''c0'', ''c1'']))"
  by (simp add: eval_defs getCurrentUser_def first_formData_def second_formData_def acme_def
        acme_logistics_def globex_def globex_moved_def acme_row_def namesake_store_def)

subsection \<open>C6: the frame of updateShipmentDetailsAction\<close>

text \<open>
  C6. After every successful \<open>updateShipmentDetailsAction\<close> call, each of the blobs of
  the stored shipment (consignee snapshot, exporter snapshot, shipment details,
  documents, timeline, notes, cargo, statement of facts) is the text it was before the
  call when the partial update lacks the field, and the encoding of the value of the
  update, with nothing of the earlier content, when the update has the field. The
  computations blob is never written.
\<close>

theorem updateShipmentDetails_blobs:
  assumes "updateShipmentDetailsAction env id' updates s = (Inr data, s')"
  shows "\<exists>old new.
           shipment_findUnique id' s = Some old
         \<and> shipment_findUnique id' s' = Some new
         \<and> s_consigneeData new =
             (case pd_consignee updates of
                None \<Rightarrow> s_consigneeData old | Some c \<Rightarrow> JSON_stringify (JObj c))
         \<and> s_exporterData new =
             (case pd_exporter updates of
                None \<Rightarrow> s_exporterData old | Some e \<Rightarrow> JSON_stringify (JObj e))
         \<and> s_shipmentDetails new =
             (case pd_shipmentDetails updates of
                None \<Rightarrow> s_shipmentDetails old | Some d \<Rightarrow> JSON_stringify (JObj d))
         \<and> s_documentsData new =
             (case pd_documents updates of
                None \<Rightarrow> s_documentsData old | Some xs \<Rightarrow> JSON_stringify (JArr xs))
         \<and> s_timelineData new =
             (case pd_timeline updates of
                None \<Rightarrow> s_timelineData old | Some xs \<Rightarrow> JSON_stringify (JArr xs))
         \<and> s_notesData new =
             (case pd_notes updates of
                None \<Rightarrow> s_notesData old | Some xs \<Rightarrow> JSON_stringify (JArr xs))
         \<and> s_cargoData new =
             (case pd_cargo updates of
                None \<Rightarrow> s_cargoData old | Some xs \<Rightarrow> Some (JSON_stringify (JArr xs)))
         \<and> s_statementOfFactsData new =
             (case pd_statementOfFacts updates of
                None \<Rightarrow> s_statementOfFactsData old | Some xs \<Rightarrow> Some (JSON_stringify (JArr xs)))
         \<and> s_computations new = s_computations old"
proof -
  from updateShipmentDetails_written [OF assms]
  obtain user current consigneePart exporterPart old where
    cp: "consignee_updates current updates s = Inr consigneePart" and
    ep: "exporter_updates current updates s = Inr exporterPart" and
    old: "shipment_findUnique id' s = Some old" and
    new: "shipment_findUnique id' s'
             = Some ((other_updates updates (exporterPart (consigneePart old)))
                       \<lparr>s_updatedAt := now env\<rparr>)"
    by blast
  note c = consignee_updates_frame [OF cp, of old]
  note e = exporter_updates_frame [OF ep, of "consigneePart old"]
  show ?thesis
    using old new c e by (simp add: other_updates_fields cong: option.case_cong)
qed

text \<open>
  The theorem at an update of Alice that has documents and notes only.
\<close>

theorem updateShipmentDetails_blobs_witness:
  "\<exists>data s' new.
      updateShipmentDetailsAction alice_env ''s1'' notes_update after_first = (Inr data, s')
    \<and> shipment_findUnique ''s1'' after_first = Some first_shipment
    \<and> shipment_findUnique ''s1'' s' = Some new
    \<and> s_documentsData new = JSON_stringify (JArr [bl_entry])
    \<and> s_notesData new = JSON_stringify (JArr [JStr ''call the broker''])
    \<and> s_consigneeData new = s_consigneeData first_shipment
    \<and> s_exporterData new = s_exporterData first_shipment
    \<and> s_shipmentDetails new = s_shipmentDetails first_shipment
    \<and> s_timelineData new = s_timelineData first_shipment
    \<and> s_cargoData new = s_cargoData first_shipment
    \<and> s_statementOfFactsData new = s_statementOfFactsData first_shipment"
proof -
  from notes_update_call obtain data s' where
    call: "updateShipmentDetailsAction alice_env ''s1'' notes_update after_first = (Inr data, s')"
    by blast
  from updateShipmentDetails_blobs [OF call] first_shipment_found call show ?thesis
    by (auto simp: notes_update_def empty_formData_def)
qed

subsection \<open>C7: the timeline in updateShipmentStatusAction\<close>

text \<open>
  C7. For every \<open>updateShipmentStatusAction\<close> call of a user on a shipment of that user
  whose timeline blob parses: without a timeline event the call returns \<open>true\<close> and
  the stored shipment differs from the earlier one in its status, which is the given
  string, and its update time only, so the timeline blob is unchanged; with an event,
  when the timeline is a list, the call returns \<open>true\<close>, the status is the given
  string and the timeline blob encodes the earlier entries in their order followed by
  the event as the last element.
\<close>

theorem updateShipmentStatus_timeline:
  assumes user: "getCurrentUser env = Inr user"
      and found: "shipment_findUnique id' s = Some shipment"
      and owner: "s_userId shipment = u_id user"
      and parse: "JSON_parse (s_timelineData shipment) = Inr timeline"
  shows "(\<exists>s'. updateShipmentStatusAction env id' status None s = (True, s')
             \<and> shipment_findUnique id' s'
                 = Some (shipment\<lparr>s_status := status, s_updatedAt := now env\<rparr>))
       \<and> (\<forall>entries event. timeline = JArr entries \<longrightarrow>
            (\<exists>s'. updateShipmentStatusAction env id' status (Some event) s = (True, s')
                \<and> shipment_findUnique id' s'
                    = Some (shipment\<lparr>s_status := status,
                                      s_timelineData := JSON_stringify (JArr (entries @ [JObj event])),
                                      s_updatedAt := now env\<rparr>)))"
proof -
  note own = shipment_findUnique_owned_Some [OF found owner]
  have blob: "s_timelineData shipment = JSON_stringify timeline"
    using parse by (cases "s_timelineData shipment") (simp_all add: JSON_stringify_def)
  have none: "\<exists>s'. updateShipmentStatusAction env id' status None s = (True, s')
             \<and> shipment_findUnique id' s'
                 = Some (shipment\<lparr>s_status := status, s_updatedAt := now env\<rparr>)"
  proof -
    let ?f = "\<lambda>r. r\<lparr>s_status := status, s_timelineData := JSON_stringify timeline,
                       s_updatedAt := now env\<rparr>"
    have "?f shipment = shipment\<lparr>s_status := status, s_updatedAt := now env\<rparr>"
      using blob by simp
    with shipment_update_found [OF found, of ?f] user own parse show ?thesis
      by (simp add: updateShipmentStatusAction_def and_then_def updatedTimeline_def)
  qed
  have some: "\<exists>s'. updateShipmentStatusAction env id' status (Some event) s = (True, s')
                \<and> shipment_findUnique id' s'
                    = Some (shipment\<lparr>s_status := status,
                                      s_timelineData := JSON_stringify (JArr (entries @ [JObj event])),
                                      s_updatedAt := now env\<rparr>)"
    if "timeline = JArr entries" for entries event
  proof -
    let ?f = "\<lambda>r. r\<lparr>s_status := status,
                       s_timelineData := JSON_stringify (JArr (entries @ [JObj event])),
                       s_updatedAt := now env\<rparr>"
    from shipment_update_found [OF found, of ?f] user own parse that show ?thesis
      by (simp add: updateShipmentStatusAction_def and_then_def updatedTimeline_def)
  qed
  from none some show ?thesis by blast
qed

text \<open>
  The theorem at the shipment that Alice created, whose timeline has the entry of its
  creation.
\<close>

theorem updateShipmentStatus_timeline_witness:
  "getCurrentUser alice_env = Inr alice
   \<and> shipment_findUnique ''s1'' after_first = Some first_shipment
   \<and> s_userId first_shipment = u_id alice
   \<and> JSON_parse (s_timelineData first_shipment) = Inr (JArr [created_entry])
   \<and> (\<exists>s'. updateShipmentStatusAction alice_env ''s1'' ''DOCUMENTS'' None after_first = (True, s')
          \<and> shipment_findUnique ''s1'' s'
              = Some (first_shipment\<lparr>s_status := ''DOCUMENTS'', s_updatedAt := now alice_env\<rparr>))
   \<and> (\<exists>s'. updateShipmentStatusAction alice_env ''s1'' ''DOCUMENTS'' (Some stage_event) after_first
              = (True, s')
          \<and> shipment_findUnique ''s1'' s'
              = Some (first_shipment\<lparr>s_status := ''DOCUMENTS'',
                       s_timelineData := JSON_stringify (JArr [created_entry, JObj stage_event]),
                       s_updatedAt := now alice_env\<rparr>))"
proof -
  have owner: "s_userId first_shipment = u_id alice"
    by (simp add: first_shipment_simps alice_def)
  note t = updateShipmentStatus_timeline
             [OF getCurrentUser_alice first_shipment_found owner first_shipment_timeline,
              of "''DOCUMENTS''"]
  from t have "\<exists>s'. updateShipmentStatusAction alice_env ''s1'' ''DOCUMENTS'' (Some stage_event)
                       after_first = (True, s')
          \<and> shipment_findUnique ''s1'' s'
              = Some (first_shipment\<lparr>s_status := ''DOCUMENTS'',
                       s_timelineData := JSON_stringify (JArr ([created_entry] @ [JObj stage_event])),
                       s_updatedAt := now alice_env\<rparr>)"
    by blast
  with t getCurrentUser_alice first_shipment_found owner first_shipment_timeline
  show ?thesis by simp
qed

subsection \<open>C8: getShipmentByIdAction does not tell a foreign shipment from a missing one\<close>

text \<open>
  C8. For every \<open>getShipmentByIdAction\<close> call of a user, an identifier that belongs to
  a shipment of other users only returns \<open>null\<close>, and so does an identifier that
  matches no shipment: the two results are the same.
\<close>

theorem getShipmentById_conflates_missing_and_foreign:
  assumes "getCurrentUser env = Inr user"
      and "\<exists>sh \<in> set (shipment_tbl s). s_id sh = foreignId"
      and "\<forall>sh \<in> set (shipment_tbl s). s_id sh = foreignId \<longrightarrow> s_userId sh \<noteq> u_id user"
      and "\<forall>sh \<in> set (shipment_tbl s). s_id sh \<noteq> missingId"
  shows "getShipmentByIdAction env foreignId s = None
       \<and> getShipmentByIdAction env missingId s = getShipmentByIdAction env foreignId s"
proof -
  have "shipment_findUnique_owned foreignId (u_id user) s = None"
    using assms(3) by (rule shipment_findUnique_owned_None)
  moreover have "shipment_findUnique_owned missingId (u_id user) s = None"
    using assms(4) by (intro shipment_findUnique_owned_None) simp
  ultimately show ?thesis
    using assms(1) by (simp add: getShipmentByIdAction_def and_then_def)
qed

text \<open>
  The theorem at a call of Bob for the shipment of Alice and for an unknown
  identifier; Alice herself gets her shipment.
\<close>

theorem getShipmentById_conflates_missing_and_foreign_witness:
  "getCurrentUser bob_env = Inr bob
   \<and> map s_id (shipment_tbl after_first) = [''s1'']
   \<and> map s_userId (shipment_tbl after_first) = [''user-alice'']
   \<and> u_id bob = ''user-bob''
   \<and> getShipmentByIdAction bob_env ''s1'' after_first = None
   \<and> getShipmentByIdAction bob_env ''s404'' after_first = None
   \<and> getShipmentByIdAction alice_env ''s1'' after_first \<noteq> None"
proof -
  have a: "\<exists>sh \<in> set (shipment_tbl after_first). s_id sh = ''s1''"
    by (simp add: after_first_shipments first_shipment_simps)
  have b: "\<forall>sh \<in> set (shipment_tbl after_first). s_id sh = ''s1'' \<longrightarrow> s_userId sh \<noteq> u_id bob"
    by (simp add: after_first_shipments first_shipment_simps bob_def)
  have c: "\<forall>sh \<in> set (shipment_tbl after_first). s_id sh \<noteq> ''s404''"
    by (simp add: after_first_shipments first_shipment_simps)
  have own: "getShipmentByIdAction alice_env ''s1'' after_first \<noteq> None"
    by (simp add: getShipmentByIdAction_def getCurrentUser_alice and_then_def
          shipment_findUnique_owned_def after_first_def empty_store_def first_shipment_simps
          alice_def project_shipment_def shipment_consignee_def shipment_exporter_def
          first_shipment_def consignee_findUnique_def exporter_findUnique_def
          acme_row_def globex_row_def new_shipment_def JSON_stringify_def parse_or_def
          alice_env_simps ids1_def)
  from getShipmentById_conflates_missing_and_foreign [OF getCurrentUser_bob a b c] own
  show ?thesis
    by (simp add: getCurrentUser_bob after_first_shipments first_shipment_simps bob_def)
qed

subsection \<open>C9: recording an upload in the documents checklist\<close>

text \<open>
  C9. Take a \<open>processDocumentUploadAction\<close> call of a user on a shipment of that user
  whose documents blob parses to a list. When no entry of the list has the name
  \<open>documentType\<close>, a call that returns leaves the datastore as it was, and the call
  does return, with the simulated URL and the status \<open>draft\<close>, when no entry is
  \<open>null\<close>. In general, after a call that returns, the stored documents blob encodes a
  list of the same length in which every entry of another name is unchanged and every
  entry named \<open>documentType\<close> has its \<open>status\<close> set to \<open>draft\<close> and its \<open>files\<close> set
  to its earlier file list (empty when it had none) followed by the new URL. The call
  returns whenever every entry is an object whose \<open>files\<close> is absent or a list.
\<close>

theorem processDocumentUpload_checklist:
  assumes user: "getCurrentUser env = Inr user"
      and found: "shipment_findUnique shipmentId s = Some shipment"
      and owner: "s_userId shipment = u_id user"
      and parse: "JSON_parse (s_documentsData shipment) = Inr (JArr documents)"
  shows "((\<forall>d \<in> set documents. \<not> doc_named documentType d) \<longrightarrow>
            (\<forall>res s'. processDocumentUploadAction env shipmentId documentType f s = Inr (res, s')
                       \<longrightarrow> s' = s)
          \<and> ((\<forall>d \<in> set documents. d \<noteq> JNull) \<longrightarrow>
               processDocumentUploadAction env shipmentId documentType f s
                 = Inr (\<lparr> up_success = True,
                          up_fileUrl = simulatedUrl shipmentId documentType env f,
                          up_status = ''draft'' \<rparr>, s)))
       \<and> (\<forall>res s'. processDocumentUploadAction env shipmentId documentType f s = Inr (res, s') \<longrightarrow>
            (\<exists>updated.
                shipment_findUnique shipmentId s'
                  = Some (shipment\<lparr>s_documentsData := JSON_stringify (JArr updated)\<rparr>)
              \<and> length updated = length documents
              \<and> (\<forall>i < length documents.
                    if doc_named documentType (documents ! i) then
                      (\<exists>doc files.
                          documents ! i = JObj doc
                        \<and> spread (or_else (map_of doc ''files'') (Some (JArr []))) = Inr files
                        \<and> (\<forall>fs. map_of doc ''files'' = Some (JArr fs) \<longrightarrow> files = fs)
                        \<and> (map_of doc ''files'' = None \<longrightarrow> files = [])
                        \<and> updated ! i =
                            JObj (AList.update ''files''
                                    (JArr (files @ [JStr (simulatedUrl shipmentId documentType env f)]))
                                    (AList.update ''status'' (JStr ''draft'') doc)))
                    else updated ! i = documents ! i)))
       \<and> (list_all entry_wellformed documents \<longrightarrow>
            (\<exists>res s'. processDocumentUploadAction env shipmentId documentType f s = Inr (res, s')))"
proof -
  let ?url = "simulatedUrl shipmentId documentType env f"
  let ?g = "\<lambda>updated r. r\<lparr>s_documentsData := JSON_stringify (JArr updated)\<rparr>"
  note eq = processDocumentUpload_Inr [OF user found owner parse, of documentType f]
  have blob: "s_documentsData shipment = JSON_stringify (JArr documents)"
    using parse by (cases "s_documentsData shipment") (simp_all add: JSON_stringify_def)
  have same: "s\<lparr>shipment_tbl := update_first (\<lambda>r. s_id r = shipmentId) (?g documents)
                                   (shipment_tbl s)\<rparr> = s"
  proof -
    have "?g documents shipment = shipment" using blob by simp
    with found have "update_first (\<lambda>r. s_id r = shipmentId) (?g documents) (shipment_tbl s)
                       = shipment_tbl s"
      unfolding shipment_findUnique_def by (rule update_first_id)
    then show ?thesis by simp
  qed
  have part1: "\<forall>res s'. processDocumentUploadAction env shipmentId documentType f s = Inr (res, s')
                       \<longrightarrow> s' = s"
    if none: "\<forall>d \<in> set documents. \<not> doc_named documentType d"
  proof (intro allI impI)
    fix res s'
    assume call: "processDocumentUploadAction env shipmentId documentType f s = Inr (res, s')"
    then obtain updated where
      m: "map_exn (upload_to_doc documentType ?url) documents = Inr updated" and
      s': "s' = s\<lparr>shipment_tbl := update_first (\<lambda>r. s_id r = shipmentId) (?g updated)
                                        (shipment_tbl s)\<rparr>"
      unfolding eq by (auto split: sum.splits)
    from map_exn_unnamed [OF none m] have "updated = documents" .
    with s' same show "s' = s" by simp
  qed
  have part1b: "processDocumentUploadAction env shipmentId documentType f s
                 = Inr (\<lparr> up_success = True, up_fileUrl = ?url, up_status = ''draft'' \<rparr>, s)"
    if none: "\<forall>d \<in> set documents. \<not> doc_named documentType d"
      and nonnull: "\<forall>d \<in> set documents. d \<noteq> JNull"
  proof -
    from none nonnull have "map_exn (upload_to_doc documentType ?url) documents = Inr documents"
      by (intro map_exn_unnamed_total) simp
    then show ?thesis unfolding eq using same by simp
  qed
  have part2: "\<exists>updated.
                shipment_findUnique shipmentId s'
                  = Some (shipment\<lparr>s_documentsData := JSON_stringify (JArr updated)\<rparr>)
              \<and> length updated = length documents
              \<and> (\<forall>i < length documents.
                    if doc_named documentType (documents ! i) then
                      (\<exists>doc files.
                          documents ! i = JObj doc
                        \<and> spread (or_else (map_of doc ''files'') (Some (JArr []))) = Inr files
                        \<and> (\<forall>fs. map_of doc ''files'' = Some (JArr fs) \<longrightarrow> files = fs)
                        \<and> (map_of doc ''files'' = None \<longrightarrow> files = [])
                        \<and> updated ! i =
                            JObj (AList.update ''files'' (JArr (files @ [JStr ?url]))
                                    (AList.update ''status'' (JStr ''draft'') doc)))
                    else updated ! i = documents ! i)"
    if call: "processDocumentUploadAction env shipmentId documentType f s = Inr (res, s')"
    for res s'
  proof -
    from call obtain updated where
      m: "map_exn (upload_to_doc documentType ?url) documents = Inr updated" and
      s': "s' = s\<lparr>shipment_tbl := update_first (\<lambda>r. s_id r = shipmentId) (?g updated)
                                        (shipment_tbl s)\<rparr>"
      unfolding eq by (auto split: sum.splits)
    from m have l2: "list_all2 (\<lambda>d d'. upload_to_doc documentType ?url d = Inr d') documents updated"
      by (simp add: map_exn_Inr_iff)
    have stored: "shipment_findUnique shipmentId s' = Some (?g updated shipment)"
      unfolding s' using shipment_update_found(2) [OF found, of "?g updated"] by simp
    have len: "length updated = length documents"
      using l2 by (simp add: list_all2_lengthD)
    have each: "if doc_named documentType (documents ! i) then
                      (\<exists>doc files.
                          documents ! i = JObj doc
                        \<and> spread (or_else (map_of doc ''files'') (Some (JArr []))) = Inr files
                        \<and> (\<forall>fs. map_of doc ''files'' = Some (JArr fs) \<longrightarrow> files = fs)
                        \<and> (map_of doc ''files'' = None \<longrightarrow> files = [])
                        \<and> updated ! i =
                            JObj (AList.update ''files'' (JArr (files @ [JStr ?url]))
                                    (AList.update ''status'' (JStr ''draft'') doc)))
                    else updated ! i = documents ! i"
      if i: "i < length documents" for i
    proof -
      have u: "upload_to_doc documentType ?url (documents ! i) = Inr (updated ! i)"
        using list_all2_nthD [OF l2 i] by simp
      show ?thesis
      proof (cases "doc_named documentType (documents ! i)")
        case True
        from upload_to_doc_named [OF True u] obtain doc files where
          d: "documents ! i = JObj doc" and
          sp: "spread (or_else (map_of doc ''files'') (Some (JArr []))) = Inr files" and
          u': "updated ! i = JObj (AList.update ''files'' (JArr (files @ [JStr ?url]))
                                    (AList.update ''status'' (JStr ''draft'') doc))"
          by blast
        from sp have "\<forall>fs. map_of doc ''files'' = Some (JArr fs) \<longrightarrow> files = fs"
          by (auto simp: or_else_def)
        moreover from sp have "map_of doc ''files'' = None \<longrightarrow> files = []"
          by (auto simp: or_else_def)
        ultimately show ?thesis using True d sp u' by auto
      next
        case False
        with upload_to_doc_unnamed [OF False u] show ?thesis by simp
      qed
    qed
    from stored len each show ?thesis by blast
  qed
  have part3: "\<exists>res s'. processDocumentUploadAction env shipmentId documentType f s = Inr (res, s')"
    if "list_all entry_wellformed documents"
    using that by (rule processDocumentUpload_returns [OF user found owner parse])
  from part1 part1b part2 part3 show ?thesis by blast
qed

text \<open>
  The theorem at a checklist of two entries: an upload of a type that is not in the
  checklist changes nothing, and an upload for the second entry, which has no files
  yet, sets its status and its file list and leaves the first entry alone.
\<close>

theorem processDocumentUpload_checklist_witness:
  "getCurrentUser alice_env = Inr alice
   \<and> shipment_findUnique ''s1'' checklist_store = Some checklist_shipment
   \<and> s_userId checklist_shipment = u_id alice
   \<and> JSON_parse (s_documentsData checklist_shipment) = Inr (JArr [bl_entry, invoice_entry])
   \<and> list_all entry_wellformed [bl_entry, invoice_entry]
   \<and> processDocumentUploadAction alice_env ''s1'' ''Packing List'' a_file checklist_store
       = Inr (\<lparr> up_success = True,
                up_fileUrl = simulatedUrl ''s1'' ''Packing List'' alice_env a_file,
                up_status = ''draft'' \<rparr>, checklist_store)
   \<and> (\<exists>res s' updated.
          processDocumentUploadAction alice_env ''s1'' ''Commercial Invoice'' a_file checklist_store
            = Inr (res, s')
        \<and> shipment_findUnique ''s1'' s'
            = Some (checklist_shipment\<lparr>s_documentsData := JSON_stringify (JArr updated)\<rparr>)
        \<and> length updated = 2
        \<and> updated ! 0 = bl_entry
        \<and> updated ! 1 =
            JObj [(''name'', JStr ''Commercial Invoice''), (''status'', JStr ''draft''),
                  (''files'',
                   JArr [JStr ''/simulated-uploads/s1/Commercial Invoice-1767225600000-bl.pdf''])])"
proof -
  note hyps = getCurrentUser_alice checklist_found checklist_shipment_simps(2,3)
  note chk = processDocumentUpload_checklist [OF hyps]
  have unmatched: "\<forall>d \<in> set [bl_entry, invoice_entry]. \<not> doc_named ''Packing List'' d"
    by (simp add: bl_entry_def invoice_entry_def)
  have nonnull: "\<forall>d \<in> set [bl_entry, invoice_entry]. d \<noteq> JNull"
    by (simp add: bl_entry_def invoice_entry_def)
  from chk [of "''Packing List''" a_file] unmatched nonnull
  have first: "processDocumentUploadAction alice_env ''s1'' ''Packing List'' a_file checklist_store
       = Inr (\<lparr> up_success = True,
                up_fileUrl = simulatedUrl ''s1'' ''Packing List'' alice_env a_file,
                up_status = ''draft'' \<rparr>, checklist_store)"
    by blast
  have wf: "list_all entry_wellformed [bl_entry, invoice_entry]"
    by (simp add: bl_entry_def invoice_entry_def)
  from chk [of "''Commercial Invoice''" a_file] wf obtain res s' where call:
    "processDocumentUploadAction alice_env ''s1'' ''Commercial Invoice'' a_file checklist_store
       = Inr (res, s')"
    by blast
  from chk [of "''Commercial Invoice''" a_file] call obtain updated where
    stored: "shipment_findUnique ''s1'' s'
            = Some (checklist_shipment\<lparr>s_documentsData := JSON_stringify (JArr updated)\<rparr>)" and
    len: "length updated = length [bl_entry, invoice_entry]" and
    each: "\<forall>i < length [bl_entry, invoice_entry].
             if doc_named ''Commercial Invoice'' ([bl_entry, invoice_entry] ! i) then
               (\<exists>doc files.
                   [bl_entry, invoice_entry] ! i = JObj doc
                 \<and> spread (or_else (map_of doc ''files'') (Some (JArr []))) = Inr files
                 \<and> (\<forall>fs. map_of doc ''files'' = Some (JArr fs) \<longrightarrow> files = fs)
                 \<and> (map_of doc ''files'' = None \<longrightarrow> files = [])
                 \<and> updated ! i =
                     JObj (AList.update ''files''
                        (JArr (files @ [JStr (simulatedUrl ''s1'' ''Commercial Invoice'' alice_env a_file)]))
                        (AList.update ''status'' (JStr ''draft'') doc)))
             else updated ! i = [bl_entry, invoice_entry] ! i"
    by blast
  from each [rule_format, of 0] have u0: "updated ! 0 = bl_entry"
    by (simp add: bl_entry_def)
  from each [rule_format, of 1] have u1: "updated ! 1 =
            JObj [(''name'', JStr ''Commercial Invoice''), (''status'', JStr ''draft''),
                  (''files'',
                   JArr [JStr ''/simulated-uploads/s1/Commercial Invoice-1767225600000-bl.pdf''])]"
    by (auto simp: invoice_entry_def invoice_url)
  from hyps wf first call stored len u0 u1 show ?thesis
    by auto
qed

subsection \<open>C10: the format of the reference number\<close>

text \<open>
  C10. For every successful \<open>createShipmentAction\<close> call, for any current year of
  at least two digits (the year of a running clock has four) and any draw of
  \<open>Math.random()\<close>, which is a Number that is at least 0 and below 1, the product of the
  draw and \<open>10000\<close>, rounded as the multiplication of Numbers rounds it, has a floor from
  0 to 9999. The reference number is \<open>CLEX-\<close>, the shipment type, the last two decimal
  digits of the year, a dash, and that floor as a zero-padded number of four digits; it
  matches the pattern \<^verbatim>\<open>CLEX-<type><2-digit-year>-<4-digit-number>\<close> and is the one
  stored with the shipment. It is not unique: any other successful call of the same
  type in the same year whose draw gives the same floor gets the same reference number.
\<close>

theorem createShipment_reference_format:
  assumes "createShipmentAction env shipmentType formData s = Inr (r, s')"
      and "10 \<le> getFullYear (now env)"
      and "is_binary64 (random env)" and "Number_value (random env) < 1"
  shows "0 \<le> Math_floor (Number_times (random env) (Number_of_nat 10000))
       \<and> Math_floor (Number_times (random env) (Number_of_nat 10000)) < 10000
       \<and> cr_referenceNumber r =
           ''CLEX-'' @ shipmentType
             @ [digit_char (nat (getFullYear (now env)) div 10 mod 10),
                digit_char (nat (getFullYear (now env)) mod 10)]
             @ ''-''
             @ [digit_char
                  (nat (Math_floor (Number_times (random env) (Number_of_nat 10000))) div 1000),
                digit_char
                   (nat (Math_floor (Number_times (random env) (Number_of_nat 10000))) div 100 mod 10),
                digit_char
                   (nat (Math_floor (Number_times (random env) (Number_of_nat 10000))) div 10 mod 10),
                digit_char
                   (nat (Math_floor (Number_times (random env) (Number_of_nat 10000))) mod 10)]
       \<and> reference_pattern shipmentType (cr_referenceNumber r)
       \<and> s_referenceNumber (cr_shipment r) = cr_referenceNumber r
       \<and> (\<forall>env2 formData2 s2 r2 s2'.
             createShipmentAction env2 shipmentType formData2 s2 = Inr (r2, s2')
             \<and> getFullYear (now env2) = getFullYear (now env)
             \<and> Math_floor (Number_times (random env2) (Number_of_nat 10000))
                 = Math_floor (Number_times (random env) (Number_of_nat 10000))
             \<longrightarrow> cr_referenceNumber r2 = cr_referenceNumber r)"
proof -
  have ref: "cr_referenceNumber r = referenceNumber shipmentType env"
    and stored: "s_referenceNumber (cr_shipment r) = referenceNumber shipmentType env"
    using createShipmentAction_reference [OF assms(1)] by simp_all
  have lo: "0 \<le> Math_floor (Number_times (random env) (Number_of_nat 10000))"
    by (rule random_times_10000_floor(1) [OF assms(3,4)])
  have hi: "Math_floor (Number_times (random env) (Number_of_nat 10000)) < 10000"
    by (rule random_times_10000_floor(2) [OF assms(3,4)])
  have fmt: "referenceNumber shipmentType env =
           ''CLEX-'' @ shipmentType
             @ [digit_char (nat (getFullYear (now env)) div 10 mod 10),
                digit_char (nat (getFullYear (now env)) mod 10)]
             @ ''-''
             @ [digit_char
                  (nat (Math_floor (Number_times (random env) (Number_of_nat 10000))) div 1000),
                digit_char
                   (nat (Math_floor (Number_times (random env) (Number_of_nat 10000))) div 100 mod 10),
                digit_char
                   (nat (Math_floor (Number_times (random env) (Number_of_nat 10000))) div 10 mod 10),
                digit_char
                   (nat (Math_floor (Number_times (random env) (Number_of_nat 10000))) mod 10)]"
    by (rule referenceNumber_digits [OF assms(2-4)])
  have pat: "reference_pattern shipmentType (referenceNumber shipmentType env)"
    by (subst fmt) (rule reference_pattern_digits)
  have coll: "\<forall>env2 formData2 s2 r2 s2'.
             createShipmentAction env2 shipmentType formData2 s2 = Inr (r2, s2')
             \<and> getFullYear (now env2) = getFullYear (now env)
             \<and> Math_floor (Number_times (random env2) (Number_of_nat 10000))
                 = Math_floor (Number_times (random env) (Number_of_nat 10000))
             \<longrightarrow> cr_referenceNumber r2 = cr_referenceNumber r"
    using createShipmentAction_reference referenceNumber_cong ref by metis
  show ?thesis
    using lo hi ref stored fmt pat coll by simp
qed

text \<open>
  The theorem at a concrete call in the year 2026 with the draw \<open>0.0042\<close>, followed by a
  second call with the same draw, which gets the same reference number. The product of
  this draw and \<open>10000\<close> rounds to 42, where the exact product has the floor 41.
\<close>

theorem createShipment_reference_format_witness:
  "10 \<le> getFullYear (now alice_env)
   \<and> is_binary64 (random alice_env) \<and> Number_value (random alice_env) < 1
   \<and> Math_floor (Number_times (random alice_env) (Number_of_nat 10000)) = 42
   \<and> (\<exists>r s'. createShipmentAction alice_env ''IMS'' empty_formData empty_store = Inr (r, s')
          \<and> cr_referenceNumber r = ''CLEX-IMS26-0042''
          \<and> reference_pattern ''IMS'' (cr_referenceNumber r)
          \<and> s_referenceNumber (cr_shipment r) = ''CLEX-IMS26-0042''
          \<and> (\<exists>r2 s2. createShipmentAction (alice_env\<lparr>newId := ids2\<rparr>) ''IMS'' empty_formData s'
                         = Inr (r2, s2)
                \<and> cr_referenceNumber r2 = ''CLEX-IMS26-0042''))"
proof -
  let ?sh1 = "new_shipment alice_env alice ''IMS'' empty_formData None None"
  let ?r1 = "\<lparr> cr_success = True, cr_referenceNumber = referenceNumber ''IMS'' alice_env,
               cr_shipment = ?sh1 \<rparr>"
  let ?s1 = "empty_store\<lparr>shipment_tbl := shipment_tbl empty_store @ [?sh1]\<rparr>"
  let ?env2 = "alice_env\<lparr>newId := ids2\<rparr>"
  let ?sh2 = "new_shipment ?env2 alice ''IMS'' empty_formData None None"
  let ?r2 = "\<lparr> cr_success = True, cr_referenceNumber = referenceNumber ''IMS'' ?env2,
               cr_shipment = ?sh2 \<rparr>"
  let ?s2 = "?s1\<lparr>shipment_tbl := shipment_tbl ?s1 @ [?sh2]\<rparr>"
  have year: "10 \<le> getFullYear (now alice_env)"
    by (simp add: alice_env_simps new_year_2026_def)
  have draw: "is_binary64 (random alice_env)" "Number_value (random alice_env) < 1"
    by (simp_all add: alice_env_simps draw_0042_unit)
  have call1: "createShipmentAction alice_env ''IMS'' empty_formData empty_store = Inr (?r1, ?s1)"
    by (rule createShipmentAction_without_clients)
       (simp_all add: getCurrentUser_alice empty_formData_def empty_store_def)
  have call2: "createShipmentAction ?env2 ''IMS'' empty_formData ?s1 = Inr (?r2, ?s2)"
    by (rule createShipmentAction_without_clients)
       (simp_all add: getCurrentUser_def alice_env_def empty_formData_def empty_store_def
          new_shipment_def ids1_def ids2_def)
  note fmt = createShipment_reference_format [OF call1 year draw]
  have digits: "nat (getFullYear (now alice_env)) = 2026"
    "Math_floor (Number_times (random alice_env) (Number_of_nat 10000)) = 42"
    by (simp_all add: alice_env_simps new_year_2026_def draw_0042_floor)
  have ref1: "cr_referenceNumber ?r1 = ''CLEX-IMS26-0042''"
    using fmt unfolding digits by (simp add: digit_char_def)
  from fmt have "createShipmentAction ?env2 ''IMS'' empty_formData ?s1 = Inr (?r2, ?s2)
        \<and> getFullYear (now ?env2) = getFullYear (now alice_env)
        \<and> Math_floor (Number_times (random ?env2) (Number_of_nat 10000))
            = Math_floor (Number_times (random alice_env) (Number_of_nat 10000))
      \<longrightarrow> cr_referenceNumber ?r2 = cr_referenceNumber ?r1"
    by blast
  with call2 have ref2: "cr_referenceNumber ?r2 = cr_referenceNumber ?r1"
    by simp
  have pat: "reference_pattern ''IMS'' (cr_referenceNumber ?r1)"
    using fmt by blast
  have stored: "s_referenceNumber (cr_shipment ?r1) = cr_referenceNumber ?r1"
    using fmt by blast
  show ?thesis
    using year draw digits(2) call1 call2 ref1 ref2 pat stored by simp
qed

text \<open>
  The rounding of the product decides the number at the draw \<open>0.0121\<close> as well: the
  exact product is below 121, the product of Numbers is 121, and the call returns a
  reference number that ends in \<open>0121\<close>.
\<close>

lemma createShipment_reference_at_draw_0121:
  "\<lfloor>Number_value draw_0121 * 10000\<rfloor> = 120
   \<and> Math_floor (Number_times draw_0121 (Number_of_nat 10000)) = 121
   \<and> (\<exists>r s'. createShipmentAction (alice_env\<lparr>random := draw_0121\<rparr>) ''IMS'' empty_formData
                   empty_store = Inr (r, s')
          \<and> cr_referenceNumber r = ''CLEX-IMS26-0121''
          \<and> s_referenceNumber (cr_shipment r) = ''CLEX-IMS26-0121'')"
proof -
  let ?env = "alice_env\<lparr>random := draw_0121\<rparr>"
  let ?sh = "new_shipment ?env alice ''IMS'' empty_formData None None"
  let ?r = "\<lparr> cr_success = True, cr_referenceNumber = referenceNumber ''IMS'' ?env,
              cr_shipment = ?sh \<rparr>"
  let ?s = "empty_store\<lparr>shipment_tbl := shipment_tbl empty_store @ [?sh]\<rparr>"
  have call: "createShipmentAction ?env ''IMS'' empty_formData empty_store = Inr (?r, ?s)"
    by (rule createShipmentAction_without_clients)
       (simp_all add: getCurrentUser_def alice_env_def empty_formData_def empty_store_def)
  have "referenceNumber ''IMS'' ?env =
           ''CLEX-'' @ ''IMS''
             @ [digit_char (nat (getFullYear (now ?env)) div 10 mod 10),
                digit_char (nat (getFullYear (now ?env)) mod 10)]
             @ ''-''
             @ [digit_char
                  (nat (Math_floor (Number_times (random ?env) (Number_of_nat 10000))) div 1000),
                digit_char
                   (nat (Math_floor (Number_times (random ?env) (Number_of_nat 10000))) div 100 mod 10),
                digit_char
                   (nat (Math_floor (Number_times (random ?env) (Number_of_nat 10000))) div 10 mod 10),
                digit_char
                   (nat (Math_floor (Number_times (random ?env) (Number_of_nat 10000))) mod 10)]"
    by (rule referenceNumber_digits)
       (simp_all add: alice_env_simps new_year_2026_def draw_0121_unit)
  then have ref: "referenceNumber ''IMS'' ?env = ''CLEX-IMS26-0121''"
    by (simp add: alice_env_simps new_year_2026_def draw_0121_floor digit_char_def)
  have "s_referenceNumber ?sh = referenceNumber ''IMS'' ?env"
    by (simp add: new_shipment_def)
  with call ref show ?thesis
    by (simp add: draw_0121_floor)
qed

end
